theory Spec2Isabelle
  imports Complex_Main "HOL-Library.AList"
begin

section \<open>JavaScript values\<close>

text \<open>
  The query layer is written in TypeScript; rows, condition operands and records are
  loose key/value maps (association lists in insertion order) whose values are arbitrary
  JavaScript values. A number is an IEEE 754 double: \<open>NaN\<close>, one of the two
  infinities, the negative zero, or a double \<open>Num r\<close> written with its exact value \<open>r\<close>
  (\<open>Num 0\<close> is the positive zero); the arithmetic below rounds every exact result to the
  nearest double. Objects other than arrays are opaque and carry a
  reference, since \<open>===\<close> compares objects by identity. \<open>JBuiltin k\<close> is the built-in
  function or object that every plain object inherits from \<open>Object.prototype\<close> under the
  key \<open>k\<close> (\<open>constructor\<close>, \<open>toString\<close>, ..., and \<open>Object.prototype\<close> itself under
  \<open>__proto__\<close>). A string is a list of code units below 256.
\<close>

datatype jsnum = NaN | Num rat | NegZero | PosInfinity | NegInfinity

datatype jsval =
    JUndefined
  | JNull
  | JBool bool
  | JNumber jsnum
  | JStr string
  | JArr "jsval list"
  | JObject nat
  | JBuiltin string

text \<open>Truthiness (\<open>if (v)\<close>, \<open>v || d\<close>, \<open>!v\<close>).\<close>

fun truthy :: "jsval \<Rightarrow> bool" where
  "truthy JUndefined = False"
| "truthy JNull = False"
| "truthy (JBool b) = b"
| "truthy (JNumber NaN) = False"
| "truthy (JNumber (Num r)) = (r \<noteq> 0)"
| "truthy (JNumber NegZero) = False"
| "truthy (JNumber PosInfinity) = True"
| "truthy (JNumber NegInfinity) = True"
| "truthy (JStr s) = (s \<noteq> [])"
| "truthy (JArr xs) = True"
| "truthy (JObject r) = True"
| "truthy (JBuiltin k) = True"

text \<open>
  \<open>typeof v === 'object'\<close> (true of \<open>null\<close>, arrays and objects; the inherited built-ins
  are functions, but for \<open>Object.prototype\<close>).
\<close>

fun typeof_object :: "jsval \<Rightarrow> bool" where
  "typeof_object JNull = True"
| "typeof_object (JArr xs) = True"
| "typeof_object (JObject r) = True"
| "typeof_object (JBuiltin k) = (k = ''__proto__'')"
| "typeof_object v = False"

text \<open>
  The built-in conversions of the host. What ECMAScript fixes for the primitive cases is
  written out; the conversions that depend on number formatting, on the numeric-string
  grammar or on the content of an object are functions of the host, taken as parameters
  (\<open>term_value\<close> reads the \<open>value\<close> property of an object, if it has one).
\<close>

type_synonym row = "(string \<times> jsval) list"

record js_host =
  numberToString :: "jsnum \<Rightarrow> string"
  stringToNumber :: "string \<Rightarrow> jsnum"
  objectToString :: "jsval \<Rightarrow> string"
  objectToNumber :: "jsval \<Rightarrow> jsnum"
  json_stringify :: "jsval \<Rightarrow> string"
  json_stringify_row :: "row \<Rightarrow> string"
  term_value :: "jsval \<Rightarrow> string option"
  regexp_test :: "string \<Rightarrow> string \<Rightarrow> string \<Rightarrow> bool option"

text \<open>\<open>String(v)\<close>, also what a template literal does to an interpolated value.\<close>

fun js_String :: "js_host \<Rightarrow> jsval \<Rightarrow> string" where
  "js_String H JUndefined = ''undefined''"
| "js_String H JNull = ''null''"
| "js_String H (JBool b) = (if b then ''true'' else ''false'')"
| "js_String H (JNumber n) = numberToString H n"
| "js_String H (JStr s) = s"
| "js_String H (JArr xs) = objectToString H (JArr xs)"
| "js_String H (JObject r) = objectToString H (JObject r)"
| "js_String H (JBuiltin k) = objectToString H (JBuiltin k)"

text \<open>\<open>Number(v)\<close>.\<close>

fun js_Number :: "js_host \<Rightarrow> jsval \<Rightarrow> jsnum" where
  "js_Number H JUndefined = NaN"
| "js_Number H JNull = Num 0"
| "js_Number H (JBool b) = (if b then Num 1 else Num 0)"
| "js_Number H (JNumber n) = n"
| "js_Number H (JStr s) = stringToNumber H s"
| "js_Number H (JArr xs) = objectToNumber H (JArr xs)"
| "js_Number H (JObject r) = objectToNumber H (JObject r)"
| "js_Number H (JBuiltin k) = objectToNumber H (JBuiltin k)"

text \<open>Decimal digits of a natural number: what \<open>String(n)\<close> is on a non-negative integer.\<close>

fun decimal :: "nat \<Rightarrow> string" where
  "decimal n =
     (if n < 10 then [char_of (48 + n)]
      else decimal (n div 10) @ [char_of (48 + n mod 10)])"

text \<open>
  A host for evaluating examples. It renders the integers in decimal, the zeros, the
  infinities and \<open>NaN\<close>; its other
  number and object conversions are placeholders, and the examples below only use values
  on which the conversions fixed above decide.
\<close>

definition plain_numberToString :: "jsnum \<Rightarrow> string" where
  "plain_numberToString n =
     (case n of
        NaN \<Rightarrow> ''NaN''
      | Num r \<Rightarrow> (if of_int (floor r) = r
                   then (if 0 \<le> r then decimal (nat (floor r))
                         else CHR ''-'' # decimal (nat (- floor r)))
                   else ''NaN'')
      | NegZero \<Rightarrow> ''0''
      | PosInfinity \<Rightarrow> ''Infinity''
      | NegInfinity \<Rightarrow> ''-Infinity'')"

definition plain_host :: js_host where
  "plain_host = \<lparr> numberToString = plain_numberToString, stringToNumber = (\<lambda>s. NaN),
     objectToString = (\<lambda>v. ''[object Object]''), objectToNumber = (\<lambda>v. NaN),
     json_stringify = (\<lambda>v. ''{}''), json_stringify_row = (\<lambda>r. ''{}''),
     term_value = (\<lambda>v. None), regexp_test = (\<lambda>src flags s. None) \<rparr>"

section \<open>String primitives\<close>

definition startsWith :: "string \<Rightarrow> string \<Rightarrow> bool" where
  "startsWith s p = (take (length p) s = p)"

text \<open>\<open>s.replace(/\/$/, '')\<close>: one trailing slash removed.\<close>

definition stripTrailingSlash :: "string \<Rightarrow> string" where
  "stripTrailingSlash s = (if s \<noteq> [] \<and> last s = CHR ''/'' then butlast s else s)"

text \<open>\<open>s.replace(/^\//, '')\<close>: one leading slash removed.\<close>

fun stripLeadingSlash :: "string \<Rightarrow> string" where
  "stripLeadingSlash [] = []"
| "stripLeadingSlash (c # cs) = (if c = CHR ''/'' then cs else c # cs)"

text \<open>\<open>s.replace(/c/g, r)\<close> for a single character \<open>c\<close>.\<close>

definition replaceAllChar :: "char \<Rightarrow> string \<Rightarrow> string \<Rightarrow> string" where
  "replaceAllChar c r s = concat (map (\<lambda>x. if x = c then r else [x]) s)"

text \<open>\<open>s.split('/')\<close>.\<close>

fun splitOn :: "char \<Rightarrow> string \<Rightarrow> string list" where
  "splitOn d [] = [[]]"
| "splitOn d (c # cs) =
     (case splitOn d cs of
        [] \<Rightarrow> [[c]]
      | p # ps \<Rightarrow> if c = d then [] # p # ps else (c # p) # ps)"

section \<open>Schema model (pod-table.ts)\<close>

record NamespaceConfig =
  ns_prefix :: string
  ns_uri :: string

record PodColumnOptions =
  primaryKey :: bool
  required :: bool
  opt_predicate :: "string option"
  referenceTarget :: "string option"

record PodColumnBase =
  col_name :: string
  dataType :: string
  options :: PodColumnOptions

text \<open>\<open>COMMON_NAMESPACES.schema.uri\<close>.\<close>

definition schema_uri :: string where
  "schema_uri = ''https://schema.org/''"

text \<open>An optional string field is truthy when it is present and not empty.\<close>

fun truthyStr :: "string option \<Rightarrow> bool" where
  "truthyStr None = False"
| "truthyStr (Some s) = (s \<noteq> [])"

text \<open>\<open>PodColumnBase.getPredicate(tableNamespace?)\<close>.\<close>

definition getPredicate :: "PodColumnBase \<Rightarrow> NamespaceConfig option \<Rightarrow> string" where
  "getPredicate c tableNamespace =
     (if truthyStr (opt_predicate (options c)) then the (opt_predicate (options c))
      else case tableNamespace of
             Some ns \<Rightarrow> ns_uri ns @ col_name c
           | None \<Rightarrow> schema_uri @ col_name c)"

record TableConfig =
  tbl_name :: string
  containerPath :: string
  rdfClass :: string
  namespace :: "NamespaceConfig option"

text \<open>
  A table. \<open>tbl_id\<close> stands for the identity of the table object (the builder keys its
  alias map by table object); \<open>columns\<close> keeps the insertion order of the column map.
  The \<open>Map\<close> objects of the builder are association lists.
\<close>

record PodTable =
  tbl_id :: nat
  config :: TableConfig
  columns :: "(string \<times> PodColumnBase) list"

definition getColumn :: "PodTable \<Rightarrow> string \<Rightarrow> PodColumnBase option" where
  "getColumn t n = map_of (columns t) n"

section \<open>SPARQL translator (ast-to-sparql.ts)\<close>

subsection \<open>Predicate of a column\<close>

text \<open>
  \<open>getPredicateForColumn(column: any, table)\<close> accepts any column-like object. A column of
  a table is a \<open>PodColumnBase\<close>: there \<open>column.predicate\<close> is the builder method of that
  name (not a string) and \<open>column.getPredicate\<close> is a function. A plain object may carry a
  string \<open>predicate\<close>, an \<open>options.predicate\<close> and may or may not have a \<open>getPredicate\<close>
  function.
\<close>

datatype column_like =
    Column PodColumnBase
  | PlainObject (obj_name: string) (obj_predicate: "string option")
      (obj_options_predicate: "string option")
      (obj_getPredicate: "(NamespaceConfig option \<Rightarrow> string) option")

definition defaultPredicates :: "(string \<times> string) list" where
  "defaultPredicates =
     [(''id'', ''http://www.w3.org/1999/02/22-rdf-syntax-ns#about''),
      (''name'', ''http://xmlns.com/foaf/0.1/name''),
      (''title'', ''http://purl.org/dc/terms/title''),
      (''description'', ''http://purl.org/dc/terms/description''),
      (''content'', ''http://purl.org/dc/terms/description''),
      (''createdAt'', ''https://schema.org/dateCreated''),
      (''updatedAt'', ''https://schema.org/dateModified''),
      (''created_at'', ''https://schema.org/dateCreated''),
      (''updated_at'', ''https://schema.org/dateModified''),
      (''email'', ''http://xmlns.com/foaf/0.1/mbox''),
      (''url'', ''http://xmlns.com/foaf/0.1/homepage''),
      (''homepage'', ''http://xmlns.com/foaf/0.1/homepage'')]"

text \<open>
  The tail of \<open>getPredicateForColumn\<close>, reached only by an object without a
  \<open>getPredicate\<close> function. The namespace is interpolated as an object
  (\<open>`${namespace}${column.name}`\<close>), which renders it as \<open>[object Object]\<close>.
\<close>

definition predicateFallback :: "string \<Rightarrow> PodTable \<Rightarrow> string" where
  "predicateFallback n t =
     (case namespace (config t) of
        Some ns \<Rightarrow> ''[object Object]'' @ n
      | None \<Rightarrow>
          (case map_of defaultPredicates n of
             Some uri \<Rightarrow> uri
           | None \<Rightarrow> ''http://example.org/'' @ n))"

fun getPredicateForColumn :: "column_like \<Rightarrow> PodTable \<Rightarrow> string" where
  "getPredicateForColumn (Column c) t =
     (if truthyStr (opt_predicate (options c)) then the (opt_predicate (options c))
      else getPredicate c (namespace (config t)))"
| "getPredicateForColumn (PlainObject n p op gp) t =
     (if truthyStr p then the p
      else if truthyStr op then the op
      else case gp of
             Some f \<Rightarrow> f (namespace (config t))
           | None \<Rightarrow> predicateFallback n t)"

subsection \<open>Subject URIs\<close>

text \<open>
  The converter holds the pod URL and the WebID. \<open>webId_pathname\<close> is the \<open>pathname\<close> of
  \<open>new URL(webId)\<close>: \<open>None\<close> when the WebID is empty or is not a URL (the constructor
  throws and the error is caught).
\<close>

record Converter =
  podUrl :: string
  webId_pathname :: "string option"

definition extractUserPathFromWebId :: "Converter \<Rightarrow> string" where
  "extractUserPathFromWebId cv =
     (case webId_pathname cv of
        None \<Rightarrow> []
      | Some p \<Rightarrow>
          (let pathParts = splitOn (CHR ''/'') p
           in if length pathParts \<ge> 2 then ''/'' @ pathParts ! 1 @ ''/'' else []))"

text \<open>
  \<open>generateSubjectUri(record, table)\<close>. Only the \<open>id\<close> of the record is read; \<open>now\<close> is
  the value of \<open>Date.now()\<close>.
\<close>

definition generateSubjectUri ::
  "js_host \<Rightarrow> Converter \<Rightarrow> jsnum \<Rightarrow> (string \<times> jsval) list \<Rightarrow> PodTable \<Rightarrow> string" where
  "generateSubjectUri H cv now rec t =
     (let userPath = extractUserPathFromWebId cv;
          cp = (if containerPath (config t) \<noteq> [] then containerPath (config t) else ''/data/'');
          cleanContainerPath = stripTrailingSlash cp;
          fullContainerPath =
            (if startsWith cleanContainerPath userPath then cleanContainerPath
             else userPath @ stripLeadingSlash cleanContainerPath);
          idv = (case map_of rec ''id'' of
                   Some v \<Rightarrow> if truthy v then v else JNumber now
                 | None \<Rightarrow> JNumber now);
          baseUri = podUrl cv @ fullContainerPath
      in baseUri @ ''#'' @ js_String H idv)"

subsection \<open>LIKE patterns\<close>

definition backslash :: char where
  "backslash = CHR 0x5C"

text \<open>The character class \<open>[.+^${}()|\[\]\\]\<close> of both LIKE translations.\<close>

definition likeEscaped :: "char \<Rightarrow> bool" where
  "likeEscaped c = (c \<in> set ''.+^${}()|[]'' \<or> c = backslash)"

text \<open>\<open>pattern.replace(/([.+^${}()|\[\]\\])/g, '\\$1')\<close>.\<close>

definition escapeLike :: "string \<Rightarrow> string" where
  "escapeLike p = concat (map (\<lambda>c. if likeEscaped c then [backslash, c] else [c]) p)"

record LikeRegex =
  regex :: string
  flags :: "string option"

text \<open>\<open>ASTToSPARQLConverter.convertLikePattern\<close>.\<close>

definition convertLikePattern :: "string \<Rightarrow> LikeRegex" where
  "convertLikePattern pattern =
     (let escaped = replaceAllChar (CHR ''_'') ''.''
                      (replaceAllChar (CHR ''%'') ''.*'' (escapeLike pattern))
      in \<lparr> regex = ''^'' @ escaped @ ''$'', flags = Some ''i'' \<rparr>)"

section \<open>Select query builder (pod-session.ts)\<close>

subsection \<open>Identifier of a row\<close>

text \<open>
  \<open>subject.match(/[^/#]+$/)\<close>: the match is the longest run of characters other than
  \<open>/\<close> and \<open>#\<close> that ends the string; there is none when the string ends with one of
  the two (or is empty).
\<close>

definition matchLastSegment :: "string \<Rightarrow> string option" where
  "matchLastSegment s =
     (let m = rev (takeWhile (\<lambda>c. c \<noteq> CHR ''/'' \<and> c \<noteq> CHR ''#'') (rev s))
      in if m = [] then None else Some m)"

text \<open>\<open>SelectQueryBuilder.extractIdFromSubject(subject?)\<close>; \<open>None\<close> is \<open>undefined\<close>.\<close>

fun extractIdFromSubject :: "string option \<Rightarrow> string option" where
  "extractIdFromSubject None = None"
| "extractIdFromSubject (Some subject) =
     (if subject = [] then None
      else case matchLastSegment subject of
             Some m \<Rightarrow> Some m
           | None \<Rightarrow> Some subject)"

subsection \<open>LIKE in the in-memory fallback\<close>

text \<open>The source of the regular expression \<open>computeLikeMatch\<close> builds.\<close>

definition likeRegexSource :: "string \<Rightarrow> string" where
  "likeRegexSource pattern =
     (let escaped = escapeLike pattern
      in ''^'' @ replaceAllChar (CHR ''_'') ''.'' (replaceAllChar (CHR ''%'') ''.*'' escaped) @ ''$'')"

text \<open>
  \<open>computeLikeMatch(value, pattern)\<close>: \<open>new RegExp(source, 'i').test(value)\<close>. The
  regular-expression engine is the host's; \<open>None\<close> is the \<open>SyntaxError\<close> the constructor
  throws on a source that is not a regular expression.
\<close>

definition computeLikeMatch :: "js_host \<Rightarrow> string \<Rightarrow> string \<Rightarrow> bool option" where
  "computeLikeMatch H v pattern = regexp_test H (likeRegexSource pattern) ''i'' v"

section \<open>Query conditions and aggregates (query-conditions.ts, aggregates.ts)\<close>

datatype cond_type = binary_expr | unary_expr | logical_expr

text \<open>
  A condition node: \<open>type\<close>, \<open>operator\<close>, \<open>column?\<close>, \<open>value?\<close>, \<open>conditions?\<close>,
  \<open>table?\<close> and \<open>left?\<close>. The field \<open>left\<close> is either \<open>{ column }\<close> (comparisons and null
  tests) or the operand of \<open>NOT\<close>. The field \<open>right\<close> repeats \<open>value\<close> and is left out.
\<close>

datatype QueryCondition =
  QueryCondition (qc_type: cond_type) (qc_operator: string) (qc_column: "string option")
    (qc_val: "jsval option") (qc_conditions: "QueryCondition list option")
    (qc_table: "string option") (qc_left: "left_operand option")
and left_operand = LeftColumn string | LeftCondition QueryCondition

text \<open>The constructors of query-conditions.ts, for a column given as a string.\<close>

definition resolveColumnAndTable :: "string \<Rightarrow> string \<times> string option" where
  "resolveColumnAndTable column =
     (if CHR ''.'' \<in> set column
      then (case splitOn (CHR ''.'') column of
              t # c # rest \<Rightarrow> (c, Some t)
            | _ \<Rightarrow> (column, None))
      else (column, None))"

definition createBinaryCondition :: "string \<Rightarrow> string \<Rightarrow> jsval \<Rightarrow> QueryCondition" where
  "createBinaryCondition column operator v =
     (case resolveColumnAndTable column of
        (columnName, tableName) \<Rightarrow>
          QueryCondition binary_expr operator (Some columnName) (Some v) None tableName
            (Some (LeftColumn columnName)))"

definition eq :: "string \<Rightarrow> jsval \<Rightarrow> QueryCondition" where
  "eq column v = createBinaryCondition column ''='' v"

definition gt :: "string \<Rightarrow> jsval \<Rightarrow> QueryCondition" where
  "gt column v = createBinaryCondition column ''>'' v"

definition like :: "string \<Rightarrow> string \<Rightarrow> QueryCondition" where
  "like column pattern = createBinaryCondition column ''LIKE'' (JStr pattern)"

definition inArray :: "string \<Rightarrow> jsval list \<Rightarrow> QueryCondition" where
  "inArray column vs = createBinaryCondition column ''IN'' (JArr vs)"

definition isNull :: "string \<Rightarrow> QueryCondition" where
  "isNull column =
     (case resolveColumnAndTable column of
        (columnName, tableName) \<Rightarrow>
          QueryCondition unary_expr ''IS NULL'' (Some columnName) None None tableName
            (Some (LeftColumn columnName)))"

definition and_cond :: "QueryCondition list \<Rightarrow> QueryCondition" where
  "and_cond cs = QueryCondition logical_expr ''AND'' None None (Some cs) None None"

definition or_cond :: "QueryCondition list \<Rightarrow> QueryCondition" where
  "or_cond cs = QueryCondition logical_expr ''OR'' None None (Some cs) None None"

definition not_cond :: "QueryCondition \<Rightarrow> QueryCondition" where
  "not_cond c = QueryCondition unary_expr ''NOT'' None None None None (Some (LeftCondition c))"

text \<open>
  A column reference as the builders receive it: a string, a column object (the column
  and the table it belongs to, \<open>column.table\<close>, set by the table's constructor; \<open>None\<close>
  for a column that is in no table), another object whose \<open>name\<close> is a string, or any
  other value.
\<close>

datatype field_ref =
    FieldString string
  | FieldColumn PodColumnBase "PodTable option"
  | FieldNamed string
  | FieldOther

datatype AggregateFunction = agg_count | agg_sum | agg_avg | agg_min | agg_max

record AggregateExpression =
  func :: AggregateFunction
  agg_column :: "field_ref option"
  agg_distinct :: bool

datatype SelectField = Plain field_ref | Aggregate AggregateExpression

fun isAggregateExpression :: "SelectField \<Rightarrow> bool" where
  "isAggregateExpression (Aggregate a) = True"
| "isAggregateExpression (Plain f) = False"

section \<open>Errors\<close>

text \<open>Every \<open>throw\<close> of the modelled code, by the place that throws.\<close>

datatype JoinType = leftJoin | rightJoin | innerJoin | fullJoin

datatype error =
    JoinNotSupported JoinType
  | JoinConditionNotObject
  | JoinConditionEmpty
  | JoinConditionMissingJoinedTable
  | ColumnWithoutTable string
  | UnresolvedTableAlias string
  | UnknownTableAlias string string
  | UnsupportedColumnReference
  | NoTableSpecified
  | MixedSelectionRequiresGroupBy
  | MissingGroupByColumn string
  | TypeError
  | RegExpSyntaxError string
  | EngineError string
  | FailedToConnect nat
  | NetworkError
  | InsertRequiresValue
  | ResourceAlreadyExists
  | DuplicateIds "string list"
  | UpdateRequiresData
  | UpdateRequiresWhere
  | NoUpdateData
  | NoInsertValues
  | ResourceNotFound string
  | FailedToCreateResource nat
  | FailedToCreateContainer nat
  | FailedToCheckContainer nat
  | HttpError nat

section \<open>Select query builder: aliases, column references and joins\<close>

record ColumnReference =
  ref_table :: PodTable
  ref_alias :: string
  ref_column :: string

record ResolvedJoinCondition =
  left :: ColumnReference
  right :: ColumnReference

text \<open>
  The condition argument of a join (\<open>condition: any\<close>): something that is falsy or not an
  object, or an object whose entries map a key to a column reference.
\<close>

datatype raw_condition = NotAnObject | ConditionObject "(string \<times> field_ref) list"

record JoinEntry =
  join_type :: JoinType
  join_table :: PodTable
  join_alias :: string
  rawCondition :: raw_condition
  resolvedConditions :: "ResolvedJoinCondition list option"

datatype direction = asc | desc

record SelectQueryBuilder =
  selectedTable :: "PodTable option"
  whereConditions :: "row option"
  conditionTree :: "QueryCondition option"
  joins :: "JoinEntry list"
  limitCount :: "nat option"
  offsetCount :: "nat option"
  orderByClauses :: "(string \<times> direction) list"
  isDistinct :: bool
  selectedFields :: "(string \<times> SelectField) list option"
  tableAliases :: "(nat \<times> string) list"
  aliasToTable :: "(string \<times> PodTable) list"
  aliasUsage :: "(string \<times> nat) list"
  primaryAlias :: "string option"
  joinFilters :: "QueryCondition list"
  groupByColumns :: "ColumnReference list"

text \<open>\<open>session.select(fields?)\<close>: a fresh builder.\<close>

definition newSelect :: "(string \<times> SelectField) list option \<Rightarrow> SelectQueryBuilder" where
  "newSelect selected =
     \<lparr> selectedTable = None, whereConditions = None, conditionTree = None, joins = [],
       limitCount = None, offsetCount = None, orderByClauses = [], isDistinct = False,
       selectedFields = selected, tableAliases = [], aliasToTable = [],
       aliasUsage = [], primaryAlias = None, joinFilters = [], groupByColumns = [] \<rparr>"

text \<open>
  \<open>ensureAliasForTable(table)\<close>: the alias already given to the table object, or a new
  one, the table's name the first time a name is used and \<open>name_k\<close> the \<open>k\<close>-th time.
\<close>

definition ensureAliasForTable ::
  "PodTable \<Rightarrow> SelectQueryBuilder \<Rightarrow> string \<times> SelectQueryBuilder" where
  "ensureAliasForTable t b =
     (if truthyStr (map_of (tableAliases b) (tbl_id t))
      then (the (map_of (tableAliases b) (tbl_id t)), b)
      else
        (let baseName = (if tbl_name (config t) \<noteq> [] then tbl_name (config t) else ''table'');
             usage = (case map_of (aliasUsage b) baseName of Some u \<Rightarrow> u | None \<Rightarrow> 0);
             nextUsage = usage + 1;
             a = (if usage = 0 then baseName else baseName @ ''_'' @ decimal nextUsage)
         in (a, b\<lparr> aliasUsage := AList.update baseName nextUsage (aliasUsage b),
                   tableAliases := AList.update (tbl_id t) a (tableAliases b),
                   aliasToTable := AList.update a t (aliasToTable b) \<rparr>)))"

text \<open>\<open>from(table)\<close>.\<close>

definition from_table :: "PodTable \<Rightarrow> SelectQueryBuilder \<Rightarrow> SelectQueryBuilder" where
  "from_table t b =
     (case ensureAliasForTable t (b\<lparr> selectedTable := Some t \<rparr>) of
        (a, b') \<Rightarrow> b'\<lparr> primaryAlias := Some a \<rparr>)"

text \<open>
  \<open>String.prototype.trim\<close>: the white space and the line terminators of ECMAScript among
  the code units below 256 are the tab, the line feed, the vertical tab, the form feed,
  the carriage return, the space and the no-break space (U+00A0).
\<close>

definition isSpace :: "char \<Rightarrow> bool" where
  "isSpace c = (c \<in> set (map char_of [9::nat, 10, 11, 12, 13, 32, 160]))"

definition trim :: "string \<Rightarrow> string" where
  "trim s = rev (dropWhile isSpace (rev (dropWhile isSpace s)))"

text \<open>
  \<open>parseColumnReferenceString(reference)\<close>: the alias (when the reference has a dot) and
  the column; \<open>split('.', 2)\<close> keeps the first two segments.
\<close>

definition parseColumnReferenceString :: "string \<Rightarrow> string option \<times> string" where
  "parseColumnReferenceString reference =
     (let trimmed = trim reference
      in if CHR ''.'' \<notin> set trimmed then (None, trimmed)
         else (case splitOn (CHR ''.'') trimmed of
                 a # c # rest \<Rightarrow> (Some a, c)
               | _ \<Rightarrow> (None, trimmed)))"

text \<open>
  \<open>resolveColumnReference(field, fallbackAlias?)\<close>. Resolving a column object may give its
  table an alias, so the builder is returned with the reference. A builder whose method
  threw is not used further: an error carries no builder.
\<close>

fun resolveColumnReference ::
  "field_ref \<Rightarrow> string option \<Rightarrow> SelectQueryBuilder \<Rightarrow> error + (ColumnReference \<times> SelectQueryBuilder)" where
  "resolveColumnReference (FieldColumn c None) fallbackAlias b = Inl (ColumnWithoutTable (col_name c))"
| "resolveColumnReference (FieldColumn c (Some t)) fallbackAlias b =
     (case ensureAliasForTable t b of
        (a, b') \<Rightarrow> Inr (\<lparr> ref_table = t, ref_alias = a, ref_column = col_name c \<rparr>, b'))"
| "resolveColumnReference (FieldString field) fallbackAlias b =
     (case parseColumnReferenceString field of
        (parsedAlias, column) \<Rightarrow>
          (let a = (case parsedAlias of
                      Some p \<Rightarrow> Some p
                    | None \<Rightarrow> (case fallbackAlias of Some f \<Rightarrow> Some f | None \<Rightarrow> primaryAlias b))
           in if \<not> truthyStr a then Inl (UnresolvedTableAlias field)
              else (case map_of (aliasToTable b) (the a) of
                      None \<Rightarrow> Inl (UnknownTableAlias (the a) field)
                    | Some t \<Rightarrow> Inr (\<lparr> ref_table = t, ref_alias = the a, ref_column = column \<rparr>, b))))"
| "resolveColumnReference (FieldNamed n) fallbackAlias b = Inl UnsupportedColumnReference"
| "resolveColumnReference FieldOther fallbackAlias b = Inl UnsupportedColumnReference"

text \<open>
  One entry of \<open>resolveJoinConditions\<close>: both sides are resolved, and the entry is refused
  when neither side has the alias of the joined table.
\<close>

definition resolveJoinEntry ::
  "string \<Rightarrow> string \<times> field_ref \<Rightarrow> SelectQueryBuilder \<Rightarrow>
     error + (ResolvedJoinCondition \<times> SelectQueryBuilder)" where
  "resolveJoinEntry joinAlias entry b =
     (case resolveColumnReference (FieldString (fst entry)) None b of
        Inl e \<Rightarrow> Inl e
      | Inr (leftRef, b1) \<Rightarrow>
          (case resolveColumnReference (snd entry) None b1 of
             Inl e \<Rightarrow> Inl e
           | Inr (rightRef, b2) \<Rightarrow>
               if ref_alias leftRef \<noteq> joinAlias \<and> ref_alias rightRef \<noteq> joinAlias
               then Inl JoinConditionMissingJoinedTable
               else Inr (\<lparr> left = leftRef, right = rightRef \<rparr>, b2)))"

text \<open>\<open>entries.map(...)\<close>, the entries in order; the first error ends the loop.\<close>

fun resolveJoinEntries ::
  "string \<Rightarrow> (string \<times> field_ref) list \<Rightarrow> SelectQueryBuilder \<Rightarrow>
     error + (ResolvedJoinCondition list \<times> SelectQueryBuilder)" where
  "resolveJoinEntries joinAlias [] b = Inr ([], b)"
| "resolveJoinEntries joinAlias (entry # entries) b =
     (case resolveJoinEntry joinAlias entry b of
        Inl e \<Rightarrow> Inl e
      | Inr (r, b1) \<Rightarrow>
          (case resolveJoinEntries joinAlias entries b1 of
             Inl e \<Rightarrow> Inl e
           | Inr (rs, b2) \<Rightarrow> Inr (r # rs, b2)))"

text \<open>\<open>resolveJoinConditions(condition, joinAlias)\<close>.\<close>

fun resolveJoinConditions ::
  "raw_condition \<Rightarrow> string \<Rightarrow> SelectQueryBuilder \<Rightarrow>
     error + (ResolvedJoinCondition list \<times> SelectQueryBuilder)" where
  "resolveJoinConditions NotAnObject joinAlias b = Inl JoinConditionNotObject"
| "resolveJoinConditions (ConditionObject entries) joinAlias b =
     (if length entries = 0 then Inl JoinConditionEmpty
      else resolveJoinEntries joinAlias entries b)"

text \<open>\<open>addJoin(type, table, condition)\<close>, behind \<open>leftJoin\<close>, \<open>rightJoin\<close>, \<open>innerJoin\<close>, \<open>fullJoin\<close>.\<close>

definition addJoin ::
  "JoinType \<Rightarrow> PodTable \<Rightarrow> raw_condition \<Rightarrow> SelectQueryBuilder \<Rightarrow> error + SelectQueryBuilder" where
  "addJoin ty t condition b =
     (if ty = rightJoin \<or> ty = fullJoin then Inl (JoinNotSupported ty)
      else (case ensureAliasForTable t b of
              (a, b1) \<Rightarrow>
                (case resolveJoinConditions condition a b1 of
                   Inl e \<Rightarrow> Inl e
                 | Inr (resolved, b2) \<Rightarrow>
                     Inr (b2\<lparr> joins := joins b2 @
                            [\<lparr> join_type = ty, join_table = t, join_alias = a,
                               rawCondition = condition,
                               resolvedConditions = Some resolved \<rparr>] \<rparr>))))"

section \<open>Select query builder: rows and aggregates\<close>

text \<open>
  \<open>key in row\<close>, \<open>row[key]\<close>, \<open>row[key] = v\<close> and the spread \<open>{ ...a, ...b }\<close>. A row is a
  plain object, given by its own properties; what it does not own it inherits from
  \<open>Object.prototype\<close>. The assignment \<open>row['__proto__'] = v\<close> to a row that does not own
  that key calls the inherited setter, which leaves the own properties as they are (the
  prototype it may replace is not part of a row, and no modelled read depends on it); the
  spread defines own properties, whatever the key.
\<close>

definition objectPrototypeKeys :: "string list" where
  "objectPrototypeKeys =
     [''constructor'', ''__defineGetter__'', ''__defineSetter__'', ''hasOwnProperty'',
      ''__lookupGetter__'', ''__lookupSetter__'', ''isPrototypeOf'', ''propertyIsEnumerable'',
      ''toString'', ''valueOf'', ''__proto__'', ''toLocaleString'']"

definition row_has :: "row \<Rightarrow> string \<Rightarrow> bool" where
  "row_has r k = (map_of r k \<noteq> None \<or> k \<in> set objectPrototypeKeys)"

definition row_get :: "row \<Rightarrow> string \<Rightarrow> jsval" where
  "row_get r k =
     (case map_of r k of
        Some v \<Rightarrow> v
      | None \<Rightarrow> if k \<in> set objectPrototypeKeys then JBuiltin k else JUndefined)"

definition row_put :: "string \<Rightarrow> jsval \<Rightarrow> row \<Rightarrow> row" where
  "row_put k v r =
     (if k = ''__proto__'' \<and> map_of r k = None then r else AList.update k v r)"

definition row_spread :: "row \<Rightarrow> row \<Rightarrow> row" where
  "row_spread a b = foldl (\<lambda>acc kv. AList.update (fst kv) (snd kv) acc) a b"

text \<open>
  Rounding of a rational to the nearest double, ties to even (IEEE 754 binary64: 53
  significant bits, exponents from \<open>-1022\<close> to \<open>1023\<close>, subnormals, overflow to an
  infinity, underflow to a zero of the sign of the operand). \<open>exponentOf m\<close> is the
  integer part of the binary logarithm of a positive \<open>m\<close>.
\<close>

definition pow2 :: "int \<Rightarrow> rat" where
  "pow2 n = (if 0 \<le> n then 2 ^ nat n else 1 / 2 ^ nat (- n))"

function bitLength :: "int \<Rightarrow> int" where
  "bitLength n = (if n \<le> 0 then 0 else bitLength (n div 2) + 1)"
  by pat_completeness auto
termination
  by (relation "measure nat") (auto simp: int_div_less_self)

definition exponentOf :: "rat \<Rightarrow> int" where
  "exponentOf m =
     (let d = bitLength (fst (quotient_of m)) - bitLength (snd (quotient_of m))
      in if pow2 d \<le> m then d else d - 1)"

definition roundHalfEven :: "rat \<Rightarrow> int" where
  "roundHalfEven x =
     (let f = floor x; d = x - of_int f
      in if d < 1 / 2 then f else if 1 / 2 < d then f + 1 else if even f then f else f + 1)"

definition roundToDouble :: "rat \<Rightarrow> jsnum" where
  "roundToDouble r =
     (if r = 0 then Num 0
      else (let m = abs r;
                e = max (exponentOf m) (- 1022);
                q = pow2 (e - 52);
                v = of_int (roundHalfEven (m / q)) * q
            in if v = 0 then (if 0 < r then Num 0 else NegZero)
               else if 1024 \<le> exponentOf v then (if 0 < r then PosInfinity else NegInfinity)
               else Num (if 0 < r then v else - v)))"

text \<open>The sign, the kind and the exact value of a number.\<close>

fun isNegative :: "jsnum \<Rightarrow> bool" where
  "isNegative (Num r) = (r < 0)"
| "isNegative NegZero = True"
| "isNegative NegInfinity = True"
| "isNegative x = False"

fun isInfinite :: "jsnum \<Rightarrow> bool" where
  "isInfinite PosInfinity = True"
| "isInfinite NegInfinity = True"
| "isInfinite x = False"

fun isZero :: "jsnum \<Rightarrow> bool" where
  "isZero (Num r) = (r = 0)"
| "isZero NegZero = True"
| "isZero x = False"

fun finite_value :: "jsnum \<Rightarrow> rat" where
  "finite_value (Num r) = r"
| "finite_value x = 0"

definition signedZero :: "bool \<Rightarrow> jsnum" where
  "signedZero negative = (if negative then NegZero else Num 0)"

definition signedInfinity :: "bool \<Rightarrow> jsnum" where
  "signedInfinity negative = (if negative then NegInfinity else PosInfinity)"

text \<open>
  \<open>a + b\<close> on numbers: \<open>NaN\<close> is absorbing, opposite infinities give \<open>NaN\<close>, the sum of two
  negative zeros is the negative zero, an exact sum of zero is the positive zero, and any
  other sum is the exact sum rounded.
\<close>

fun js_add :: "jsnum \<Rightarrow> jsnum \<Rightarrow> jsnum" where
  "js_add NaN y = NaN"
| "js_add x NaN = NaN"
| "js_add PosInfinity NegInfinity = NaN"
| "js_add NegInfinity PosInfinity = NaN"
| "js_add PosInfinity y = PosInfinity"
| "js_add NegInfinity y = NegInfinity"
| "js_add x PosInfinity = PosInfinity"
| "js_add x NegInfinity = NegInfinity"
| "js_add NegZero y = y"
| "js_add x NegZero = x"
| "js_add (Num a) (Num b) = (if a + b = 0 then Num 0 else roundToDouble (a + b))"

text \<open>\<open>a / b\<close> on numbers.\<close>

definition js_div :: "jsnum \<Rightarrow> jsnum \<Rightarrow> jsnum" where
  "js_div x y =
     (let negative = (isNegative x \<noteq> isNegative y)
      in if x = NaN \<or> y = NaN then NaN
         else if isInfinite x then (if isInfinite y then NaN else signedInfinity negative)
         else if isInfinite y then signedZero negative
         else if isZero y then (if isZero x then NaN else signedInfinity negative)
         else if isZero x then signedZero negative
         else roundToDouble (finite_value x / finite_value y))"

text \<open>\<open>a < b\<close> and \<open>a <= b\<close> on numbers: false when an operand is \<open>NaN\<close>; the two zeros are equal.\<close>

fun js_less :: "jsnum \<Rightarrow> jsnum \<Rightarrow> bool" where
  "js_less NaN y = False"
| "js_less x NaN = False"
| "js_less x NegInfinity = False"
| "js_less NegInfinity y = True"
| "js_less PosInfinity y = False"
| "js_less x PosInfinity = True"
| "js_less x y = (finite_value x < finite_value y)"

fun js_less_eq :: "jsnum \<Rightarrow> jsnum \<Rightarrow> bool" where
  "js_less_eq NaN y = False"
| "js_less_eq x NaN = False"
| "js_less_eq NegInfinity y = True"
| "js_less_eq x NegInfinity = False"
| "js_less_eq x PosInfinity = True"
| "js_less_eq PosInfinity y = False"
| "js_less_eq x y = (finite_value x \<le> finite_value y)"

text \<open>
  One step of \<open>Math.min\<close> and of \<open>Math.max\<close>: \<open>NaN\<close> is absorbing, and the negative zero is
  below the positive one.
\<close>

definition js_min2 :: "jsnum \<Rightarrow> jsnum \<Rightarrow> jsnum" where
  "js_min2 lowest x =
     (if lowest = NaN \<or> x = NaN then NaN
      else if x = NegZero \<and> lowest = Num 0 then NegZero
      else if js_less x lowest then x else lowest)"

definition js_max2 :: "jsnum \<Rightarrow> jsnum \<Rightarrow> jsnum" where
  "js_max2 highest x =
     (if highest = NaN \<or> x = NaN then NaN
      else if x = Num 0 \<and> highest = NegZero then Num 0
      else if js_less highest x then x else highest)"

text \<open>
  \<open>Math.min(...values)\<close> and \<open>Math.max(...values)\<close>: from \<open>+Infinity\<close> down and from
  \<open>-Infinity\<close> up (the calls of the modelled code are guarded by \<open>values.length === 0\<close>).
\<close>

definition Math_min :: "jsnum list \<Rightarrow> jsnum" where
  "Math_min xs = foldl js_min2 PosInfinity xs"

definition Math_max :: "jsnum list \<Rightarrow> jsnum" where
  "Math_max xs = foldl js_max2 NegInfinity xs"

text \<open>\<open>values.reduce((acc, value) => acc + value, 0)\<close>.\<close>

definition sum_values :: "jsnum list \<Rightarrow> jsnum" where
  "sum_values values = foldl js_add (Num 0) values"

text \<open>\<open>serializeValueForKey(value)\<close>, on a value and on a row.\<close>

definition serializeValueForKey :: "js_host \<Rightarrow> jsval \<Rightarrow> string" where
  "serializeValueForKey H v =
     (if v = JNull then ''null''
      else if typeof_object v then json_stringify H v
      else js_String H v)"

definition serializeRowForKey :: "js_host \<Rightarrow> row \<Rightarrow> string" where
  "serializeRowForKey H r = json_stringify_row H r"

text \<open>\<open>getColumnKeyCandidates(column)\<close> and \<open>getRowValueForColumn(row, column)\<close>.\<close>

definition getColumnKeyCandidates :: "SelectQueryBuilder \<Rightarrow> ColumnReference \<Rightarrow> string list" where
  "getColumnKeyCandidates b column =
     (if Some (ref_alias column) = primaryAlias b then [ref_column column] else [])
     @ [ref_alias column @ ''.'' @ ref_column column]"

fun firstPresent :: "row \<Rightarrow> string list \<Rightarrow> jsval" where
  "firstPresent r [] = JUndefined"
| "firstPresent r (k # ks) = (if row_has r k then row_get r k else firstPresent r ks)"

definition getRowValueForColumn :: "SelectQueryBuilder \<Rightarrow> row \<Rightarrow> ColumnReference \<Rightarrow> jsval" where
  "getRowValueForColumn b r column = firstPresent r (getColumnKeyCandidates b column)"

text \<open>
  The loops that keep the first value of every serialised key (\<open>seen\<close> is the set of keys
  met so far).
\<close>

fun dedupeByKey :: "('a \<Rightarrow> 'k) \<Rightarrow> 'k list \<Rightarrow> 'a list \<Rightarrow> 'a list" where
  "dedupeByKey key seen [] = []"
| "dedupeByKey key seen (v # vs) =
     (if key v \<in> set seen then dedupeByKey key seen vs
      else v # dedupeByKey key (key v # seen) vs)"

text \<open>\<open>collectValuesForCount(column, rows, distinct)\<close>.\<close>

definition collectValuesForCount ::
  "js_host \<Rightarrow> SelectQueryBuilder \<Rightarrow> ColumnReference \<Rightarrow> row list \<Rightarrow> bool \<Rightarrow> jsval list" where
  "collectValuesForCount H b column rows dflag =
     (let values = filter (\<lambda>v. v \<noteq> JUndefined \<and> v \<noteq> JNull)
                     (map (\<lambda>r. getRowValueForColumn b r column) rows)
      in if \<not> dflag then values else dedupeByKey (serializeValueForKey H) [] values)"

text \<open>\<open>collectNumericValues(column, rows, distinct)\<close>: the loop over the rows, with its \<open>seen\<close> set.\<close>

fun collectNumericLoop ::
  "js_host \<Rightarrow> SelectQueryBuilder \<Rightarrow> ColumnReference \<Rightarrow> bool \<Rightarrow> string list \<Rightarrow> row list \<Rightarrow> jsnum list" where
  "collectNumericLoop H b column dflag seen [] = []"
| "collectNumericLoop H b column dflag seen (r # rows) =
     (let rawValue = getRowValueForColumn b r column
      in if rawValue = JUndefined \<or> rawValue = JNull
         then collectNumericLoop H b column dflag seen rows
         else
           (let numeric = js_Number H rawValue
            in if numeric = NaN then collectNumericLoop H b column dflag seen rows
               else if dflag
               then (let key = serializeValueForKey H (JNumber numeric)
                     in if key \<in> set seen then collectNumericLoop H b column dflag seen rows
                        else numeric # collectNumericLoop H b column dflag (key # seen) rows)
               else numeric # collectNumericLoop H b column dflag seen rows))"

definition collectNumericValues ::
  "js_host \<Rightarrow> SelectQueryBuilder \<Rightarrow> ColumnReference \<Rightarrow> row list \<Rightarrow> bool \<Rightarrow> jsnum list" where
  "collectNumericValues H b column rows dflag = collectNumericLoop H b column dflag [] rows"

text \<open>\<open>countDistinctRows(rows)\<close>: the size of the set of serialised rows.\<close>

definition countDistinctRows :: "js_host \<Rightarrow> row list \<Rightarrow> nat" where
  "countDistinctRows H rows = length (remdups (map (serializeRowForKey H) rows))"

text \<open>
  \<open>resolveAggregateColumnRef(aggregate)\<close>: \<open>None\<close> (\<open>undefined\<close>) for an aggregate without a
  column (or with an empty string for one); an object that is no column object is
  resolved by its \<open>name\<close>, when that is a string.
\<close>

definition resolveAggregateColumnRef ::
  "AggregateExpression \<Rightarrow> SelectQueryBuilder \<Rightarrow>
     error + (ColumnReference option \<times> SelectQueryBuilder)" where
  "resolveAggregateColumnRef aggregate b =
     (case agg_column aggregate of
        None \<Rightarrow> Inr (None, b)
      | Some (FieldString s) \<Rightarrow>
          (if s = [] then Inr (None, b)
           else (case resolveColumnReference (FieldString s) None b of
                   Inl e \<Rightarrow> Inl e
                 | Inr (r, b') \<Rightarrow> Inr (Some r, b')))
      | Some (FieldColumn c t) \<Rightarrow>
          (case resolveColumnReference (FieldColumn c t) None b of
             Inl e \<Rightarrow> Inl e
           | Inr (r, b') \<Rightarrow> Inr (Some r, b'))
      | Some (FieldNamed candidate) \<Rightarrow>
          (case resolveColumnReference (FieldString candidate) None b of
             Inl e \<Rightarrow> Inl e
           | Inr (r, b') \<Rightarrow> Inr (Some r, b'))
      | Some FieldOther \<Rightarrow> Inr (None, b))"

definition number_of_nat :: "nat \<Rightarrow> jsval" where
  "number_of_nat n = JNumber (Num (of_nat n))"

text \<open>
  \<open>computeAggregateValue(aggregate, rows)\<close>: a number or \<open>null\<close>, with the builder as the
  resolution of the column left it.
\<close>

definition aggregateOfColumn ::
  "js_host \<Rightarrow> SelectQueryBuilder \<Rightarrow> AggregateExpression \<Rightarrow> ColumnReference \<Rightarrow> row list \<Rightarrow> jsval" where
  "aggregateOfColumn H b aggregate columnRef rows =
     (case func aggregate of
        agg_count \<Rightarrow>
          number_of_nat (length (collectValuesForCount H b columnRef rows (agg_distinct aggregate)))
      | agg_sum \<Rightarrow>
          (let values = collectNumericValues H b columnRef rows (agg_distinct aggregate)
           in if length values = 0 then JNull else JNumber (sum_values values))
      | agg_avg \<Rightarrow>
          (let values = collectNumericValues H b columnRef rows (agg_distinct aggregate)
           in if length values = 0 then JNull
              else (let total = sum_values values
                    in JNumber (js_div total (Num (of_nat (length values))))))
      | agg_min \<Rightarrow>
          (let values = collectNumericValues H b columnRef rows (agg_distinct aggregate)
           in if length values = 0 then JNull else JNumber (Math_min values))
      | agg_max \<Rightarrow>
          (let values = collectNumericValues H b columnRef rows (agg_distinct aggregate)
           in if length values = 0 then JNull else JNumber (Math_max values)))"

definition computeAggregateValue ::
  "js_host \<Rightarrow> SelectQueryBuilder \<Rightarrow> AggregateExpression \<Rightarrow> row list \<Rightarrow>
     error + (jsval \<times> SelectQueryBuilder)" where
  "computeAggregateValue H b aggregate rows =
     (case resolveAggregateColumnRef aggregate b of
        Inl e \<Rightarrow> Inl e
      | Inr (None, b') \<Rightarrow>
          (if func aggregate = agg_count
           then Inr (if agg_distinct aggregate then number_of_nat (countDistinctRows H rows)
                     else number_of_nat (length rows), b')
           else Inr (JNull, b'))
      | Inr (Some columnRef, b') \<Rightarrow> Inr (aggregateOfColumn H b' aggregate columnRef rows, b'))"

section \<open>Select query builder: in-memory conditions\<close>

text \<open>
  \<open>a === b\<close>. An array that the engine delivered in a row is never the same object as an
  array written in a condition, so two arrays are never strictly equal here; opaque objects
  are equal when they are the same reference, and so are the built-ins. Two numbers are
  equal when neither is \<open>NaN\<close> and they are the same number, the two zeros being equal.
\<close>

definition number_eq :: "jsnum \<Rightarrow> jsnum \<Rightarrow> bool" where
  "number_eq a b =
     (a \<noteq> NaN \<and> b \<noteq> NaN \<and>
      (if a = NegZero then Num 0 else a) = (if b = NegZero then Num 0 else b))"

fun strict_eq :: "jsval \<Rightarrow> jsval \<Rightarrow> bool" where
  "strict_eq JUndefined JUndefined = True"
| "strict_eq JNull JNull = True"
| "strict_eq (JBool a) (JBool b) = (a = b)"
| "strict_eq (JNumber a) (JNumber b) = number_eq a b"
| "strict_eq (JStr a) (JStr b) = (a = b)"
| "strict_eq (JObject a) (JObject b) = (a = b)"
| "strict_eq (JBuiltin a) (JBuiltin b) = (a = b)"
| "strict_eq x y = False"

text \<open>\<open>target.includes(value)\<close>: as \<open>===\<close>, but \<open>NaN\<close> is found.\<close>

fun sameValueZero :: "jsval \<Rightarrow> jsval \<Rightarrow> bool" where
  "sameValueZero (JNumber NaN) (JNumber NaN) = True"
| "sameValueZero x y = strict_eq x y"

definition array_includes :: "jsval list \<Rightarrow> jsval \<Rightarrow> bool" where
  "array_includes target v = list_ex (\<lambda>t. sameValueZero t v) target"

text \<open>\<open>s.toUpperCase()\<close> on ASCII letters.\<close>

definition toUpperCase :: "string \<Rightarrow> string" where
  "toUpperCase s =
     map (\<lambda>c. if 97 \<le> (of_char c :: nat) \<and> (of_char c :: nat) \<le> 122
              then char_of ((of_char c :: nat) - 32) else c) s"

text \<open>
  The column reference of a condition, \<open>`${condition.table ?? this.primaryAlias}.${condition.column}`\<close>.
\<close>

definition conditionColumnKey :: "SelectQueryBuilder \<Rightarrow> string option \<Rightarrow> string \<Rightarrow> string" where
  "conditionColumnKey b tbl column =
     (case tbl of
        Some t \<Rightarrow> t
      | None \<Rightarrow> (case primaryAlias b of Some a \<Rightarrow> a | None \<Rightarrow> ''undefined''))
     @ ''.'' @ column"

text \<open>\<open>evaluateBinaryCondition(row, condition)\<close>, on the fields of the condition it reads.\<close>

definition evaluateBinaryCondition ::
  "js_host \<Rightarrow> SelectQueryBuilder \<Rightarrow> row \<Rightarrow> string \<Rightarrow> string option \<Rightarrow> jsval option \<Rightarrow>
     string option \<Rightarrow> error + bool" where
  "evaluateBinaryCondition H b r operator column v tbl =
     (if \<not> truthyStr column then Inr True
      else (case resolveColumnReference (FieldString (conditionColumnKey b tbl (the column))) None b of
              Inl e \<Rightarrow> Inl e
            | Inr (columnRef, b') \<Rightarrow>
                (let val = getRowValueForColumn b r columnRef;
                     target = (case v of Some t \<Rightarrow> t | None \<Rightarrow> JUndefined);
                     oper = toUpperCase operator
                 in if oper = ''='' then Inr (strict_eq val target)
                    else if oper = ''!='' \<or> oper = ''<>'' then Inr (\<not> strict_eq val target)
                    else if oper = ''>'' then Inr (js_less (js_Number H target) (js_Number H val))
                    else if oper = ''>='' then Inr (js_less_eq (js_Number H target) (js_Number H val))
                    else if oper = ''<'' then Inr (js_less (js_Number H val) (js_Number H target))
                    else if oper = ''<='' then Inr (js_less_eq (js_Number H val) (js_Number H target))
                    else if oper = ''IN''
                    then Inr (case target of JArr ts \<Rightarrow> array_includes ts val | _ \<Rightarrow> False)
                    else if oper = ''NOT IN''
                    then Inr (case target of JArr ts \<Rightarrow> \<not> array_includes ts val | _ \<Rightarrow> False)
                    else if oper = ''LIKE''
                    then (case (val, target) of
                            (JStr sv, JStr st) \<Rightarrow>
                              (case computeLikeMatch H sv st of
                                 None \<Rightarrow> Inl (RegExpSyntaxError (likeRegexSource st))
                               | Some m \<Rightarrow> Inr m)
                          | _ \<Rightarrow> Inr False)
                    else Inr True)))"

text \<open>
  \<open>evaluateUnaryCondition(row, condition)\<close>, on the fields it reads; \<open>operand\<close> is the value of
  \<open>evaluateCondition(row, condition.left)\<close>, used by \<open>NOT\<close> only.
\<close>

definition evaluateUnaryCondition ::
  "SelectQueryBuilder \<Rightarrow> row \<Rightarrow> string \<Rightarrow> string option \<Rightarrow> string option \<Rightarrow> error + bool \<Rightarrow>
     error + bool" where
  "evaluateUnaryCondition b r operator column tbl operand =
     (if \<not> truthyStr column then Inr True
      else (case resolveColumnReference (FieldString (conditionColumnKey b tbl (the column))) None b of
              Inl e \<Rightarrow> Inl e
            | Inr (columnRef, b') \<Rightarrow>
                (let val = getRowValueForColumn b r columnRef;
                     oper = toUpperCase operator
                 in if oper = ''IS NULL'' then Inr (val = JNull \<or> val = JUndefined)
                    else if oper = ''IS NOT NULL'' then Inr (val \<noteq> JNull \<and> val \<noteq> JUndefined)
                    else if oper = ''NOT''
                    then (case operand of Inl e \<Rightarrow> Inl e | Inr res \<Rightarrow> Inr (\<not> res))
                    else Inr True)))"

text \<open>
  \<open>evaluateLogicalCondition(row, condition)\<close>, given what \<open>every\<close> and \<open>some\<close> over the
  children give.
\<close>

definition evaluateLogicalCondition :: "string \<Rightarrow> error + bool \<Rightarrow> error + bool \<Rightarrow> error + bool" where
  "evaluateLogicalCondition operator every some =
     (if toUpperCase operator = ''AND'' then every
      else if toUpperCase operator = ''OR'' then some
      else Inr True)"

text \<open>
  \<open>evaluateCondition(row, condition)\<close>: the walk over the condition tree, given the
  evaluation of a comparison (\<open>bin\<close>) and of a unary condition (\<open>un\<close>) on the row at hand;
  \<open>every\<close> and \<open>some\<close> stop at the first child that decides (or throws), and
  \<open>walkChildren\<close> is \<open>every\<close> or \<open>some\<close> over \<open>condition.conditions ?? []\<close>. A \<open>NOT\<close> whose operand is missing reads \<open>type\<close> of \<open>undefined\<close>, a
  \<open>TypeError\<close>; an operand that is \<open>{ column }\<close> has no \<open>type\<close> and evaluates to true.
\<close>

fun walkCondition ::
  "(string \<Rightarrow> string option \<Rightarrow> jsval option \<Rightarrow> string option \<Rightarrow> error + bool) \<Rightarrow>
   (string \<Rightarrow> string option \<Rightarrow> string option \<Rightarrow> error + bool \<Rightarrow> error + bool) \<Rightarrow>
   QueryCondition \<Rightarrow> error + bool"
and walkChildren ::
  "(string \<Rightarrow> string option \<Rightarrow> jsval option \<Rightarrow> string option \<Rightarrow> error + bool) \<Rightarrow>
   (string \<Rightarrow> string option \<Rightarrow> string option \<Rightarrow> error + bool \<Rightarrow> error + bool) \<Rightarrow>
   bool \<Rightarrow> QueryCondition list option \<Rightarrow> error + bool"
and walkEvery ::
  "(string \<Rightarrow> string option \<Rightarrow> jsval option \<Rightarrow> string option \<Rightarrow> error + bool) \<Rightarrow>
   (string \<Rightarrow> string option \<Rightarrow> string option \<Rightarrow> error + bool \<Rightarrow> error + bool) \<Rightarrow>
   QueryCondition list \<Rightarrow> error + bool"
and walkSome ::
  "(string \<Rightarrow> string option \<Rightarrow> jsval option \<Rightarrow> string option \<Rightarrow> error + bool) \<Rightarrow>
   (string \<Rightarrow> string option \<Rightarrow> string option \<Rightarrow> error + bool \<Rightarrow> error + bool) \<Rightarrow>
   QueryCondition list \<Rightarrow> error + bool"
and walkOperand ::
  "(string \<Rightarrow> string option \<Rightarrow> jsval option \<Rightarrow> string option \<Rightarrow> error + bool) \<Rightarrow>
   (string \<Rightarrow> string option \<Rightarrow> string option \<Rightarrow> error + bool \<Rightarrow> error + bool) \<Rightarrow>
   left_operand option \<Rightarrow> error + bool" where
  "walkCondition bin un (QueryCondition ty operator column v conds tbl lft) =
     (case ty of
        binary_expr \<Rightarrow> bin operator column v tbl
      | unary_expr \<Rightarrow> un operator column tbl (walkOperand bin un lft)
      | logical_expr \<Rightarrow>
          evaluateLogicalCondition operator (walkChildren bin un True conds)
            (walkChildren bin un False conds))"
| "walkChildren bin un every None = (if every then walkEvery bin un [] else walkSome bin un [])"
| "walkChildren bin un every (Some cs) = (if every then walkEvery bin un cs else walkSome bin un cs)"
| "walkEvery bin un [] = Inr True"
| "walkEvery bin un (c # cs) =
     (case walkCondition bin un c of
        Inl e \<Rightarrow> Inl e
      | Inr res \<Rightarrow> if res then walkEvery bin un cs else Inr False)"
| "walkSome bin un [] = Inr False"
| "walkSome bin un (c # cs) =
     (case walkCondition bin un c of
        Inl e \<Rightarrow> Inl e
      | Inr res \<Rightarrow> if res then Inr True else walkSome bin un cs)"
| "walkOperand bin un None = Inl TypeError"
| "walkOperand bin un (Some (LeftColumn c)) = Inr True"
| "walkOperand bin un (Some (LeftCondition c)) = walkCondition bin un c"

definition evaluateCondition ::
  "js_host \<Rightarrow> SelectQueryBuilder \<Rightarrow> row \<Rightarrow> QueryCondition \<Rightarrow> error + bool" where
  "evaluateCondition H b r c =
     walkCondition (evaluateBinaryCondition H b r) (evaluateUnaryCondition b r) c"

text \<open>\<open>joinFilters.every((condition) => evaluateCondition(row, condition))\<close>.\<close>

definition evaluateEvery ::
  "js_host \<Rightarrow> SelectQueryBuilder \<Rightarrow> row \<Rightarrow> QueryCondition list \<Rightarrow> error + bool" where
  "evaluateEvery H b r cs =
     walkEvery (evaluateBinaryCondition H b r) (evaluateUnaryCondition b r) cs"

text \<open>
  \<open>applyJoinFilters(rows)\<close>: the rows on which every join filter holds, in order; an error
  of an evaluation ends the filter.
\<close>

fun filterRows ::
  "js_host \<Rightarrow> SelectQueryBuilder \<Rightarrow> QueryCondition list \<Rightarrow> row list \<Rightarrow> error + row list" where
  "filterRows H b fs [] = Inr []"
| "filterRows H b fs (r # rows) =
     (case evaluateEvery H b r fs of
        Inl e \<Rightarrow> Inl e
      | Inr keep \<Rightarrow>
          (case filterRows H b fs rows of
             Inl e \<Rightarrow> Inl e
           | Inr rest \<Rightarrow> Inr (if keep then r # rest else rest)))"

definition applyJoinFilters :: "js_host \<Rightarrow> SelectQueryBuilder \<Rightarrow> row list \<Rightarrow> error + row list" where
  "applyJoinFilters H b rows =
     (if length (joinFilters b) = 0 then Inr rows else filterRows H b (joinFilters b) rows)"

section \<open>Select query builder: the operation sent to the engine\<close>

datatype operation_type = select_op | insert_op | update_op | delete_op

datatype where_payload = WhereTree QueryCondition | WhereObject row

datatype insert_values = OneRecord row | Batch "row list"

text \<open>
  \<open>PodOperation\<close>, the request a builder hands to the session (the fields \<open>sql\<close> and
  \<open>joins\<close>, which no builder of the modelled paths sets, are left out).
\<close>

record PodOperation =
  op_kind :: operation_type
  op_table :: PodTable
  op_data :: "row option"
  op_where :: "where_payload option"
  op_select :: "(string \<times> SelectField) list option"
  op_values :: "insert_values option"
  op_limit :: "nat option"
  op_offset :: "nat option"
  op_orderBy :: "(string \<times> direction) list option"
  op_distinct :: "bool option"

text \<open>
  The session as the select builder sees it: \<open>session.execute(operation)\<close> answers with rows
  or throws, and its answer may depend on the operations sent before.
\<close>

type_synonym engine = "PodOperation list \<Rightarrow> PodOperation \<Rightarrow> error + row list"

text \<open>\<open>SelectQueryBuilder.convertQueryConditionToSimple(condition)\<close>.\<close>

fun selectConditionToSimple :: "QueryCondition \<Rightarrow> row"
and selectConditionsToSimple :: "row \<Rightarrow> QueryCondition list \<Rightarrow> row" where
  "selectConditionToSimple (QueryCondition ty operator column v conds tbl lft) =
     (if ty = binary_expr \<and> operator = ''='' \<and> truthyStr column \<and> v \<noteq> None \<and> v \<noteq> Some JUndefined
      then [(the column, the v)]
      else if ty = logical_expr \<and> operator = ''AND''
      then (case conds of None \<Rightarrow> [] | Some cs \<Rightarrow> selectConditionsToSimple [] cs)
      else [])"
| "selectConditionsToSimple res [] = res"
| "selectConditionsToSimple res (child # children) =
     (let childResult = selectConditionToSimple child
      in if length childResult = 0 then []
         else selectConditionsToSimple
                (foldl (\<lambda>result kv. row_put (fst kv) (snd kv) result) res childResult) children)"

text \<open>\<open>where(condition)\<close> for a condition tree (\<open>processQueryCondition\<close>).\<close>

definition processQueryCondition :: "QueryCondition \<Rightarrow> SelectQueryBuilder \<Rightarrow> SelectQueryBuilder" where
  "processQueryCondition condition b =
     (if truthyStr (qc_table condition) \<and> qc_table condition \<noteq> primaryAlias b
      then b\<lparr> joinFilters := joinFilters b @ [condition] \<rparr>
      else (let simpleConditions = selectConditionToSimple condition;
                b1 = b\<lparr> conditionTree := Some condition \<rparr>
            in if length simpleConditions > 0 then b1\<lparr> whereConditions := Some simpleConditions \<rparr>
               else b1))"

text \<open>\<open>inArray(column, values)\<close> for a column object of the table \<open>t\<close>.\<close>

definition inArrayColumn :: "PodTable \<Rightarrow> PodColumnBase \<Rightarrow> jsval list \<Rightarrow> QueryCondition" where
  "inArrayColumn t c vs =
     QueryCondition binary_expr ''IN'' (Some (col_name c)) (Some (JArr vs)) None
       (Some (tbl_name (config t))) (Some (LeftColumn (col_name c)))"

text \<open>
  The operation of \<open>execute()\<close> before the projection is decided: the table, the where
  payload and the modifiers of the builder.
\<close>

definition baseOperation :: "SelectQueryBuilder \<Rightarrow> PodTable \<Rightarrow> PodOperation" where
  "baseOperation b t =
     \<lparr> op_kind = select_op, op_table = t, op_data = None,
       op_where = (case conditionTree b of
                     Some c \<Rightarrow> Some (WhereTree c)
                   | None \<Rightarrow> map_option WhereObject (whereConditions b)),
       op_select = None, op_values = None,
       op_limit = limitCount b, op_offset = offsetCount b,
       op_orderBy = (if length (orderByClauses b) > 0 then Some (orderByClauses b) else None),
       op_distinct = (if isDistinct b then Some True else None) \<rparr>"

definition shouldUseAggregateFallback :: "SelectQueryBuilder \<Rightarrow> bool" where
  "shouldUseAggregateFallback b =
     (if length (groupByColumns b) > 0 then True
      else case selectedFields b of
             None \<Rightarrow> False
           | Some fs \<Rightarrow> length fs > 0 \<and> list_all (\<lambda>f. isAggregateExpression (snd f)) fs)"

definition hasMixedAggregateSelection :: "SelectQueryBuilder \<Rightarrow> bool" where
  "hasMixedAggregateSelection b =
     (case selectedFields b of
        None \<Rightarrow> False
      | Some fs \<Rightarrow> list_ex (\<lambda>f. isAggregateExpression (snd f)) fs \<and>
                   list_ex (\<lambda>f. \<not> isAggregateExpression (snd f)) fs)"

section \<open>Select query builder: joins in memory\<close>

text \<open>
  The subject of a row, \<open>row.subject as string | undefined\<close>: absent when falsy; a truthy
  value that is not a string has no \<open>match\<close> method, a \<open>TypeError\<close>.
\<close>

definition subjectOf :: "row \<Rightarrow> error + string option" where
  "subjectOf r =
     (case row_get r ''subject'' of
        JStr s \<Rightarrow> Inr (if s = [] then None else Some s)
      | v \<Rightarrow> if truthy v then Inl TypeError else Inr None)"

text \<open>One row of \<open>normalizeBaseRows\<close>.\<close>

definition normalizeBaseRow :: "string \<Rightarrow> row \<Rightarrow> error + row" where
  "normalizeBaseRow a r =
     (let result = foldl (\<lambda>res kv. if fst kv = a @ ''.'' @ fst kv then res
                                     else row_put (a @ ''.'' @ fst kv) (snd kv) res) r r
      in case subjectOf r of
           Inl e \<Rightarrow> Inl e
         | Inr None \<Rightarrow> Inr result
         | Inr (Some subjectValue) \<Rightarrow>
             (let result1 = row_put (a @ ''.subject'') (JStr subjectValue) result
              in case extractIdFromSubject (Some subjectValue) of
                   None \<Rightarrow> Inr result1
                 | Some derivedId \<Rightarrow>
                     (let result2 = (if row_get result1 ''id'' = JUndefined
                                     then row_put ''id'' (JStr derivedId) result1 else result1)
                      in Inr (row_put (a @ ''.id'') (JStr derivedId) result2))))"

text \<open>\<open>rows.map(f)\<close> for an \<open>f\<close> that may throw.\<close>

fun mapE :: "('a \<Rightarrow> error + 'b) \<Rightarrow> 'a list \<Rightarrow> error + 'b list" where
  "mapE f [] = Inr []"
| "mapE f (x # xs) =
     (case f x of
        Inl e \<Rightarrow> Inl e
      | Inr y \<Rightarrow> (case mapE f xs of Inl e \<Rightarrow> Inl e | Inr ys \<Rightarrow> Inr (y # ys)))"

text \<open>\<open>normalizeBaseRows(rows)\<close>.\<close>

definition normalizeBaseRows ::
  "PodTable \<Rightarrow> row list \<Rightarrow> SelectQueryBuilder \<Rightarrow> error + (row list \<times> SelectQueryBuilder)" where
  "normalizeBaseRows t rows b =
     (if length rows = 0 then Inr (rows, b)
      else (case (if truthyStr (primaryAlias b) then (the (primaryAlias b), b)
                  else ensureAliasForTable t b) of
              (a, b') \<Rightarrow>
                (case mapE (normalizeBaseRow a) rows of
                   Inl e \<Rightarrow> Inl e
                 | Inr rs \<Rightarrow> Inr (rs, b'))))"

text \<open>One row of \<open>normalizeJoinRows\<close>.\<close>

definition normalizeJoinRow :: "string \<Rightarrow> row \<Rightarrow> error + row" where
  "normalizeJoinRow a r =
     (let normalized = foldl (\<lambda>res kv. row_put (a @ ''.'' @ fst kv) (snd kv) res) [] r
      in case subjectOf r of
           Inl e \<Rightarrow> Inl e
         | Inr None \<Rightarrow> Inr normalized
         | Inr (Some subjectValue) \<Rightarrow>
             (let n1 = row_put (a @ ''.subject'') (JStr subjectValue) normalized
              in case extractIdFromSubject (Some subjectValue) of
                   None \<Rightarrow> Inr n1
                 | Some i \<Rightarrow> Inr (row_put (a @ ''.id'') (JStr i) n1)))"

definition normalizeJoinRows :: "JoinEntry \<Rightarrow> row list \<Rightarrow> error + row list" where
  "normalizeJoinRows j rows = mapE (normalizeJoinRow (join_alias j)) rows"

text \<open>
  The two sides of the first condition of a join: the side of the joined table
  (\<open>joinRef\<close>) and the other one (\<open>baseRef\<close>).
\<close>

definition joinRefOf :: "JoinEntry \<Rightarrow> ResolvedJoinCondition \<Rightarrow> ColumnReference" where
  "joinRefOf j primaryCondition =
     (if ref_alias (left primaryCondition) = join_alias j then left primaryCondition
      else right primaryCondition)"

definition baseRefOf :: "JoinEntry \<Rightarrow> ResolvedJoinCondition \<Rightarrow> ColumnReference" where
  "baseRefOf j primaryCondition =
     (if ref_alias (left primaryCondition) = join_alias j then right primaryCondition
      else left primaryCondition)"

text \<open>
  The distinct values of the base side, in the order met (\<open>uniqueValues\<close>, a \<open>Map\<close> from the
  serialised value to the first value with it).
\<close>

definition uniqueBaseValues ::
  "js_host \<Rightarrow> SelectQueryBuilder \<Rightarrow> ColumnReference \<Rightarrow> row list \<Rightarrow> jsval list" where
  "uniqueBaseValues H b baseRef baseRows =
     dedupeByKey (serializeValueForKey H) []
       (filter (\<lambda>v. v \<noteq> JUndefined \<and> v \<noteq> JNull)
          (map (\<lambda>r. getRowValueForColumn b r baseRef) baseRows))"

text \<open>
  The operation the join query sends: \<open>session.select().from(join.table)\<close>, with
  \<open>where(inArray(column, values))\<close> when the joined column is a column of the table other
  than \<open>id\<close>. The fresh builder has no join, no projection and no modifier.
\<close>

definition joinQueryBuilder :: "JoinEntry \<Rightarrow> ColumnReference \<Rightarrow> jsval list \<Rightarrow> SelectQueryBuilder" where
  "joinQueryBuilder j joinRef valuesArray =
     (let joinQuery = from_table (join_table j) (newSelect None)
      in case getColumn (join_table j) (ref_column joinRef) of
           Some joinColumnInstance \<Rightarrow>
             (if ref_column joinRef \<noteq> ''id''
              then processQueryCondition (inArrayColumn (join_table j) joinColumnInstance valuesArray) joinQuery
              else joinQuery)
         | None \<Rightarrow> joinQuery)"

text \<open>
  \<open>fetchJoinRows(join, baseRows)\<close>: the rows of the joined table, normalised, and the
  operations sent (none when the join has no condition or the base side has no value).
\<close>

definition fetchJoinRows ::
  "engine \<Rightarrow> js_host \<Rightarrow> SelectQueryBuilder \<Rightarrow> PodOperation list \<Rightarrow> JoinEntry \<Rightarrow> row list \<Rightarrow>
     (error + row list) \<times> PodOperation list" where
  "fetchJoinRows E H b sent j baseRows =
     (case (case resolvedConditions j of Some cs \<Rightarrow> cs | None \<Rightarrow> []) of
        [] \<Rightarrow> (Inr [], sent)
      | primaryCondition # others \<Rightarrow>
          (let joinRef = joinRefOf j primaryCondition;
               baseRef = baseRefOf j primaryCondition;
               valuesArray = uniqueBaseValues H b baseRef baseRows
           in if length valuesArray = 0 then (Inr [], sent)
              else (let q = joinQueryBuilder j joinRef valuesArray;
                        operation = baseOperation q (join_table j)
                    in (case E sent operation of
                          Inl e \<Rightarrow> Inl e
                        | Inr joinRows \<Rightarrow> normalizeJoinRows j joinRows,
                        sent @ [operation]))))"

text \<open>\<open>createEmptyJoinRow(join)\<close>.\<close>

definition createEmptyJoinRow :: "JoinEntry \<Rightarrow> row" where
  "createEmptyJoinRow j =
     row_put (join_alias j @ ''.id'') JUndefined
       (row_put (join_alias j @ ''.subject'') JUndefined
          (foldl (\<lambda>res columnName. row_put (join_alias j @ ''.'' @ columnName) JUndefined res) []
             (map fst (columns (join_table j)))))"

text \<open>The hash map of \<open>mergeRowsWithJoin\<close>, from the serialised join value to the rows with it.\<close>

definition joinValueMap ::
  "js_host \<Rightarrow> SelectQueryBuilder \<Rightarrow> ColumnReference \<Rightarrow> row list \<Rightarrow> (string \<times> row list) list" where
  "joinValueMap H b joinRef joinRows =
     foldl (\<lambda>m joinRow.
              (let v = getRowValueForColumn b joinRow joinRef
               in if v = JUndefined \<or> v = JNull then m
                  else (let key = serializeValueForKey H v
                        in AList.update key
                             ((case map_of m key of Some l \<Rightarrow> l | None \<Rightarrow> []) @ [joinRow]) m)))
       [] joinRows"

text \<open>What \<open>mergeRowsWithJoin\<close> pushes for one base row.\<close>

definition mergeBaseRow ::
  "js_host \<Rightarrow> SelectQueryBuilder \<Rightarrow> JoinEntry \<Rightarrow> ColumnReference \<Rightarrow> (string \<times> row list) list \<Rightarrow>
     row \<Rightarrow> row list" where
  "mergeBaseRow H b j baseRef m baseRow =
     (let baseValue = getRowValueForColumn b baseRow baseRef;
          key = serializeValueForKey H baseValue;
          matches = (if baseValue \<noteq> JUndefined \<and> baseValue \<noteq> JNull
                     then (case map_of m key of Some l \<Rightarrow> l | None \<Rightarrow> [])
                     else [])
      in if length matches = 0
         then (if join_type j = innerJoin then []
               else [row_spread baseRow (createEmptyJoinRow j)])
         else map (\<lambda>match. row_spread baseRow match) matches)"

text \<open>\<open>mergeRowsWithJoin(baseRows, join, joinRows)\<close>.\<close>

definition mergeRowsWithJoin ::
  "js_host \<Rightarrow> SelectQueryBuilder \<Rightarrow> row list \<Rightarrow> JoinEntry \<Rightarrow> row list \<Rightarrow> row list" where
  "mergeRowsWithJoin H b baseRows j joinRows =
     (case (case resolvedConditions j of Some cs \<Rightarrow> cs | None \<Rightarrow> []) of
        [] \<Rightarrow> baseRows
      | primaryCondition # others \<Rightarrow>
          (let joinRef = joinRefOf j primaryCondition;
               baseRef = baseRefOf j primaryCondition;
               m = joinValueMap H b joinRef joinRows
           in concat (map (mergeBaseRow H b j baseRef m) baseRows)))"

text \<open>\<open>applyJoinFallback(rows)\<close>: the joins in the order they were registered.\<close>

fun applyJoins ::
  "engine \<Rightarrow> js_host \<Rightarrow> SelectQueryBuilder \<Rightarrow> JoinEntry list \<Rightarrow> row list \<Rightarrow> PodOperation list \<Rightarrow>
     (error + row list) \<times> PodOperation list" where
  "applyJoins E H b [] combinedRows sent = (Inr combinedRows, sent)"
| "applyJoins E H b (j # js) combinedRows sent =
     (case fetchJoinRows E H b sent j combinedRows of
        (Inl e, sent') \<Rightarrow> (Inl e, sent')
      | (Inr joinRows, sent') \<Rightarrow>
          applyJoins E H b js (mergeRowsWithJoin H b combinedRows j joinRows) sent')"

definition applyJoinFallback ::
  "engine \<Rightarrow> js_host \<Rightarrow> SelectQueryBuilder \<Rightarrow> row list \<Rightarrow> PodOperation list \<Rightarrow>
     (error + row list) \<times> PodOperation list" where
  "applyJoinFallback E H b rows sent = applyJoins E H b (joins b) rows sent"

section \<open>Select query builder: grouping, aggregation and projection\<close>

text \<open>\<open>buildAggregateRow(rows)\<close>: one computed value per aggregate of the select list.\<close>

fun buildAggregateLoop ::
  "js_host \<Rightarrow> row list \<Rightarrow> (string \<times> SelectField) list \<Rightarrow> row \<Rightarrow> SelectQueryBuilder \<Rightarrow>
     error + (row \<times> SelectQueryBuilder)" where
  "buildAggregateLoop H rows [] res b = Inr (res, b)"
| "buildAggregateLoop H rows ((a, Plain f) # fs) res b = buildAggregateLoop H rows fs res b"
| "buildAggregateLoop H rows ((a, Aggregate g) # fs) res b =
     (case computeAggregateValue H b g rows of
        Inl e \<Rightarrow> Inl e
      | Inr (v, b') \<Rightarrow> buildAggregateLoop H rows fs (row_put a v res) b')"

definition buildAggregateRow ::
  "js_host \<Rightarrow> row list \<Rightarrow> SelectQueryBuilder \<Rightarrow> error + (row \<times> SelectQueryBuilder)" where
  "buildAggregateRow H rows b =
     (case selectedFields b of
        None \<Rightarrow> Inr ([], b)
      | Some fs \<Rightarrow> buildAggregateLoop H rows fs [] b)"

text \<open>
  The key of the group of a row: the serialised values of the group-by columns. The code
  keys its \<open>Map\<close> by \<open>JSON.stringify\<close> of this array of strings, which is one-to-one on
  arrays of strings; the model keys by the array.
\<close>

definition groupKey :: "js_host \<Rightarrow> SelectQueryBuilder \<Rightarrow> row \<Rightarrow> string list" where
  "groupKey H b r =
     map (\<lambda>ref. serializeValueForKey H (getRowValueForColumn b r ref)) (groupByColumns b)"

text \<open>The groups in the order their first rows are met, each with its rows in order.\<close>

definition groupRows :: "js_host \<Rightarrow> SelectQueryBuilder \<Rightarrow> row list \<Rightarrow> (string list \<times> row list) list" where
  "groupRows H b rows =
     foldl (\<lambda>groups r.
              (let k = groupKey H b r
               in AList.update k ((case map_of groups k of Some l \<Rightarrow> l | None \<Rightarrow> []) @ [r]) groups))
       [] rows"

text \<open>\<open>resolveSelectFieldColumn(field)\<close>.\<close>

fun resolveSelectFieldColumn ::
  "field_ref \<Rightarrow> SelectQueryBuilder \<Rightarrow> error + (ColumnReference option \<times> SelectQueryBuilder)" where
  "resolveSelectFieldColumn FieldOther b = Inr (None, b)"
| "resolveSelectFieldColumn (FieldNamed n) b = Inr (None, b)"
| "resolveSelectFieldColumn f b =
     (case resolveColumnReference f None b of
        Inl e \<Rightarrow> Inl e
      | Inr (r, b') \<Rightarrow> Inr (Some r, b'))"

text \<open>\<open>ensureGroupByValidity()\<close>, over the fields of the select list.\<close>

fun groupByValidityLoop ::
  "string list \<Rightarrow> (string \<times> SelectField) list \<Rightarrow> SelectQueryBuilder \<Rightarrow> error + SelectQueryBuilder" where
  "groupByValidityLoop groupColumns [] b = Inr b"
| "groupByValidityLoop groupColumns ((a, Aggregate g) # fs) b = groupByValidityLoop groupColumns fs b"
| "groupByValidityLoop groupColumns ((a, Plain f) # fs) b =
     (case resolveSelectFieldColumn f b of
        Inl e \<Rightarrow> Inl e
      | Inr (None, b') \<Rightarrow> groupByValidityLoop groupColumns fs b'
      | Inr (Some columnRef, b') \<Rightarrow>
          (let identifier = ref_alias columnRef @ ''.'' @ ref_column columnRef
           in if identifier \<notin> set groupColumns then Inl (MissingGroupByColumn identifier)
              else groupByValidityLoop groupColumns fs b'))"

definition ensureGroupByValidity :: "SelectQueryBuilder \<Rightarrow> error + SelectQueryBuilder" where
  "ensureGroupByValidity b =
     (case selectedFields b of
        None \<Rightarrow> Inr b
      | Some fs \<Rightarrow>
          groupByValidityLoop (map (\<lambda>ref. ref_alias ref @ ''.'' @ ref_column ref) (groupByColumns b)) fs b)"

text \<open>The projected row of one group: aggregates computed, other fields from the first row.\<close>

fun projectGroupLoop ::
  "SelectQueryBuilder \<Rightarrow> row \<Rightarrow> row \<Rightarrow> (string \<times> SelectField) list \<Rightarrow> row \<Rightarrow>
     error + (row \<times> SelectQueryBuilder)" where
  "projectGroupLoop b aggregateValues first [] projected = Inr (projected, b)"
| "projectGroupLoop b aggregateValues first ((key, Aggregate g) # fs) projected =
     projectGroupLoop b aggregateValues first fs (row_put key (row_get aggregateValues key) projected)"
| "projectGroupLoop b aggregateValues first ((key, Plain f) # fs) projected =
     (case resolveSelectFieldColumn f b of
        Inl e \<Rightarrow> Inl e
      | Inr (None, b') \<Rightarrow>
          projectGroupLoop b' aggregateValues first fs (row_put key JUndefined projected)
      | Inr (Some columnRef, b') \<Rightarrow>
          projectGroupLoop b' aggregateValues first fs
            (row_put key (getRowValueForColumn b' first columnRef) projected))"

fun groupedResults ::
  "js_host \<Rightarrow> (string \<times> SelectField) list \<Rightarrow> (string list \<times> row list) list \<Rightarrow> SelectQueryBuilder \<Rightarrow>
     error + (row list \<times> SelectQueryBuilder)" where
  "groupedResults H fs [] b = Inr ([], b)"
| "groupedResults H fs (g # gs) b =
     (case buildAggregateRow H (snd g) b of
        Inl e \<Rightarrow> Inl e
      | Inr (aggregateValues, b1) \<Rightarrow>
          (case projectGroupLoop b1 aggregateValues (hd (snd g)) fs [] of
             Inl e \<Rightarrow> Inl e
           | Inr (projected, b2) \<Rightarrow>
               (case groupedResults H fs gs b2 of
                  Inl e \<Rightarrow> Inl e
                | Inr (rest, b3) \<Rightarrow> Inr (projected # rest, b3))))"

text \<open>\<open>buildGroupedAggregateRows(rows)\<close>.\<close>

definition buildGroupedAggregateRows ::
  "js_host \<Rightarrow> row list \<Rightarrow> SelectQueryBuilder \<Rightarrow> error + (row list \<times> SelectQueryBuilder)" where
  "buildGroupedAggregateRows H rows b =
     (case selectedFields b of
        None \<Rightarrow> Inr (rows, b)
      | Some fs \<Rightarrow>
          (case ensureGroupByValidity b of
             Inl e \<Rightarrow> Inl e
           | Inr b1 \<Rightarrow> groupedResults H fs (groupRows H b1 rows) b1))"

text \<open>\<open>handleAggregateFallback(rows)\<close>.\<close>

definition handleAggregateFallback ::
  "js_host \<Rightarrow> row list \<Rightarrow> SelectQueryBuilder \<Rightarrow> error + (row list \<times> SelectQueryBuilder)" where
  "handleAggregateFallback H rows b =
     (case selectedFields b of
        None \<Rightarrow>
          (if length (groupByColumns b) = 0 then Inr (rows, b)
           else Inr (dedupeByKey (groupKey H b) [] rows, b))
      | Some fs \<Rightarrow>
          (if length (groupByColumns b) = 0
           then (case buildAggregateRow H rows b of
                   Inl e \<Rightarrow> Inl e
                 | Inr (r, b') \<Rightarrow> Inr ([r], b'))
           else buildGroupedAggregateRows H rows b))"

text \<open>\<open>candidates.add(x)\<close> on a \<open>Set\<close> in insertion order.\<close>

definition set_add :: "string \<Rightarrow> string list \<Rightarrow> string list" where
  "set_add x xs = (if x \<in> set xs then xs else xs @ [x])"

text \<open>\<open>resolveFieldBindingCandidates(alias, field)\<close>.\<close>

fun resolveFieldBindingCandidates ::
  "string \<Rightarrow> field_ref \<Rightarrow> SelectQueryBuilder \<Rightarrow> error + (string list \<times> SelectQueryBuilder)" where
  "resolveFieldBindingCandidates a (FieldString field) b =
     (case parseColumnReferenceString field of
        (refAlias, column) \<Rightarrow>
          (let c1 = set_add column (set_add field [a])
           in Inr (case refAlias of
                     Some ra \<Rightarrow> set_add (ra @ ''.'' @ column) c1
                   | None \<Rightarrow> c1, b)))"
| "resolveFieldBindingCandidates a (FieldColumn c t) b =
     (case resolveColumnReference (FieldColumn c t) None b of
        Inl e \<Rightarrow> Inl e
      | Inr (columnRef, b') \<Rightarrow>
          Inr (set_add (ref_alias columnRef @ ''.'' @ ref_column columnRef)
                 (set_add (col_name c) [a]), b'))"
| "resolveFieldBindingCandidates a (FieldNamed candidateName) b = Inr (set_add candidateName [a], b)"
| "resolveFieldBindingCandidates a FieldOther b = Inr ([a], b)"

fun firstDefined :: "row \<Rightarrow> string list \<Rightarrow> jsval option" where
  "firstDefined r [] = None"
| "firstDefined r (k # ks) = (if row_get r k \<noteq> JUndefined then Some (row_get r k) else firstDefined r ks)"

text \<open>\<open>projectSelectedRow(row)\<close>, over the fields of the select list.\<close>

fun projectLoop ::
  "row \<Rightarrow> (string \<times> SelectField) list \<Rightarrow> row \<Rightarrow> SelectQueryBuilder \<Rightarrow>
     error + (row \<times> SelectQueryBuilder)" where
  "projectLoop r [] projected b = Inr (projected, b)"
| "projectLoop r ((key, Aggregate g) # fs) projected b =
     projectLoop r fs (row_put key (row_get r key) projected) b"
| "projectLoop r ((key, Plain f) # fs) projected b =
     (case resolveFieldBindingCandidates key f b of
        Inl e \<Rightarrow> Inl e
      | Inr (candidates, b') \<Rightarrow>
          (case firstDefined r candidates of
             Some v \<Rightarrow> projectLoop r fs (row_put key v projected) b'
           | None \<Rightarrow> projectLoop r fs (row_put key (row_get r key) projected) b'))"

definition projectSelectedRow ::
  "row \<Rightarrow> SelectQueryBuilder \<Rightarrow> error + (row \<times> SelectQueryBuilder)" where
  "projectSelectedRow r b =
     (case selectedFields b of
        None \<Rightarrow> Inr (r, b)
      | Some fs \<Rightarrow> projectLoop r fs [] b)"

text \<open>\<open>rows.map((row) => this.projectSelectedRow(row))\<close>.\<close>

fun projectRows :: "row list \<Rightarrow> SelectQueryBuilder \<Rightarrow> error + (row list \<times> SelectQueryBuilder)" where
  "projectRows [] b = Inr ([], b)"
| "projectRows (r # rs) b =
     (case projectSelectedRow r b of
        Inl e \<Rightarrow> Inl e
      | Inr (p, b1) \<Rightarrow>
          (case projectRows rs b1 of
             Inl e \<Rightarrow> Inl e
           | Inr (ps, b2) \<Rightarrow> Inr (p # ps, b2)))"

section \<open>Select query builder: execute\<close>

text \<open>
  The in-memory part of the fallback path of \<open>execute()\<close>, from the rows the engine
  returned for the base operation: joins, join filters, then aggregation or projection.
  The result comes with the operations sent so far.
\<close>

definition finishFallback ::
  "engine \<Rightarrow> js_host \<Rightarrow> SelectQueryBuilder \<Rightarrow> PodTable \<Rightarrow> row list \<Rightarrow> PodOperation list \<Rightarrow>
     (error + row list) \<times> PodOperation list" where
  "finishFallback E H b t intermediateRows sent =
     (case (if length (joins b) > 0
            then (case normalizeBaseRows t intermediateRows b of
                    Inl e \<Rightarrow> (Inl e, sent)
                  | Inr (rows1, b1) \<Rightarrow>
                      (case applyJoinFallback E H b1 rows1 sent of
                         (Inl e, sent') \<Rightarrow> (Inl e, sent')
                       | (Inr rows2, sent') \<Rightarrow>
                           (case applyJoinFilters H b1 rows2 of
                              Inl e \<Rightarrow> (Inl e, sent')
                            | Inr rows3 \<Rightarrow> (Inr (rows3, b1), sent'))))
            else (Inr (intermediateRows, b), sent)) of
        (Inl e, sent') \<Rightarrow> (Inl e, sent')
      | (Inr (rows, b'), sent') \<Rightarrow>
          (if shouldUseAggregateFallback b'
           then (case handleAggregateFallback H rows b' of
                   Inl e \<Rightarrow> Inl e
                 | Inr (res, b'') \<Rightarrow> Inr res, sent')
           else if selectedFields b' \<noteq> None
           then (case projectRows rows b' of
                   Inl e \<Rightarrow> Inl e
                 | Inr (res, b'') \<Rightarrow> Inr res, sent')
           else (Inr rows, sent')))"

text \<open>
  \<open>execute()\<close> of the select builder (for a builder without a Drizzle SQL object): the
  result, and the operations sent to the session in order.
\<close>

definition execute ::
  "engine \<Rightarrow> js_host \<Rightarrow> SelectQueryBuilder \<Rightarrow> (error + row list) \<times> PodOperation list" where
  "execute E H b =
     (case selectedTable b of
        None \<Rightarrow> (Inl NoTableSpecified, [])
      | Some t \<Rightarrow>
          (let operation = baseOperation b t;
               hasJoins = length (joins b) > 0
           in if length (groupByColumns b) = 0 \<and> hasMixedAggregateSelection b
              then (Inl MixedSelectionRequiresGroupBy, [])
              else if \<not> hasJoins \<and> \<not> shouldUseAggregateFallback b
              then (let direct = operation\<lparr> op_select := selectedFields b \<rparr>
                    in (case E [] direct of
                          Inl e \<Rightarrow> Inl e
                        | Inr directResults \<Rightarrow>
                            (if selectedFields b \<noteq> None
                             then (case projectRows directResults b of
                                     Inl e \<Rightarrow> Inl e
                                   | Inr (res, b') \<Rightarrow> Inr res)
                             else Inr directResults),
                        [direct]))
              else (let fallback = operation\<lparr> op_select := None \<rparr>
                    in (case E [] fallback of
                          Inl e \<Rightarrow> (Inl e, [fallback])
                        | Inr intermediateRows \<Rightarrow>
                            finishFallback E H b t intermediateRows [fallback]))))"

section \<open>Pod dialect (pod-dialect.ts): the outside world\<close>

datatype http_method = GET | HEAD | PUT

record http_response =
  status :: nat
  body :: string

definition ok :: "http_response \<Rightarrow> bool" where
  "ok r = (200 \<le> status r \<and> status r \<le> 299)"

text \<open>What \<open>session.fetch\<close> gives: a response, or a rejection (a network failure).\<close>

datatype fetch_result = Response http_response | Rejected

datatype sparql_kind = SELECT | INSERT | DELETE | UPDATE

text \<open>
  The statements the dialect sends, by the template that builds their text. The text
  itself (prefix lines, triples, filters) is not modelled; a statement keeps what its
  template is instantiated with.
  \<^item> \<open>SelectRows\<close>: \<open>convertSelect\<close> of the operation;
  \<^item> \<open>InsertData\<close>: \<open>convertInsert\<close>, with the subject URIs of the records;
  \<^item> \<open>NativeUpdate\<close>: \<open>convertUpdate\<close>, the native UPDATE template on one subject URI
    (\<open>DELETE WHERE\<close> per column, then \<open>INSERT DATA\<close>);
  \<^item> \<open>DeleteSubject\<close>: \<open>DELETE WHERE { <subject> ?p ?o }\<close>;
  \<^item> \<open>DeleteAllOfClass\<close>: \<open>DELETE WHERE { ?subject rdf:type <class> . ?subject ?p ?o }\<close>;
  \<^item> \<open>SelectSubjects\<close>: \<open>SELECT ?subject WHERE { ... }\<close> of \<open>findSubjectsForCondition\<close>;
  \<^item> \<open>SubjectUpdate\<close>: \<open>buildUpdateQueryForSubject\<close>, the update of one matching subject.
\<close>

datatype sparql_statement =
    SelectRows PodOperation
  | InsertData "string list"
  | NativeUpdate string "string list" row
  | DeleteSubject string
  | DeleteAllOfClass string
  | SelectSubjects QueryCondition
  | SubjectUpdate string "string list" row

record SPARQLQuery =
  q_kind :: sparql_kind
  q_statement :: sparql_statement

text \<open>What the dialect does to the outside world, in order.\<close>

datatype event = Fetch http_method string | ExecuteOnResource string SPARQLQuery

text \<open>
  The outside world: the answer of the server to a request and the answer of the SPARQL
  executor (\<open>sparqlExecutor.queryContainer\<close>) to a statement, each given what happened
  before.
\<close>

record world =
  fetch :: "event list \<Rightarrow> http_method \<Rightarrow> string \<Rightarrow> fetch_result"
  queryContainer :: "event list \<Rightarrow> string \<Rightarrow> SPARQLQuery \<Rightarrow> error + row list"

record PodDialect =
  converter :: Converter
  connected :: bool

type_synonym dstate = "PodDialect \<times> event list"

type_synonym 'a io = "dstate \<Rightarrow> (error + 'a) \<times> dstate"

text \<open>Sequencing of the asynchronous steps: a throw ends the sequence, the events stay.\<close>

definition returnIO :: "'a \<Rightarrow> 'a io" where
  "returnIO x = (\<lambda>s. (Inr x, s))"

definition throwIO :: "error \<Rightarrow> 'a io" where
  "throwIO e = (\<lambda>s. (Inl e, s))"

definition bindIO :: "'a io \<Rightarrow> ('a \<Rightarrow> 'b io) \<Rightarrow> 'b io" where
  "bindIO m f = (\<lambda>s. case m s of (Inl e, s') \<Rightarrow> (Inl e, s') | (Inr x, s') \<Rightarrow> f x s')"

text \<open>\<open>try { m } catch { h }\<close>.\<close>

definition catchIO :: "'a io \<Rightarrow> 'a io \<Rightarrow> 'a io" where
  "catchIO m h = (\<lambda>s. case m s of (Inl e, s') \<Rightarrow> h s' | (Inr x, s') \<Rightarrow> (Inr x, s'))"

text \<open>\<open>await this.session.fetch(url, { method })\<close>.\<close>

definition doFetch :: "world \<Rightarrow> http_method \<Rightarrow> string \<Rightarrow> http_response io" where
  "doFetch W m url =
     (\<lambda>s. (case fetch W (snd s) m url of
               Response r \<Rightarrow> Inr r
             | Rejected \<Rightarrow> Inl NetworkError,
            (fst s, snd s @ [Fetch m url])))"

text \<open>\<open>executeOnResource(resourceUrl, sparqlQuery)\<close>.\<close>

definition executeOnResource :: "world \<Rightarrow> string \<Rightarrow> SPARQLQuery \<Rightarrow> row list io" where
  "executeOnResource W resourceUrl q =
     (\<lambda>s. (queryContainer W (snd s) resourceUrl q,
            (fst s, snd s @ [ExecuteOnResource resourceUrl q])))"

section \<open>Pod dialect: URLs and preflight\<close>

definition endsWith :: "string \<Rightarrow> string \<Rightarrow> bool" where
  "endsWith s p = startsWith (rev s) (rev p)"

text \<open>\<open>s.replace(/^\/+/, '')\<close>.\<close>

definition stripLeadingSlashes :: "string \<Rightarrow> string" where
  "stripLeadingSlashes s = dropWhile (\<lambda>c. c = CHR ''/'') s"

text \<open>\<open>haystack.includes(needle)\<close> on strings.\<close>

fun str_includes :: "string \<Rightarrow> string \<Rightarrow> bool" where
  "str_includes [] needle = (needle = [])"
| "str_includes (c # cs) needle = (startsWith (c # cs) needle \<or> str_includes cs needle)"

text \<open>\<open>connect()\<close>.\<close>

definition connect :: "world \<Rightarrow> unit io" where
  "connect W =
     (\<lambda>s. if connected (fst s) then returnIO () s
          else bindIO (doFetch W GET (podUrl (converter (fst s))))
                 (\<lambda>response. if \<not> ok response then throwIO (FailedToConnect (status response))
                              else (\<lambda>s'. (Inr (), (fst s'\<lparr> connected := True \<rparr>, snd s')))) s)"

record TableUrls =
  containerUrl :: string
  resourceUrl :: string

text \<open>\<open>resolveTableUrls(table)\<close>.\<close>

definition resolveTableUrls :: "PodDialect \<Rightarrow> PodTable \<Rightarrow> TableUrls" where
  "resolveTableUrls d t =
     (let cp = (if containerPath (config t) \<noteq> [] then containerPath (config t) else ''/data/'')
      in if startsWith cp ''http://'' \<or> startsWith cp ''https://''
         then (let normalizedContainer = (if endsWith cp ''/'' then cp else cp @ ''/'')
               in \<lparr> containerUrl = normalizedContainer,
                    resourceUrl = normalizedContainer @ tbl_name (config t) @ ''.ttl'' \<rparr>)
         else (let userPath = extractUserPathFromWebId (converter d);
                   normalizedPath = (if startsWith cp userPath then cp
                                     else userPath @ stripLeadingSlashes cp);
                   url0 = (if endsWith (podUrl (converter d)) ''/''
                           then podUrl (converter d) @ stripLeadingSlashes normalizedPath
                           else podUrl (converter d) @ normalizedPath);
                   url1 = (if \<not> endsWith url0 ''/'' then url0 @ ''/'' else url0)
               in \<lparr> containerUrl = url1, resourceUrl = url1 @ tbl_name (config t) @ ''.ttl'' \<rparr>))"

text \<open>\<open>ensureContainerExists(containerUrl)\<close>.\<close>

definition ensureContainerExists :: "world \<Rightarrow> string \<Rightarrow> unit io" where
  "ensureContainerExists W url =
     bindIO (doFetch W HEAD url)
       (\<lambda>checkResponse.
          if status checkResponse = 404
          then bindIO (doFetch W PUT url)
                 (\<lambda>createResponse.
                    if ok createResponse then returnIO ()
                    else if status createResponse = 409 then returnIO ()
                    else throwIO (FailedToCreateContainer (status createResponse)))
          else if status checkResponse = 200 then returnIO ()
          else if status checkResponse = 409 then returnIO ()
          else if \<not> ok checkResponse then throwIO (FailedToCheckContainer (status checkResponse))
          else returnIO ())"

text \<open>
  \<open>resourceExists(resourceUrl)\<close>; a rejection anywhere in the \<open>try\<close> block falls back to
  one GET, and a rejection of that one answers false.
\<close>

definition resourceExists :: "world \<Rightarrow> string \<Rightarrow> bool io" where
  "resourceExists W url =
     catchIO
       (bindIO (doFetch W HEAD url)
          (\<lambda>response.
             if ok response \<or> status response = 409 then returnIO True
             else if status response = 404 then returnIO False
             else if status response = 405
             then bindIO (doFetch W GET url) (\<lambda>getResponse. returnIO (ok getResponse))
             else if status response = 401 \<or> status response = 403 then returnIO True
             else returnIO (ok response)))
       (catchIO (bindIO (doFetch W GET url) (\<lambda>getResponse. returnIO (ok getResponse)))
          (returnIO False))"

text \<open>\<open>ensureResourceExists(resourceUrl, { createIfMissing })\<close>.\<close>

definition ensureResourceExists :: "world \<Rightarrow> string \<Rightarrow> bool \<Rightarrow> unit io" where
  "ensureResourceExists W url createIfMissing =
     bindIO (resourceExists W url)
       (\<lambda>exists.
          if exists then returnIO ()
          else if \<not> createIfMissing then throwIO (ResourceNotFound url)
          else bindIO (doFetch W PUT url)
                 (\<lambda>response.
                    if \<not> ok response \<and> status response \<notin> set [201, 202, 204, 409]
                    then throwIO (FailedToCreateResource (status response))
                    else returnIO ()))"

section \<open>Pod dialect: statements\<close>

text \<open>
  The values of an insert, \<open>Array.isArray(values) ? values : [values]\<close>; an operation
  without values gives the one-element array \<open>[undefined]\<close>, whose element is \<open>None\<close>.
\<close>

fun insertRecords :: "insert_values option \<Rightarrow> row option list" where
  "insertRecords None = [None]"
| "insertRecords (Some (OneRecord r)) = [Some r]"
| "insertRecords (Some (Batch rs)) = map Some rs"

text \<open>The subject URI of a record of an insert; reading \<open>id\<close> of \<open>undefined\<close> is a \<open>TypeError\<close>.\<close>

definition subjectUriOfRecord ::
  "js_host \<Rightarrow> Converter \<Rightarrow> jsnum \<Rightarrow> PodTable \<Rightarrow> row option \<Rightarrow> error + string" where
  "subjectUriOfRecord H cv now t rec =
     (case rec of None \<Rightarrow> Inl TypeError | Some r \<Rightarrow> Inr (generateSubjectUri H cv now r t))"

text \<open>The loop of \<open>checkResourceExistence\<close> over the records.\<close>

fun noneInBody ::
  "js_host \<Rightarrow> Converter \<Rightarrow> jsnum \<Rightarrow> PodTable \<Rightarrow> string \<Rightarrow> row option list \<Rightarrow> error + bool" where
  "noneInBody H cv now t turtleData [] = Inr True"
| "noneInBody H cv now t turtleData (rec # recs) =
     (case subjectUriOfRecord H cv now t rec of
        Inl e \<Rightarrow> Inl e
      | Inr subjectUri \<Rightarrow>
          if str_includes turtleData subjectUri then Inr False
          else noneInBody H cv now t turtleData recs)"

text \<open>\<open>checkResourceExistence(values, table, resourceUrl)\<close>.\<close>

definition checkResourceExistence ::
  "world \<Rightarrow> js_host \<Rightarrow> jsnum \<Rightarrow> row option list \<Rightarrow> PodTable \<Rightarrow> string \<Rightarrow> bool io" where
  "checkResourceExistence W H now records t url =
     bindIO (doFetch W GET url)
       (\<lambda>response.
          if \<not> ok response
          then (if status response = 404 then returnIO True
                else throwIO (HttpError (status response)))
          else (\<lambda>s. (noneInBody H (converter (fst s)) now t (body response) records, s)))"

text \<open>
  The duplicate-id scan of \<open>convertInsert\<close>: the truthy ids met twice, in order.
\<close>

fun duplicateIds :: "jsval list \<Rightarrow> row option list \<Rightarrow> error + jsval list" where
  "duplicateIds existingIds [] = Inr []"
| "duplicateIds existingIds (None # recs) = Inl TypeError"
| "duplicateIds existingIds (Some r # recs) =
     (let i = row_get r ''id''
      in if truthy i
         then (if array_includes existingIds i
               then (case duplicateIds existingIds recs of
                       Inl e \<Rightarrow> Inl e
                     | Inr ds \<Rightarrow> Inr (i # ds))
               else duplicateIds (existingIds @ [i]) recs)
         else duplicateIds existingIds recs)"

text \<open>\<open>convertInsert(values, table)\<close>.\<close>

definition convertInsert ::
  "js_host \<Rightarrow> Converter \<Rightarrow> jsnum \<Rightarrow> row option list \<Rightarrow> PodTable \<Rightarrow> error + SPARQLQuery" where
  "convertInsert H cv now records t =
     (case duplicateIds [] records of
        Inl e \<Rightarrow> Inl e
      | Inr ds \<Rightarrow>
          if length ds > 0 then Inl (DuplicateIds (map (js_String H) ds))
          else (case mapE (subjectUriOfRecord H cv now t) records of
                  Inl e \<Rightarrow> Inl e
                | Inr subjects \<Rightarrow> Inr \<lparr> q_kind = INSERT, q_statement = InsertData subjects \<rparr>))"

text \<open>
  The record in which \<open>generateSubjectUri\<close> looks for \<open>id\<close> when it is given a where
  argument: the key/value map, or a condition node, which has no \<open>id\<close> property.
\<close>

fun whereRecord :: "where_payload \<Rightarrow> row" where
  "whereRecord (WhereObject r) = r"
| "whereRecord (WhereTree c) = []"

text \<open>\<open>convertUpdate(setData, whereConditions, table)\<close>.\<close>

definition convertUpdate ::
  "js_host \<Rightarrow> Converter \<Rightarrow> jsnum \<Rightarrow> row \<Rightarrow> where_payload \<Rightarrow> PodTable \<Rightarrow> SPARQLQuery" where
  "convertUpdate H cv now setData whereArg t =
     \<lparr> q_kind = UPDATE,
       q_statement =
         NativeUpdate (generateSubjectUri H cv now (whereRecord whereArg) t)
           (filter (\<lambda>columnName. getColumn t columnName \<noteq> None) (map fst setData))
           setData \<rparr>"

text \<open>
  \<open>convertDelete(whereArg, table)\<close>; a condition node is an object with keys, a
  key/value map has keys when it is not empty.
\<close>

fun hasKeys :: "where_payload option \<Rightarrow> bool" where
  "hasKeys None = False"
| "hasKeys (Some (WhereObject r)) = (length r > 0)"
| "hasKeys (Some (WhereTree c)) = True"

definition convertDelete ::
  "js_host \<Rightarrow> Converter \<Rightarrow> jsnum \<Rightarrow> where_payload option \<Rightarrow> PodTable \<Rightarrow> SPARQLQuery" where
  "convertDelete H cv now whereArg t =
     (if hasKeys whereArg
      then \<lparr> q_kind = DELETE,
             q_statement = DeleteSubject (generateSubjectUri H cv now (whereRecord (the whereArg)) t) \<rparr>
      else \<lparr> q_kind = DELETE, q_statement = DeleteAllOfClass (rdfClass (config t)) \<rparr>)"

section \<open>Pod dialect: conditional update and delete\<close>

text \<open>
  The subjects of the rows of \<open>findSubjectsForCondition\<close>: a string, or the \<open>value\<close> of a
  term object; falsy subjects are dropped.
\<close>

definition subjectOfBinding :: "js_host \<Rightarrow> row \<Rightarrow> string option" where
  "subjectOfBinding H r =
     (let subject = row_get r ''subject''
      in if \<not> truthy subject then None
         else (case subject of
                 JStr s \<Rightarrow> Some s
               | v \<Rightarrow> (case term_value H v of
                          Some s \<Rightarrow> if s = [] then None else Some s
                        | None \<Rightarrow> None)))"

definition findSubjectsForCondition ::
  "world \<Rightarrow> js_host \<Rightarrow> QueryCondition \<Rightarrow> PodTable \<Rightarrow> string \<Rightarrow> string list io" where
  "findSubjectsForCondition W H condition t url =
     bindIO (executeOnResource W url \<lparr> q_kind = SELECT, q_statement = SelectSubjects condition \<rparr>)
       (\<lambda>rows. returnIO (List.map_filter (subjectOfBinding H) rows))"

text \<open>The result record of a per-subject statement.\<close>

definition subjectResult :: "string \<Rightarrow> string \<Rightarrow> row" where
  "subjectResult url subject =
     [(''success'', JBool True), (''source'', JStr url), (''subject'', JStr subject)]"

text \<open>The loop of \<open>executeComplexUpdate\<close> over the subjects, in the order returned.\<close>

fun updateSubjects ::
  "world \<Rightarrow> string \<Rightarrow> string list \<Rightarrow> row \<Rightarrow> string list \<Rightarrow> row list io" where
  "updateSubjects W url columnsToUpdate setData [] = returnIO []"
| "updateSubjects W url columnsToUpdate setData (subject # subjects) =
     bindIO (executeOnResource W url
               \<lparr> q_kind = UPDATE, q_statement = SubjectUpdate subject columnsToUpdate setData \<rparr>)
       (\<lambda>res. bindIO (updateSubjects W url columnsToUpdate setData subjects)
                (\<lambda>results. returnIO (subjectResult url subject # results)))"

text \<open>\<open>executeComplexUpdate(operation, condition)\<close>.\<close>

definition executeComplexUpdate ::
  "world \<Rightarrow> js_host \<Rightarrow> PodOperation \<Rightarrow> QueryCondition \<Rightarrow> row list io" where
  "executeComplexUpdate W H operation condition =
     (\<lambda>s. (let t = op_table operation;
                setData = (case op_data operation of Some d \<Rightarrow> d | None \<Rightarrow> []);
                columnsToUpdate = filter (\<lambda>key. getColumn t key \<noteq> None) (map fst setData)
            in if length columnsToUpdate = 0 then returnIO []
               else (let urls = resolveTableUrls (fst s) t
                     in bindIO (ensureContainerExists W (containerUrl urls))
                          (\<lambda>u1. bindIO (ensureResourceExists W (resourceUrl urls) False)
                            (\<lambda>u2. bindIO (findSubjectsForCondition W H condition t (resourceUrl urls))
                              (\<lambda>subjects.
                                 if length subjects = 0 then returnIO []
                                 else updateSubjects W (resourceUrl urls) columnsToUpdate setData
                                        subjects))))) s)"

fun deleteSubjects :: "world \<Rightarrow> string \<Rightarrow> string list \<Rightarrow> row list io" where
  "deleteSubjects W url [] = returnIO []"
| "deleteSubjects W url (subject # subjects) =
     bindIO (executeOnResource W url \<lparr> q_kind = DELETE, q_statement = DeleteSubject subject \<rparr>)
       (\<lambda>res. bindIO (deleteSubjects W url subjects)
                (\<lambda>results. returnIO (subjectResult url subject # results)))"

text \<open>\<open>executeComplexDelete(operation, condition)\<close>.\<close>

definition executeComplexDelete ::
  "world \<Rightarrow> js_host \<Rightarrow> PodOperation \<Rightarrow> QueryCondition \<Rightarrow> row list io" where
  "executeComplexDelete W H operation condition =
     (\<lambda>s. (let t = op_table operation;
                urls = resolveTableUrls (fst s) t
            in bindIO (ensureContainerExists W (containerUrl urls))
                 (\<lambda>u1. bindIO (ensureResourceExists W (resourceUrl urls) False)
                   (\<lambda>u2. bindIO (findSubjectsForCondition W H condition t (resourceUrl urls))
                     (\<lambda>subjects.
                        if length subjects = 0 then returnIO []
                        else deleteSubjects W (resourceUrl urls) subjects)))) s)"

section \<open>Pod dialect: query\<close>

text \<open>The answer of a delete whose resource is missing.\<close>

definition missingResourceResult :: "string \<Rightarrow> row list" where
  "missingResourceResult url =
     [[(''success'', JBool True), (''source'', JStr url), (''status'', JNumber (Num 404))]]"

text \<open>\<open>!operation.where || Object.keys(operation.where).length === 0\<close>.\<close>

definition whereMissing :: "where_payload option \<Rightarrow> bool" where
  "whereMissing w = (\<not> hasKeys w)"

text \<open>
  \<open>query(operation)\<close>. \<open>now\<close> is the value of \<open>Date.now()\<close>. The translation of a select
  (\<open>convertSelect\<close>) is not modelled beyond the operation it is given.
\<close>

definition query :: "world \<Rightarrow> js_host \<Rightarrow> jsnum \<Rightarrow> PodOperation \<Rightarrow> row list io" where
  "query W H now operation =
     bindIO (connect W)
       (\<lambda>u0 s.
          (let t = op_table operation;
               urls = resolveTableUrls (fst s) t;
               cv = converter (fst s)
           in (case op_kind operation of
                 select_op \<Rightarrow>
                   executeOnResource W (resourceUrl urls)
                     \<lparr> q_kind = SELECT, q_statement = SelectRows operation \<rparr>
               | insert_op \<Rightarrow>
                   (let records = insertRecords (op_values operation)
                    in if length records = 0 then throwIO InsertRequiresValue
                       else bindIO (ensureContainerExists W (containerUrl urls))
                              (\<lambda>u1. bindIO (ensureResourceExists W (resourceUrl urls) True)
                                (\<lambda>u2. bindIO (checkResourceExistence W H now records t (resourceUrl urls))
                                  (\<lambda>canInsert.
                                     if \<not> canInsert then throwIO ResourceAlreadyExists
                                     else (case convertInsert H cv now records t of
                                             Inl e \<Rightarrow> throwIO e
                                           | Inr q \<Rightarrow> executeOnResource W (resourceUrl urls) q)))))
               | update_op \<Rightarrow>
                   (if op_data operation = None then throwIO UpdateRequiresData
                    else if whereMissing (op_where operation) then throwIO UpdateRequiresWhere
                    else bindIO (ensureContainerExists W (containerUrl urls))
                           (\<lambda>u1. bindIO (ensureResourceExists W (resourceUrl urls) False)
                             (\<lambda>u2. case op_where operation of
                                      Some (WhereTree c) \<Rightarrow> executeComplexUpdate W H operation c
                                    | Some (WhereObject r) \<Rightarrow>
                                        executeOnResource W (resourceUrl urls)
                                          (convertUpdate H cv now (the (op_data operation)) (WhereObject r) t)
                                    | None \<Rightarrow> throwIO UpdateRequiresWhere)))
               | delete_op \<Rightarrow>
                   bindIO (ensureContainerExists W (containerUrl urls))
                     (\<lambda>u1. bindIO (resourceExists W (resourceUrl urls))
                       (\<lambda>hasResource.
                          if \<not> hasResource then returnIO (missingResourceResult (resourceUrl urls))
                          else executeOnResource W (resourceUrl urls)
                                 (convertDelete H cv now (op_where operation) t))))) s)"

section \<open>Insert, update and delete builders (pod-session.ts)\<close>

text \<open>
  The where argument of a builder: a condition tree or a key/value map (a Drizzle SQL
  object, the third form the builders accept, is outside the model).
\<close>

text \<open>
  \<open>convertQueryConditionToSimple\<close> of the update and of the delete builder (the two are the
  same): any comparison with a column and a value becomes the map of the column to the
  value, whatever its operator.
\<close>

definition convertQueryConditionToSimple :: "QueryCondition \<Rightarrow> row" where
  "convertQueryConditionToSimple condition =
     (if qc_type condition = binary_expr \<and> truthyStr (qc_column condition)
         \<and> qc_val condition \<noteq> None \<and> qc_val condition \<noteq> Some JUndefined
      then [(the (qc_column condition), the (qc_val condition))]
      else [])"

record UpdateQueryBuilder =
  u_table :: PodTable
  updateData :: "row option"
  u_whereConditions :: "row option"
  u_conditionTree :: "QueryCondition option"

definition newUpdate :: "PodTable \<Rightarrow> UpdateQueryBuilder" where
  "newUpdate t = \<lparr> u_table = t, updateData = None, u_whereConditions = None, u_conditionTree = None \<rparr>"

definition update_set :: "row \<Rightarrow> UpdateQueryBuilder \<Rightarrow> UpdateQueryBuilder" where
  "update_set d b = b\<lparr> updateData := Some d \<rparr>"

text \<open>\<open>where(conditions)\<close> of the update builder.\<close>

fun update_where :: "where_payload \<Rightarrow> UpdateQueryBuilder \<Rightarrow> UpdateQueryBuilder" where
  "update_where (WhereTree c) b =
     (let simple = convertQueryConditionToSimple c
      in b\<lparr> u_conditionTree := Some c,
            u_whereConditions := (if length simple > 0 then Some simple else None) \<rparr>)"
| "update_where (WhereObject r) b = b\<lparr> u_whereConditions := Some r, u_conditionTree := None \<rparr>"

text \<open>\<open>where: this.whereConditions ?? this.conditionTree\<close>.\<close>

definition wherePayload :: "row option \<Rightarrow> QueryCondition option \<Rightarrow> where_payload option" where
  "wherePayload simple tree =
     (case simple of
        Some r \<Rightarrow> Some (WhereObject r)
      | None \<Rightarrow> map_option WhereTree tree)"

text \<open>
  \<open>this.conditionTree && (!this.whereConditions || Object.keys(this.whereConditions).length === 0)\<close>.
\<close>

definition takesComplexPath :: "row option \<Rightarrow> QueryCondition option \<Rightarrow> bool" where
  "takesComplexPath simple tree =
     (tree \<noteq> None \<and> (case simple of None \<Rightarrow> True | Some r \<Rightarrow> length r = 0))"

text \<open>
  \<open>UpdateQueryBuilder.execute()\<close>, through \<open>PodAsyncSession.executeComplexUpdate\<close> or
  \<open>PodAsyncSession.execute\<close> (whose checks of the operation cannot fail on a typed one).
\<close>

definition update_execute :: "world \<Rightarrow> js_host \<Rightarrow> jsnum \<Rightarrow> UpdateQueryBuilder \<Rightarrow> row list io" where
  "update_execute W H now b =
     (case updateData b of
        None \<Rightarrow> throwIO NoUpdateData
      | Some d \<Rightarrow>
          (let operation = \<lparr> op_kind = update_op, op_table = u_table b, op_data = Some d,
                              op_where = wherePayload (u_whereConditions b) (u_conditionTree b),
                              op_select = None, op_values = None, op_limit = None, op_offset = None,
                              op_orderBy = None, op_distinct = None \<rparr>
           in if takesComplexPath (u_whereConditions b) (u_conditionTree b)
              then executeComplexUpdate W H
                     (operation\<lparr> op_where := map_option WhereTree (u_conditionTree b) \<rparr>)
                     (the (u_conditionTree b))
              else query W H now operation))"

record DeleteQueryBuilder =
  d_table :: PodTable
  d_whereConditions :: "row option"
  d_conditionTree :: "QueryCondition option"

definition newDelete :: "PodTable \<Rightarrow> DeleteQueryBuilder" where
  "newDelete t = \<lparr> d_table = t, d_whereConditions = None, d_conditionTree = None \<rparr>"

text \<open>\<open>where(conditions)\<close> of the delete builder.\<close>

fun delete_where :: "where_payload \<Rightarrow> DeleteQueryBuilder \<Rightarrow> DeleteQueryBuilder" where
  "delete_where (WhereTree c) b =
     (let simple = convertQueryConditionToSimple c
      in b\<lparr> d_conditionTree := Some c,
            d_whereConditions := (if length simple > 0 then Some simple else None) \<rparr>)"
| "delete_where (WhereObject r) b = b\<lparr> d_whereConditions := Some r, d_conditionTree := None \<rparr>"

text \<open>\<open>DeleteQueryBuilder.execute()\<close>.\<close>

definition delete_execute :: "world \<Rightarrow> js_host \<Rightarrow> jsnum \<Rightarrow> DeleteQueryBuilder \<Rightarrow> row list io" where
  "delete_execute W H now b =
     (let operation = \<lparr> op_kind = delete_op, op_table = d_table b, op_data = None,
                         op_where = wherePayload (d_whereConditions b) (d_conditionTree b),
                         op_select = None, op_values = None, op_limit = None, op_offset = None,
                         op_orderBy = None, op_distinct = None \<rparr>
      in if takesComplexPath (d_whereConditions b) (d_conditionTree b)
         then executeComplexDelete W H
                (operation\<lparr> op_where := map_option WhereTree (d_conditionTree b) \<rparr>)
                (the (d_conditionTree b))
         else query W H now operation)"

record InsertQueryBuilder =
  i_table :: PodTable
  insertValues :: "insert_values option"

definition newInsert :: "PodTable \<Rightarrow> InsertQueryBuilder" where
  "newInsert t = \<lparr> i_table = t, insertValues = None \<rparr>"

definition insert_values :: "insert_values \<Rightarrow> InsertQueryBuilder \<Rightarrow> InsertQueryBuilder" where
  "insert_values vs b = b\<lparr> insertValues := Some vs \<rparr>"

text \<open>
  \<open>InsertQueryBuilder.execute()\<close>; \<open>this.insertValues\<close> is truthy when it is set (an empty
  array is truthy).
\<close>

definition insert_execute :: "world \<Rightarrow> js_host \<Rightarrow> jsnum \<Rightarrow> InsertQueryBuilder \<Rightarrow> row list io" where
  "insert_execute W H now b =
     (case insertValues b of
        None \<Rightarrow> throwIO NoInsertValues
      | Some vs \<Rightarrow>
          query W H now
            \<lparr> op_kind = insert_op, op_table = i_table b, op_data = None, op_where = None,
              op_select = None, op_values = Some vs, op_limit = None, op_offset = None,
              op_orderBy = None, op_distinct = None \<rparr>)"

section \<open>Example data\<close>

definition plainOptions :: PodColumnOptions where
  "plainOptions = \<lparr> primaryKey = False, required = False, opt_predicate = None, referenceTarget = None \<rparr>"

definition stringColumn :: "string \<Rightarrow> PodColumnBase" where
  "stringColumn n = \<lparr> col_name = n, dataType = ''string'', options = plainOptions \<rparr>"

definition integerColumn :: "string \<Rightarrow> PodColumnBase" where
  "integerColumn n = \<lparr> col_name = n, dataType = ''integer'', options = plainOptions \<rparr>"

definition tableOf :: "nat \<Rightarrow> string \<Rightarrow> string \<Rightarrow> string \<Rightarrow> (string \<times> PodColumnBase) list \<Rightarrow> PodTable" where
  "tableOf i n path cls cols =
     \<lparr> tbl_id = i,
       config = \<lparr> tbl_name = n, containerPath = path, rdfClass = cls, namespace = None \<rparr>,
       columns = cols \<rparr>"

text \<open>The tables of the scenarios of the specification (S1 to S6).\<close>

definition profiles :: PodTable where
  "profiles =
     tableOf 0 ''profiles'' ''/drizzle-tests/'' ''https://schema.org/Person''
       [(''id'', stringColumn ''id''), (''name'', stringColumn ''name''),
        (''age'', integerColumn ''age'')]"

definition users :: PodTable where
  "users =
     tableOf 1 ''users'' ''/drizzle-tests/users/'' ''https://schema.org/Person''
       [(''id'', stringColumn ''id''), (''name'', stringColumn ''name'')]"

definition posts :: PodTable where
  "posts =
     tableOf 2 ''posts'' ''/drizzle-tests/posts/'' ''https://schema.org/CreativeWork''
       [(''id'', stringColumn ''id''), (''title'', stringColumn ''title''),
        (''authorId'', stringColumn ''authorId'')]"

definition alice_converter :: Converter where
  "alice_converter =
     \<lparr> podUrl = ''http://localhost:3000'', webId_pathname = Some ''/alice/profile/card'' \<rparr>"

definition alice_dialect :: PodDialect where
  "alice_dialect = \<lparr> converter = alice_converter, connected = False \<rparr>"

text \<open>A world in which every container and resource exists and every statement matches nothing.\<close>

definition world_all_present :: world where
  "world_all_present =
     \<lparr> fetch = (\<lambda>tr m url. Response \<lparr> status = 200, body = [] \<rparr>),
       queryContainer = (\<lambda>tr url q. Inr []) \<rparr>"

text \<open>A world in which the containers exist and no resource (\<open>.ttl\<close>) does.\<close>

definition world_resource_missing :: world where
  "world_resource_missing =
     \<lparr> fetch = (\<lambda>tr m url. if endsWith url ''.ttl'' then Response \<lparr> status = 404, body = [] \<rparr>
                            else Response \<lparr> status = 200, body = [] \<rparr>),
       queryContainer = (\<lambda>tr url q. Inr []) \<rparr>"

text \<open>
  An engine holding one post and two users: a select on \<open>posts\<close> answers the post, a select
  on \<open>users\<close> the two users, whatever else the operation asks for.
\<close>

definition blog_engine :: engine where
  "blog_engine sent operation =
     (if tbl_name (config (op_table operation)) = ''posts''
      then Inr [[(''subject'', JStr ''http://localhost:3000/alice/drizzle-tests/posts#post-1''),
                 (''title'', JStr ''Solid Intro''), (''authorId'', JStr ''user-1'')]]
      else Inr [[(''subject'', JStr ''http://localhost:3000/alice/drizzle-tests/users#user-1''),
                 (''name'', JStr ''user-1'')],
                [(''subject'', JStr ''http://localhost:3000/alice/drizzle-tests/users#user-2''),
                 (''name'', JStr ''user-1'')]])"

definition posts_builder :: SelectQueryBuilder where
  "posts_builder = from_table posts (newSelect None)"

definition posts_users_builder :: SelectQueryBuilder where
  "posts_users_builder = snd (ensureAliasForTable users posts_builder)"

definition authorId_ref :: ColumnReference where
  "authorId_ref = \<lparr> ref_table = posts, ref_alias = ''posts'', ref_column = ''authorId'' \<rparr>"

definition title_ref :: ColumnReference where
  "title_ref = \<lparr> ref_table = posts, ref_alias = ''posts'', ref_column = ''title'' \<rparr>"

definition user_id_ref :: ColumnReference where
  "user_id_ref = \<lparr> ref_table = users, ref_alias = ''users'', ref_column = ''id'' \<rparr>"

definition user_name_ref :: ColumnReference where
  "user_name_ref = \<lparr> ref_table = users, ref_alias = ''users'', ref_column = ''name'' \<rparr>"

definition profiles_builder :: SelectQueryBuilder where
  "profiles_builder = from_table profiles (newSelect None)"

definition age_ref :: ColumnReference where
  "age_ref = \<lparr> ref_table = profiles, ref_alias = ''profiles'', ref_column = ''age'' \<rparr>"

definition aggregateOf :: "AggregateFunction \<Rightarrow> string option \<Rightarrow> AggregateExpression" where
  "aggregateOf f c = \<lparr> func = f, agg_column = map_option FieldString c, agg_distinct = False \<rparr>"

text \<open>The four rows of scenario S4: ages 21, 29, 42 and one row whose age is null.\<close>

definition aggregate_rows :: "row list" where
  "aggregate_rows =
     [[(''name'', JStr ''Aggregate Alpha''), (''age'', JNumber (Num 21))],
      [(''name'', JStr ''Aggregate Beta''), (''age'', JNumber (Num 29))],
      [(''name'', JStr ''Aggregate Gamma''), (''age'', JNumber (Num 42))],
      [(''name'', JStr ''Aggregate Missing''), (''age'', JNull)]]"

text \<open>Two rows with the same content.\<close>

definition twin_rows :: "row list" where
  "twin_rows = [[(''age'', JNumber (Num 21))], [(''age'', JNumber (Num 21))]]"

definition profiles_url :: string where
  "profiles_url = ''http://localhost:3000/alice/drizzle-tests/profiles.ttl''"

definition profiles_container :: string where
  "profiles_container = ''http://localhost:3000/alice/drizzle-tests/''"

text \<open>
  A builder with its joins and its four modifiers (limit, offset, order, distinct)
  replaced; the rest of the builder is kept.
\<close>

definition reshape ::
  "JoinEntry list \<Rightarrow> nat option \<Rightarrow> nat option \<Rightarrow> (string \<times> direction) list \<Rightarrow> bool \<Rightarrow>
     SelectQueryBuilder \<Rightarrow> SelectQueryBuilder" where
  "reshape js l off ob d b =
     b\<lparr> joins := js, limitCount := l, offsetCount := off, orderByClauses := ob, isDistinct := d \<rparr>"

text \<open>The result of a step that may throw and returns the builder, with the builder mapped.\<close>

definition onBuilder ::
  "(SelectQueryBuilder \<Rightarrow> SelectQueryBuilder) \<Rightarrow> error + ('a \<times> SelectQueryBuilder) \<Rightarrow>
     error + ('a \<times> SelectQueryBuilder)" where
  "onBuilder M x = (case x of Inl e \<Rightarrow> Inl e | Inr (r, b) \<Rightarrow> Inr (r, M b))"

text \<open>A join entry with its first resolved condition only.\<close>

definition firstConditionOnly :: "JoinEntry \<Rightarrow> JoinEntry" where
  "firstConditionOnly j = j\<lparr> resolvedConditions := map_option (take 1) (resolvedConditions j) \<rparr>"

text \<open>\<open>limit(count)\<close> for a count that is a non-negative integer (any other count throws).\<close>

definition limit :: "nat \<Rightarrow> SelectQueryBuilder \<Rightarrow> SelectQueryBuilder" where
  "limit n b = b\<lparr> limitCount := Some n \<rparr>"

text \<open>
  \<open>select().from(posts).innerJoin(users, { 'posts.authorId': 'users.name' }).limit(1)\<close>, and
  \<open>select().from(posts).innerJoin(users, { 'posts.authorId': 'users.id', 'posts.title': 'users.name' })\<close>.
\<close>

definition limited_join_builder :: SelectQueryBuilder where
  "limited_join_builder =
     limit 1 (projr (addJoin innerJoin users
                (ConditionObject [(''posts.authorId'', FieldString ''users.name'')]) posts_builder))"

definition two_condition_builder :: SelectQueryBuilder where
  "two_condition_builder =
     projr (addJoin innerJoin users
              (ConditionObject [(''posts.authorId'', FieldString ''users.id''),
                                (''posts.title'', FieldString ''users.name'')]) posts_builder)"

section \<open>Subject URIs and row identifiers\<close>

lemma matchLastSegment_after_hash:
  assumes "i \<noteq> []" and "CHR ''/'' \<notin> set i" and "CHR ''#'' \<notin> set i"
  shows "matchLastSegment (base @ ''#'' @ i) = Some i"
proof -
  have all: "\<forall>c \<in> set (rev i). c \<noteq> CHR ''/'' \<and> c \<noteq> CHR ''#''"
    using assms(2,3) by auto
  have "takeWhile (\<lambda>c. c \<noteq> CHR ''/'' \<and> c \<noteq> CHR ''#'') (rev i @ CHR ''#'' # rev base) = rev i"
    using all by (simp add: takeWhile_tail)
  then show ?thesis
    using assms(1) by (simp add: matchLastSegment_def)
qed

lemma generateSubjectUri_with_id:
  assumes "map_of r ''id'' = Some (JStr i)" and "i \<noteq> []"
  shows "generateSubjectUri H cv now r t =
           podUrl cv
           @ (let cp = (if containerPath (config t) \<noteq> [] then containerPath (config t) else ''/data/'');
                  clean = stripTrailingSlash cp
              in if startsWith clean (extractUserPathFromWebId cv) then clean
                 else extractUserPathFromWebId cv @ stripLeadingSlash clean)
           @ ''#'' @ i"
  using assms by (simp add: generateSubjectUri_def Let_def)

text \<open>
  C10. For every table and every record whose \<open>id\<close> is a non-empty string containing
  neither \<open>/\<close> nor \<open>#\<close>, the generated subject URI ends with \<open>#\<close> followed by the id, and
  extracting the id from that subject URI gives back exactly the id of the record.
\<close>

theorem C10_subject_id_roundtrip:
  assumes "map_of r ''id'' = Some (JStr i)" and "i \<noteq> []"
    and "CHR ''/'' \<notin> set i" and "CHR ''#'' \<notin> set i"
  shows "(\<exists>base. generateSubjectUri H cv now r t = base @ ''#'' @ i) \<and>
         extractIdFromSubject (Some (generateSubjectUri H cv now r t)) = Some i"
proof -
  obtain base where b: "generateSubjectUri H cv now r t = base @ ''#'' @ i"
    using generateSubjectUri_with_id[OF assms(1,2)] by (metis append.assoc)
  have "extractIdFromSubject (Some (base @ ''#'' @ i)) = Some i"
    using matchLastSegment_after_hash[OF assms(2-4), of base] by simp
  with b show ?thesis by auto
qed

theorem C10_subject_id_roundtrip_witness:
  "(\<exists>base. generateSubjectUri plain_host alice_converter (Num 1700)
             [(''id'', JStr ''p1''), (''name'', JStr ''Alice'')] profiles = base @ ''#'' @ ''p1'') \<and>
   extractIdFromSubject
     (Some (generateSubjectUri plain_host alice_converter (Num 1700)
              [(''id'', JStr ''p1''), (''name'', JStr ''Alice'')] profiles)) = Some ''p1''"
  by (rule C10_subject_id_roundtrip) simp_all

section \<open>LIKE patterns\<close>

lemma like_translations_agree: "regex (convertLikePattern p) = likeRegexSource p"
  by (simp add: convertLikePattern_def likeRegexSource_def)

lemma star_and_question_mark_not_escaped:
  "\<not> likeEscaped (CHR ''*'')" "\<not> likeEscaped (CHR ''?'')"
  by (simp_all add: likeEscaped_def backslash_def)

text \<open>
  C9. The claim says that the regex metacharacters of a LIKE pattern are escaped. On the
  pattern \<open>a*\<close> both the SPARQL translation and the in-memory fallback produce the
  regular expression \<open>^a*$\<close>, in which the quantifier \<open>*\<close> is not escaped (and on \<open>a?b\<close>
  they produce \<open>^a?b$\<close>); a dot, by contrast, is escaped.
\<close>

theorem C9_like_star_unescaped:
  "convertLikePattern ''a*'' = \<lparr> regex = ''^a*$'', flags = Some ''i'' \<rparr> \<and>
   likeRegexSource ''a*'' = ''^a*$'' \<and>
   likeRegexSource ''a?b'' = ''^a?b$'' \<and>
   likeRegexSource ''a.b'' = [CHR ''^'', CHR ''a'', backslash, CHR ''.'', CHR ''b'', CHR ''$'']"
  by (simp add: convertLikePattern_def likeRegexSource_def escapeLike_def likeEscaped_def
        replaceAllChar_def backslash_def)

section \<open>Predicate of a column\<close>

lemma getPredicateForColumn_of_column:
  "getPredicateForColumn (Column c) t =
     (if truthyStr (opt_predicate (options c)) then the (opt_predicate (options c))
      else case namespace (config t) of
             Some ns \<Rightarrow> ns_uri ns @ col_name c
           | None \<Rightarrow> ''https://schema.org/'' @ col_name c)"
  by (simp add: getPredicate_def schema_uri_def split: option.splits)

text \<open>
  C4. The claim says that a column without an explicit predicate, in a table without a
  namespace, takes its predicate from the built-in default table (\<open>name\<close> gives
  \<open>foaf:name\<close>) and otherwise \<open>http://example.org/<name>\<close>. For the columns of a table the
  translator answers \<open>https://schema.org/<name>\<close> in both cases.
\<close>

theorem C4_default_predicate_is_schema_org:
  "getPredicateForColumn (Column (stringColumn ''name'')) users = ''https://schema.org/name'' \<and>
   getPredicateForColumn (Column (stringColumn ''nickname'')) users = ''https://schema.org/nickname'' \<and>
   map_of defaultPredicates ''name'' = Some ''http://xmlns.com/foaf/0.1/name''"
  by code_simp

section \<open>Join registration\<close>

lemma ensureAliasForTable_snd:
  "joins (snd (ensureAliasForTable t b)) = joins b"
  "joinFilters (snd (ensureAliasForTable t b)) = joinFilters b"
  "primaryAlias (snd (ensureAliasForTable t b)) = primaryAlias b"
  by (simp_all add: ensureAliasForTable_def Let_def)

lemma ensureAliasForTable_frame:
  assumes "ensureAliasForTable t b = (a, b')"
  shows "joins b' = joins b \<and> joinFilters b' = joinFilters b \<and> primaryAlias b' = primaryAlias b"
proof -
  from assms have "b' = snd (ensureAliasForTable t b)" by simp
  then show ?thesis by (simp only: ensureAliasForTable_snd)
qed

lemma resolveColumnReference_frame:
  assumes "resolveColumnReference f fb b = Inr (r, b')"
  shows "joins b' = joins b \<and> joinFilters b' = joinFilters b \<and> primaryAlias b' = primaryAlias b"
proof (cases f)
  case (FieldString s)
  with assms have "b' = b"
    by (auto simp: Let_def split: prod.splits if_splits option.splits)
  then show ?thesis by simp
next
  case (FieldColumn c t)
  show ?thesis
  proof (cases t)
    case None
    with FieldColumn assms show ?thesis by simp
  next
    case (Some tb)
    with FieldColumn assms have "b' = snd (ensureAliasForTable tb b)"
      by (auto split: prod.splits)
    then show ?thesis by (simp only: ensureAliasForTable_snd)
  qed
next
  case (FieldNamed n)
  with assms show ?thesis by simp
next
  case FieldOther
  with assms show ?thesis by simp
qed

lemma resolveJoinEntry_accepts:
  assumes "resolveJoinEntry a e b = Inr (r, b')"
  shows "(ref_alias (left r) = a \<or> ref_alias (right r) = a) \<and>
     joins b' = joins b \<and> joinFilters b' = joinFilters b"
proof -
  from assms obtain l b1 where
    l: "resolveColumnReference (FieldString (fst e)) None b = Inr (l, b1)"
    unfolding resolveJoinEntry_def by (auto split: sum.splits simp del: resolveColumnReference.simps)
  from assms l obtain rr where
    rr: "resolveColumnReference (snd e) None b1 = Inr (rr, b')"
    and accepted: "\<not> (ref_alias l \<noteq> a \<and> ref_alias rr \<noteq> a)" and r: "r = \<lparr> left = l, right = rr \<rparr>"
    unfolding resolveJoinEntry_def
    by (auto split: sum.splits if_splits simp del: resolveColumnReference.simps)
  from resolveColumnReference_frame[OF l] resolveColumnReference_frame[OF rr] accepted r
  show ?thesis by auto
qed

lemma resolveJoinEntries_accepts:
  "resolveJoinEntries a es b = Inr (rs, b') \<Longrightarrow>
     length rs = length es \<and>
     list_all (\<lambda>r. ref_alias (left r) = a \<or> ref_alias (right r) = a) rs \<and>
     joins b' = joins b \<and> joinFilters b' = joinFilters b"
proof (induction es arbitrary: b rs b')
  case Nil then show ?case by simp
next
  case (Cons e es)
  from Cons.prems obtain r b1 rs' where
    e: "resolveJoinEntry a e b = Inr (r, b1)" and
    es: "resolveJoinEntries a es b1 = Inr (rs', b')" and rs: "rs = r # rs'"
    by (auto split: sum.splits prod.splits)
  from resolveJoinEntry_accepts[OF e] Cons.IH[OF es] rs show ?case by simp
qed

lemma resolveJoinEntries_rejects:
  "resolveJoinEntries a pre b0 = Inr (rs, b1) \<Longrightarrow> resolveJoinEntry a e b1 = Inl err \<Longrightarrow>
     resolveJoinEntries a (pre @ e # post) b0 = Inl err"
proof (induction pre arbitrary: b0 rs)
  case Nil then show ?case by simp
next
  case (Cons p pre)
  from Cons.prems(1) obtain r b' rs' where
    p: "resolveJoinEntry a p b0 = Inr (r, b')" and
    pre: "resolveJoinEntries a pre b' = Inr (rs', b1)"
    by (auto split: sum.splits prod.splits)
  from Cons.IH[OF pre Cons.prems(2)] p show ?case by simp
qed

lemma addJoin_accepts:
  assumes "addJoin ty t c b = Inr b'"
  shows "\<exists>j rs. joins b' = joins b @ [j] \<and> join_type j = ty \<and> resolvedConditions j = Some rs \<and>
     rs \<noteq> [] \<and>
     list_all (\<lambda>r. ref_alias (left r) = join_alias j \<or> ref_alias (right r) = join_alias j) rs \<and>
     joinFilters b' = joinFilters b"
proof -
  obtain a b1 where a: "ensureAliasForTable t b = (a, b1)" by (cases "ensureAliasForTable t b")
  from assms a obtain es rs b2 where c: "c = ConditionObject es" and ne: "es \<noteq> []"
    and r: "resolveJoinEntries a es b1 = Inr (rs, b2)"
    and b': "b' = b2\<lparr> joins := joins b2 @ [\<lparr> join_type = ty, join_table = t, join_alias = a,
                               rawCondition = c, resolvedConditions = Some rs \<rparr>] \<rparr>"
    by (cases c) (auto simp: addJoin_def split: if_splits sum.splits)
  from resolveJoinEntries_accepts[OF r] ensureAliasForTable_frame[OF a] ne b'
  show ?thesis by auto
qed

lemma addJoin_empty:
  "ty = innerJoin \<or> ty = leftJoin \<Longrightarrow> addJoin ty t (ConditionObject []) b = Inl JoinConditionEmpty"
  by (auto simp: addJoin_def split: prod.splits)

lemma neither_side_rejected:
  assumes "resolveJoinEntries a pre b0 = Inr (rs, b1)"
    and "resolveColumnReference (FieldString k) None b1 = Inr (l, b2)"
    and "resolveColumnReference f None b2 = Inr (r, b3)"
    and "ref_alias l \<noteq> a" and "ref_alias r \<noteq> a"
  shows "resolveJoinConditions (ConditionObject (pre @ (k, f) # post)) a b0 =
           Inl JoinConditionMissingJoinedTable"
proof -
  have "resolveJoinEntry a (k, f) b1 = Inl JoinConditionMissingJoinedTable"
    using assms(2-5) by (simp add: resolveJoinEntry_def del: resolveColumnReference.simps)
  from resolveJoinEntries_rejects[OF assms(1) this] show ?thesis by simp
qed

lemma resolveJoinEntry_one_side:
  assumes "resolveColumnReference (FieldString k) None b = Inr (l, b1)"
    and "resolveColumnReference f None b1 = Inr (r, b2)"
    and "ref_alias l = a \<or> ref_alias r = a"
  shows "resolveJoinEntry a (k, f) b = Inr (\<lparr> left = l, right = r \<rparr>, b2)"
  using assms by (auto simp: resolveJoinEntry_def simp del: resolveColumnReference.simps)

lemma resolveJoinEntries_all_accepted:
  assumes "\<forall>e\<in>set es. \<exists>l r.
             resolveColumnReference (FieldString (fst e)) None b = Inr (l, b) \<and>
             resolveColumnReference (snd e) None b = Inr (r, b) \<and>
             (ref_alias l = a \<or> ref_alias r = a)"
  shows "\<exists>rs. resolveJoinEntries a es b = Inr (rs, b) \<and> length rs = length es"
  using assms
proof (induction es)
  case Nil
  show ?case by simp
next
  case (Cons e es)
  from Cons.prems obtain l r where
    l: "resolveColumnReference (FieldString (fst e)) None b = Inr (l, b)" and
    r: "resolveColumnReference (snd e) None b = Inr (r, b)" and
    side: "ref_alias l = a \<or> ref_alias r = a"
    by auto
  have e: "resolveJoinEntry a e b = Inr (\<lparr> left = l, right = r \<rparr>, b)"
    using resolveJoinEntry_one_side[OF l r side] by simp
  from Cons.IH Cons.prems obtain rs where
    rs: "resolveJoinEntries a es b = Inr (rs, b)" and len: "length rs = length es"
    by auto
  from e rs len show ?case by simp
qed

lemma addJoin_all_accepted:
  assumes "ty = innerJoin \<or> ty = leftJoin"
    and "ensureAliasForTable t b = (a, b1)"
    and "es \<noteq> []"
    and "\<forall>e\<in>set es. \<exists>l r.
           resolveColumnReference (FieldString (fst e)) None b1 = Inr (l, b1) \<and>
           resolveColumnReference (snd e) None b1 = Inr (r, b1) \<and>
           (ref_alias l = a \<or> ref_alias r = a)"
  shows "\<exists>rs. addJoin ty t (ConditionObject es) b =
           Inr (b1\<lparr> joins := joins b1 @
                  [\<lparr> join_type = ty, join_table = t, join_alias = a,
                     rawCondition = ConditionObject es, resolvedConditions = Some rs \<rparr>] \<rparr>) \<and>
           length rs = length es"
proof -
  from resolveJoinEntries_all_accepted[OF assms(4)] obtain rs where
    rs: "resolveJoinEntries a es b1 = Inr (rs, b1)" and len: "length rs = length es"
    by auto
  from assms(1-3) rs len show ?thesis
    by (auto simp: addJoin_def)
qed

text \<open>
  C7, as amended. Registering an \<open>innerJoin\<close> or a \<open>leftJoin\<close> with an empty condition
  object raises an error. A registration that succeeds adds one join whose resolved
  conditions are not empty and reference the alias of the joined table on at least one
  side each; a condition object with an entry whose two sides both resolve to other
  aliases (the entries before it being accepted) is rejected. In the other direction, an
  entry whose two sides resolve is accepted with its two references as soon as one side
  (the left, the right, or both) has the alias of the joined table, and a registration
  all of whose entries are such succeeds (here for entries that resolve without giving a
  table a new alias: strings, and column objects of tables that have their alias).
\<close>

theorem C7_join_condition_registration:
  "(ty = innerJoin \<or> ty = leftJoin \<longrightarrow>
      addJoin ty t (ConditionObject []) b = Inl JoinConditionEmpty) \<and>
   (addJoin ty t c b = Inr b' \<longrightarrow>
      (\<exists>j rs. joins b' = joins b @ [j] \<and> join_type j = ty \<and> resolvedConditions j = Some rs \<and>
         rs \<noteq> [] \<and>
         list_all (\<lambda>r. ref_alias (left r) = join_alias j \<or> ref_alias (right r) = join_alias j) rs)) \<and>
   (resolveJoinEntries a pre b0 = Inr (rs0, b1) \<and>
    resolveColumnReference (FieldString k) None b1 = Inr (l, b2) \<and>
    resolveColumnReference f None b2 = Inr (r, b3) \<and>
    ref_alias l \<noteq> a \<and> ref_alias r \<noteq> a \<longrightarrow>
      resolveJoinConditions (ConditionObject (pre @ (k, f) # post)) a b0 =
        Inl JoinConditionMissingJoinedTable) \<and>
   (resolveColumnReference (FieldString k') None c1 = Inr (l', c2) \<and>
    resolveColumnReference f' None c2 = Inr (r', c3) \<and>
    (ref_alias l' = a' \<or> ref_alias r' = a') \<longrightarrow>
      resolveJoinEntry a' (k', f') c1 = Inr (\<lparr> left = l', right = r' \<rparr>, c3)) \<and>
   ((ty = innerJoin \<or> ty = leftJoin) \<and> ensureAliasForTable t b = (ja, bj) \<and> es \<noteq> [] \<and>
    (\<forall>e\<in>set es. \<exists>el er.
        resolveColumnReference (FieldString (fst e)) None bj = Inr (el, bj) \<and>
        resolveColumnReference (snd e) None bj = Inr (er, bj) \<and>
        (ref_alias el = ja \<or> ref_alias er = ja)) \<longrightarrow>
      (\<exists>rs. addJoin ty t (ConditionObject es) b =
               Inr (bj\<lparr> joins := joins bj @
                      [\<lparr> join_type = ty, join_table = t, join_alias = ja,
                         rawCondition = ConditionObject es, resolvedConditions = Some rs \<rparr>] \<rparr>) \<and>
             length rs = length es))"
proof (intro conjI impI)
  assume "ty = innerJoin \<or> ty = leftJoin"
  then show "addJoin ty t (ConditionObject []) b = Inl JoinConditionEmpty" by (rule addJoin_empty)
next
  assume "addJoin ty t c b = Inr b'"
  from addJoin_accepts[OF this]
  show "\<exists>j rs. joins b' = joins b @ [j] \<and> join_type j = ty \<and> resolvedConditions j = Some rs \<and>
         rs \<noteq> [] \<and>
         list_all (\<lambda>r. ref_alias (left r) = join_alias j \<or> ref_alias (right r) = join_alias j) rs"
    by blast
next
  assume h: "resolveJoinEntries a pre b0 = Inr (rs0, b1) \<and>
    resolveColumnReference (FieldString k) None b1 = Inr (l, b2) \<and>
    resolveColumnReference f None b2 = Inr (r, b3) \<and>
    ref_alias l \<noteq> a \<and> ref_alias r \<noteq> a"
  then show "resolveJoinConditions (ConditionObject (pre @ (k, f) # post)) a b0 =
        Inl JoinConditionMissingJoinedTable"
    using neither_side_rejected by blast
next
  assume "resolveColumnReference (FieldString k') None c1 = Inr (l', c2) \<and>
    resolveColumnReference f' None c2 = Inr (r', c3) \<and>
    (ref_alias l' = a' \<or> ref_alias r' = a')"
  then show "resolveJoinEntry a' (k', f') c1 = Inr (\<lparr> left = l', right = r' \<rparr>, c3)"
    using resolveJoinEntry_one_side by blast
next
  assume "(ty = innerJoin \<or> ty = leftJoin) \<and> ensureAliasForTable t b = (ja, bj) \<and> es \<noteq> [] \<and>
    (\<forall>e\<in>set es. \<exists>el er.
        resolveColumnReference (FieldString (fst e)) None bj = Inr (el, bj) \<and>
        resolveColumnReference (snd e) None bj = Inr (er, bj) \<and>
        (ref_alias el = ja \<or> ref_alias er = ja))"
  then show "\<exists>rs. addJoin ty t (ConditionObject es) b =
               Inr (bj\<lparr> joins := joins bj @
                      [\<lparr> join_type = ty, join_table = t, join_alias = ja,
                         rawCondition = ConditionObject es, resolvedConditions = Some rs \<rparr>] \<rparr>) \<and>
             length rs = length es"
    using addJoin_all_accepted[of ty t b ja bj es] by blast
qed

theorem C7_join_condition_registration_witness:
  "addJoin innerJoin users (ConditionObject []) posts_builder = Inl JoinConditionEmpty \<and>
   (\<exists>j rs. joins (projr (addJoin innerJoin users
                      (ConditionObject [(''posts.authorId'', FieldString ''users.id'')]) posts_builder))
              = joins posts_builder @ [j] \<and> join_type j = innerJoin \<and>
            resolvedConditions j = Some rs \<and> rs \<noteq> [] \<and>
            list_all (\<lambda>r. ref_alias (left r) = join_alias j \<or> ref_alias (right r) = join_alias j) rs) \<and>
   resolveJoinConditions
     (ConditionObject ([(''posts.authorId'', FieldString ''users.id'')] @
                       (''posts.id'', FieldString ''posts.title'') # []))
     ''users'' posts_users_builder = Inl JoinConditionMissingJoinedTable \<and>
   resolveJoinEntry ''users'' (''users.id'', FieldString ''posts.authorId'') posts_users_builder =
     Inr (\<lparr> left = user_id_ref, right = authorId_ref \<rparr>, posts_users_builder) \<and>
   (\<exists>rs. addJoin leftJoin users
            (ConditionObject [(''users.id'', FieldString ''posts.authorId''),
                              (''posts.title'', FieldColumn (stringColumn ''name'') (Some users))])
            posts_builder =
          Inr (posts_users_builder\<lparr> joins := joins posts_users_builder @
                 [\<lparr> join_type = leftJoin, join_table = users, join_alias = ''users'',
                    rawCondition =
                      ConditionObject [(''users.id'', FieldString ''posts.authorId''),
                                       (''posts.title'', FieldColumn (stringColumn ''name'') (Some users))],
                    resolvedConditions = Some rs \<rparr>] \<rparr>) \<and>
          length rs = length [(''users.id'', FieldString ''posts.authorId''),
                              (''posts.title'', FieldColumn (stringColumn ''name'') (Some users))])"
proof -
  have ok: "\<not> isl (addJoin innerJoin users
                (ConditionObject [(''posts.authorId'', FieldString ''users.id'')]) posts_builder)"
    by code_simp
  have r: "addJoin innerJoin users
             (ConditionObject [(''posts.authorId'', FieldString ''users.id'')]) posts_builder
           = Inr (projr (addJoin innerJoin users
                    (ConditionObject [(''posts.authorId'', FieldString ''users.id'')]) posts_builder))"
    using ok by simp
  have pre: "resolveJoinEntries ''users'' [(''posts.authorId'', FieldString ''users.id'')]
               posts_users_builder
             = Inr ([\<lparr> left = authorId_ref, right = user_id_ref \<rparr>], posts_users_builder)"
    by code_simp
  have l: "resolveColumnReference (FieldString ''posts.id'') None posts_users_builder
           = Inr (\<lparr> ref_table = posts, ref_alias = ''posts'', ref_column = ''id'' \<rparr>, posts_users_builder)"
    by code_simp
  have rr: "resolveColumnReference (FieldString ''posts.title'') None posts_users_builder
           = Inr (title_ref, posts_users_builder)"
    by code_simp
  have n1: "ref_alias \<lparr> ref_table = posts, ref_alias = ''posts'', ref_column = ''id'' \<rparr> \<noteq> ''users''"
    by simp
  have n2: "ref_alias title_ref \<noteq> ''users''" by (simp add: title_ref_def)
  have ui: "resolveColumnReference (FieldString ''users.id'') None posts_users_builder
           = Inr (user_id_ref, posts_users_builder)"
    by code_simp
  have pa: "resolveColumnReference (FieldString ''posts.authorId'') None posts_users_builder
           = Inr (authorId_ref, posts_users_builder)"
    by code_simp
  have un: "resolveColumnReference (FieldColumn (stringColumn ''name'') (Some users)) None
              posts_users_builder
           = Inr (user_name_ref, posts_users_builder)"
    by code_simp
  have s1: "ref_alias user_id_ref = ''users''" by (simp add: user_id_ref_def)
  have s2: "ref_alias user_name_ref = ''users''" by (simp add: user_name_ref_def)
  have al: "ensureAliasForTable users posts_builder = (''users'', posts_users_builder)"
    by code_simp
  have every: "\<forall>e\<in>set [(''users.id'', FieldString ''posts.authorId''),
                         (''posts.title'', FieldColumn (stringColumn ''name'') (Some users))].
      \<exists>el er.
        resolveColumnReference (FieldString (fst e)) None posts_users_builder =
          Inr (el, posts_users_builder) \<and>
        resolveColumnReference (snd e) None posts_users_builder = Inr (er, posts_users_builder) \<and>
        (ref_alias el = ''users'' \<or> ref_alias er = ''users'')"
    using ui pa rr un s1 s2 by (simp del: resolveColumnReference.simps)
  note first = C7_join_condition_registration[where ty = innerJoin and t = users
         and b = posts_builder
         and c = "ConditionObject [(''posts.authorId'', FieldString ''users.id'')]"
         and b' = "projr (addJoin innerJoin users
                    (ConditionObject [(''posts.authorId'', FieldString ''users.id'')]) posts_builder)"
         and a = "''users''" and pre = "[(''posts.authorId'', FieldString ''users.id'')]"
         and ?b0.0 = posts_users_builder
         and ?rs0.0 = "[\<lparr> left = authorId_ref, right = user_id_ref \<rparr>]"
         and ?b1.0 = posts_users_builder
         and k = "''posts.id''"
         and l = "\<lparr> ref_table = posts, ref_alias = ''posts'', ref_column = ''id'' \<rparr>"
         and ?b2.0 = posts_users_builder and f = "FieldString ''posts.title''"
         and r = title_ref and ?b3.0 = posts_users_builder and post = "[]"
         and k' = "''users.id''" and ?c1.0 = posts_users_builder and l' = user_id_ref
         and ?c2.0 = posts_users_builder and f' = "FieldString ''posts.authorId''"
         and r' = authorId_ref and ?c3.0 = posts_users_builder and a' = "''users''"]
  note second = C7_join_condition_registration[where ty = leftJoin and t = users
         and b = posts_builder and ja = "''users''" and bj = posts_users_builder
         and es = "[(''users.id'', FieldString ''posts.authorId''),
                    (''posts.title'', FieldColumn (stringColumn ''name'') (Some users))]"]
  have 1: "addJoin innerJoin users (ConditionObject []) posts_builder = Inl JoinConditionEmpty"
    using first by blast
  have 2: "\<exists>j rs. joins (projr (addJoin innerJoin users
                      (ConditionObject [(''posts.authorId'', FieldString ''users.id'')]) posts_builder))
              = joins posts_builder @ [j] \<and> join_type j = innerJoin \<and>
            resolvedConditions j = Some rs \<and> rs \<noteq> [] \<and>
            list_all (\<lambda>r. ref_alias (left r) = join_alias j \<or> ref_alias (right r) = join_alias j) rs"
    using first r by blast
  have 3: "resolveJoinConditions
     (ConditionObject ([(''posts.authorId'', FieldString ''users.id'')] @
                       (''posts.id'', FieldString ''posts.title'') # []))
     ''users'' posts_users_builder = Inl JoinConditionMissingJoinedTable"
    using first pre l rr n1 n2 by blast
  have 4: "resolveJoinEntry ''users'' (''users.id'', FieldString ''posts.authorId'') posts_users_builder =
     Inr (\<lparr> left = user_id_ref, right = authorId_ref \<rparr>, posts_users_builder)"
    using first ui pa s1 by blast
  have 5: "\<exists>rs. addJoin leftJoin users
            (ConditionObject [(''users.id'', FieldString ''posts.authorId''),
                              (''posts.title'', FieldColumn (stringColumn ''name'') (Some users))])
            posts_builder =
          Inr (posts_users_builder\<lparr> joins := joins posts_users_builder @
                 [\<lparr> join_type = leftJoin, join_table = users, join_alias = ''users'',
                    rawCondition =
                      ConditionObject [(''users.id'', FieldString ''posts.authorId''),
                                       (''posts.title'', FieldColumn (stringColumn ''name'') (Some users))],
                    resolvedConditions = Some rs \<rparr>] \<rparr>) \<and>
          length rs = length [(''users.id'', FieldString ''posts.authorId''),
                              (''posts.title'', FieldColumn (stringColumn ''name'') (Some users))]"
  proof -
    have h: "(leftJoin = innerJoin \<or> leftJoin = leftJoin) \<and>
      ensureAliasForTable users posts_builder = (''users'', posts_users_builder) \<and>
      [(''users.id'', FieldString ''posts.authorId''),
       (''posts.title'', FieldColumn (stringColumn ''name'') (Some users))] \<noteq> [] \<and>
      (\<forall>e\<in>set [(''users.id'', FieldString ''posts.authorId''),
                     (''posts.title'', FieldColumn (stringColumn ''name'') (Some users))].
        \<exists>el er.
          resolveColumnReference (FieldString (fst e)) None posts_users_builder =
            Inr (el, posts_users_builder) \<and>
          resolveColumnReference (snd e) None posts_users_builder = Inr (er, posts_users_builder) \<and>
          (ref_alias el = ''users'' \<or> ref_alias er = ''users''))"
      using al every by blast
    from second[THEN conjunct2, THEN conjunct2, THEN conjunct2, THEN conjunct2, THEN mp, OF h]
    show ?thesis .
  qed
  from 1 2 3 4 5 show ?thesis by blast
qed

text \<open>
  The claim as stated (the joined alias on exactly one side) fails: the entry
  \<open>{ 'users.id': 'users.name' }\<close> of a join of \<open>users\<close> references the joined alias on
  both sides and the join is registered.
\<close>

theorem C7_both_sides_accepted:
  "(case addJoin innerJoin users (ConditionObject [(''users.id'', FieldString ''users.name'')])
          posts_builder of
      Inl e \<Rightarrow> []
    | Inr b \<Rightarrow> map (\<lambda>j. (join_type j, join_alias j, resolvedConditions j)) (joins b))
   = [(innerJoin, ''users'', Some [\<lparr> left = user_id_ref, right = user_name_ref \<rparr>])]"
  by code_simp

section \<open>Fallback aggregation\<close>

lemma collectNumericLoop_plain:
  "collectNumericLoop H b c False seen rows =
     filter (\<lambda>n. n \<noteq> NaN)
       (map (js_Number H)
          (filter (\<lambda>v. v \<noteq> JUndefined \<and> v \<noteq> JNull)
             (map (\<lambda>r. getRowValueForColumn b r c) rows)))"
  by (induction rows) (simp_all add: Let_def)

lemma collectNumericLoop_distinct:
  "collectNumericLoop H b c True seen rows =
     dedupeByKey (\<lambda>n. serializeValueForKey H (JNumber n)) seen
       (filter (\<lambda>n. n \<noteq> NaN)
          (map (js_Number H)
             (filter (\<lambda>v. v \<noteq> JUndefined \<and> v \<noteq> JNull)
                (map (\<lambda>r. getRowValueForColumn b r c) rows))))"
  by (induction rows arbitrary: seen) (simp_all add: Let_def)

lemma collectNumericValues_characterised:
  "collectNumericValues H b c rows d =
     (let numeric = filter (\<lambda>n. n \<noteq> NaN)
                      (map (js_Number H)
                         (filter (\<lambda>v. v \<noteq> JUndefined \<and> v \<noteq> JNull)
                            (map (\<lambda>r. getRowValueForColumn b r c) rows)))
      in if d then dedupeByKey (\<lambda>n. serializeValueForKey H (JNumber n)) [] numeric else numeric)"
  by (cases d)
     (simp_all add: collectNumericValues_def collectNumericLoop_plain collectNumericLoop_distinct)

lemma dedupeByKey_empty: "(dedupeByKey key [] xs = []) = (xs = [])"
  by (cases xs) simp_all

lemma computeAggregateValue_without_column:
  assumes "resolveAggregateColumnRef g b = Inr (None, b')"
  shows "computeAggregateValue H b g rows =
      Inr (if func g = agg_count
           then number_of_nat (if agg_distinct g then countDistinctRows H rows else length rows)
           else JNull, b')"
  using assms by (simp add: computeAggregateValue_def)

lemma computeAggregateValue_numeric:
  assumes "func g \<noteq> agg_count" and "resolveAggregateColumnRef g b = Inr (Some c, b')"
  shows "computeAggregateValue H b g rows =
      Inr (let values = collectNumericValues H b' c rows (agg_distinct g)
           in if values = [] then JNull
              else JNumber (case func g of
                              agg_sum \<Rightarrow> foldl js_add (Num 0) values
                            | agg_avg \<Rightarrow>
                                js_div (foldl js_add (Num 0) values) (Num (of_nat (length values)))
                            | agg_min \<Rightarrow> Math_min values
                            | agg_max \<Rightarrow> Math_max values
                            | agg_count \<Rightarrow> NaN), b')"
  using assms
  by (cases "func g")
     (simp_all add: computeAggregateValue_def aggregateOfColumn_def Let_def sum_values_def)

text \<open>
  C8, as amended. In the fallback aggregation, on every list of rows: an aggregate whose
  column resolves to none gives, for \<open>count\<close>, the number of rows (so 0 on no row) when
  \<open>distinct\<close> is not set and the number of distinct serialised rows when it is, and
  \<open>null\<close> for the other functions. \<open>sum\<close>, \<open>avg\<close>, \<open>min\<close> and \<open>max\<close> of a column give
  \<open>null\<close> when no numeric value is collected and otherwise the sum (added from 0 in the
  order of the rows), that sum divided by the number of collected values, \<open>Math.min\<close> and
  \<open>Math.max\<close> of the collected values. The collected values are the values of the column
  coerced by \<open>Number\<close>, without \<open>null\<close>, \<open>undefined\<close> and \<open>NaN\<close>, in the order of the rows
  and, when \<open>distinct\<close> is set, without the values whose serialisation was met before; so
  no value is collected exactly when no numeric value remains.
\<close>

theorem C8_fallback_aggregates:
  "(resolveAggregateColumnRef g b = Inr (None, b') \<longrightarrow>
      computeAggregateValue H b g rows =
        Inr (if func g = agg_count
             then number_of_nat (if agg_distinct g then countDistinctRows H rows else length rows)
             else JNull, b')) \<and>
   countDistinctRows H [] = 0 \<and>
   (func g \<noteq> agg_count \<and> resolveAggregateColumnRef g b = Inr (Some c, b') \<longrightarrow>
      computeAggregateValue H b g rows =
        Inr (let values = collectNumericValues H b' c rows (agg_distinct g)
             in if values = [] then JNull
                else JNumber (case func g of
                                agg_sum \<Rightarrow> foldl js_add (Num 0) values
                              | agg_avg \<Rightarrow>
                                  js_div (foldl js_add (Num 0) values) (Num (of_nat (length values)))
                              | agg_min \<Rightarrow> Math_min values
                              | agg_max \<Rightarrow> Math_max values
                              | agg_count \<Rightarrow> NaN), b')) \<and>
   collectNumericValues H b c rows d =
     (let numeric = filter (\<lambda>n. n \<noteq> NaN)
                      (map (js_Number H)
                         (filter (\<lambda>v. v \<noteq> JUndefined \<and> v \<noteq> JNull)
                            (map (\<lambda>r. getRowValueForColumn b r c) rows)))
      in if d then dedupeByKey (\<lambda>n. serializeValueForKey H (JNumber n)) [] numeric else numeric) \<and>
   (collectNumericValues H b c rows d = []) =
     (filter (\<lambda>n. n \<noteq> NaN)
        (map (js_Number H)
           (filter (\<lambda>v. v \<noteq> JUndefined \<and> v \<noteq> JNull)
              (map (\<lambda>r. getRowValueForColumn b r c) rows))) = [])"
proof (intro conjI impI)
  assume "resolveAggregateColumnRef g b = Inr (None, b')"
  then show "computeAggregateValue H b g rows =
        Inr (if func g = agg_count
             then number_of_nat (if agg_distinct g then countDistinctRows H rows else length rows)
             else JNull, b')"
    by (rule computeAggregateValue_without_column)
next
  show "countDistinctRows H [] = 0" by (simp add: countDistinctRows_def)
next
  assume "func g \<noteq> agg_count \<and> resolveAggregateColumnRef g b = Inr (Some c, b')"
  then show "computeAggregateValue H b g rows =
        Inr (let values = collectNumericValues H b' c rows (agg_distinct g)
             in if values = [] then JNull
                else JNumber (case func g of
                                agg_sum \<Rightarrow> foldl js_add (Num 0) values
                              | agg_avg \<Rightarrow>
                                  js_div (foldl js_add (Num 0) values) (Num (of_nat (length values)))
                              | agg_min \<Rightarrow> Math_min values
                              | agg_max \<Rightarrow> Math_max values
                              | agg_count \<Rightarrow> NaN), b')"
    using computeAggregateValue_numeric[of g b c b' H rows] by blast
next
  show "collectNumericValues H b c rows d =
     (let numeric = filter (\<lambda>n. n \<noteq> NaN)
                      (map (js_Number H)
                         (filter (\<lambda>v. v \<noteq> JUndefined \<and> v \<noteq> JNull)
                            (map (\<lambda>r. getRowValueForColumn b r c) rows)))
      in if d then dedupeByKey (\<lambda>n. serializeValueForKey H (JNumber n)) [] numeric else numeric)"
    by (rule collectNumericValues_characterised)
next
  show "(collectNumericValues H b c rows d = []) =
     (filter (\<lambda>n. n \<noteq> NaN)
        (map (js_Number H)
           (filter (\<lambda>v. v \<noteq> JUndefined \<and> v \<noteq> JNull)
              (map (\<lambda>r. getRowValueForColumn b r c) rows))) = [])"
    by (cases d) (simp_all add: collectNumericValues_characterised dedupeByKey_empty)
qed

text \<open>
  On the four rows of scenario S4: \<open>count()\<close> is 4, and the average of \<open>age\<close> (the column
  given as the object \<open>{ name: 'age' }\<close>) is 92 / 3 rounded to the nearest double,
  30.666666666666668.
\<close>

theorem C8_fallback_aggregates_witness:
  "computeAggregateValue plain_host profiles_builder (aggregateOf agg_count None) aggregate_rows
     = Inr (JNumber (Num 4), profiles_builder) \<and>
   computeAggregateValue plain_host profiles_builder
       \<lparr> func = agg_avg, agg_column = Some (FieldNamed ''age''), agg_distinct = False \<rparr> aggregate_rows
     = Inr (JNumber (Num (8631899285793451 / 281474976710656)), profiles_builder) \<and>
   collectNumericValues plain_host profiles_builder age_ref aggregate_rows False
     = [Num 21, Num 29, Num 42]"
proof -
  have r0: "resolveAggregateColumnRef (aggregateOf agg_count None) profiles_builder
             = Inr (None, profiles_builder)"
    by code_simp
  have r: "resolveAggregateColumnRef
             \<lparr> func = agg_avg, agg_column = Some (FieldNamed ''age''), agg_distinct = False \<rparr>
             profiles_builder
           = Inr (Some age_ref, profiles_builder)"
    by code_simp
  have v: "collectNumericValues plain_host profiles_builder age_ref aggregate_rows False
             = [Num 21, Num 29, Num 42]"
    by code_simp
  have q: "js_div (foldl js_add (Num 0) [Num 21, Num 29, Num 42]) (Num (of_nat 3))
             = Num (8631899285793451 / 281474976710656)"
    by code_simp
  have f: "func (aggregateOf agg_count None) = agg_count"
          "agg_distinct (aggregateOf agg_count None) = False"
    by (simp_all add: aggregateOf_def)
  have n: "length aggregate_rows = 4" by (simp add: aggregate_rows_def)
  note a = C8_fallback_aggregates[where g = "aggregateOf agg_count None" and H = plain_host
              and b = profiles_builder and b' = profiles_builder and rows = aggregate_rows]
  note c = C8_fallback_aggregates[where
              g = "\<lparr> func = agg_avg, agg_column = Some (FieldNamed ''age''), agg_distinct = False \<rparr>"
              and H = plain_host and b = profiles_builder and b' = profiles_builder
              and rows = aggregate_rows and c = age_ref]
  have 1: "computeAggregateValue plain_host profiles_builder (aggregateOf agg_count None) aggregate_rows
     = Inr (JNumber (Num 4), profiles_builder)"
    using a[THEN conjunct1, THEN mp, OF r0] f n by (simp add: number_of_nat_def)
  have 2: "computeAggregateValue plain_host profiles_builder
       \<lparr> func = agg_avg, agg_column = Some (FieldNamed ''age''), agg_distinct = False \<rparr> aggregate_rows
     = Inr (JNumber (Num (8631899285793451 / 281474976710656)), profiles_builder)"
    using c[THEN conjunct2, THEN conjunct2, THEN conjunct1] r v q by simp
  from 1 2 v show ?thesis by simp
qed

text \<open>
  The claim as stated fails on the aggregates with the \<open>distinct\<close> option: on two rows
  with the same content, \<open>count(undefined, { distinct: true })\<close> is 1, not the number of
  rows, and \<open>sum('age', { distinct: true })\<close> adds one of the two values 21.
\<close>

theorem C8_distinct_aggregates:
  "length twin_rows = 2 \<and>
   computeAggregateValue plain_host profiles_builder
       \<lparr> func = agg_count, agg_column = None, agg_distinct = True \<rparr> twin_rows
     = Inr (JNumber (Num 1), profiles_builder) \<and>
   computeAggregateValue plain_host profiles_builder
       \<lparr> func = agg_sum, agg_column = Some (FieldString ''age''), agg_distinct = True \<rparr> twin_rows
     = Inr (JNumber (Num 21), profiles_builder)"
  by code_simp

section \<open>Conditional update\<close>

text \<open>
  C1. The claim says that an update whose where is a condition tree other than an
  equality or IN on \<open>id\<close> first selects the matching subjects. With
  \<open>where(gt(age, 20))\<close> (and with \<open>where(eq(name, 'A'))\<close>) the update builder turns the
  comparison into the key/value map of its column and value, and the dialect sends the
  native UPDATE template for one subject URI, made from \<open>Date.now()\<close> (here 1700) since
  the map has no \<open>id\<close>; no \<open>SELECT ?subject\<close> is sent. A disjunction does take the
  select-then-update path.
\<close>

theorem C1_update_by_comparison_is_native:
  "update_execute world_all_present plain_host (Num 1700)
     (update_where (WhereTree (gt ''age'' (JNumber (Num 20))))
        (update_set [(''age'', JNumber (Num 99))] (newUpdate profiles)))
     (alice_dialect, [])
   = (Inr [],
      alice_dialect\<lparr> connected := True \<rparr>,
      [Fetch GET ''http://localhost:3000'',
       Fetch HEAD profiles_container,
       Fetch HEAD profiles_url,
       ExecuteOnResource profiles_url
         \<lparr> q_kind = UPDATE,
           q_statement = NativeUpdate ''http://localhost:3000/alice/drizzle-tests#1700''
                           [''age''] [(''age'', JNumber (Num 99))] \<rparr>]) \<and>
   update_execute world_all_present plain_host (Num 1700)
     (update_where (WhereTree (eq ''name'' (JStr ''A'')))
        (update_set [(''age'', JNumber (Num 99))] (newUpdate profiles)))
     (alice_dialect, [])
   = (Inr [],
      alice_dialect\<lparr> connected := True \<rparr>,
      [Fetch GET ''http://localhost:3000'',
       Fetch HEAD profiles_container,
       Fetch HEAD profiles_url,
       ExecuteOnResource profiles_url
         \<lparr> q_kind = UPDATE,
           q_statement = NativeUpdate ''http://localhost:3000/alice/drizzle-tests#1700''
                           [''age''] [(''age'', JNumber (Num 99))] \<rparr>]) \<and>
   update_execute world_all_present plain_host (Num 1700)
     (update_where (WhereTree (or_cond [eq ''name'' (JStr ''A''), eq ''name'' (JStr ''C'')]))
        (update_set [(''age'', JNumber (Num 99))] (newUpdate profiles)))
     (alice_dialect, [])
   = (Inr [],
      alice_dialect,
      [Fetch HEAD profiles_container,
       Fetch HEAD profiles_url,
       ExecuteOnResource profiles_url
         \<lparr> q_kind = SELECT,
           q_statement = SelectSubjects (or_cond [eq ''name'' (JStr ''A''), eq ''name'' (JStr ''C'')]) \<rparr>])"
  by code_simp

section \<open>Delete of a missing resource\<close>

text \<open>
  C5. The claim says that a delete whose resource does not exist succeeds with
  \<open>[{success: true, source, status: 404}]\<close> for condition-tree where arguments as for
  key/value maps. With \<open>where(or(eq(name, 'A'), eq(name, 'C')))\<close> (and with
  \<open>where(isNull(age))\<close>) the delete raises \<open>Resource not found\<close>; with \<open>where({ id: 'p1' })\<close>
  it answers as the claim says. No statement is sent in either case.
\<close>

theorem C5_complex_delete_of_missing_resource_throws:
  "delete_execute world_resource_missing plain_host (Num 1700)
     (delete_where (WhereTree (or_cond [eq ''name'' (JStr ''A''), eq ''name'' (JStr ''C'')]))
        (newDelete profiles))
     (alice_dialect, [])
   = (Inl (ResourceNotFound profiles_url),
      alice_dialect,
      [Fetch HEAD profiles_container, Fetch HEAD profiles_url]) \<and>
   delete_execute world_resource_missing plain_host (Num 1700)
     (delete_where (WhereTree (isNull ''age'')) (newDelete profiles))
     (alice_dialect, [])
   = (Inl (ResourceNotFound profiles_url),
      alice_dialect,
      [Fetch HEAD profiles_container, Fetch HEAD profiles_url]) \<and>
   delete_execute world_resource_missing plain_host (Num 1700)
     (delete_where (WhereObject [(''id'', JStr ''p1'')]) (newDelete profiles))
     (alice_dialect, [])
   = (Inr [[(''success'', JBool True), (''source'', JStr profiles_url),
            (''status'', JNumber (Num 404))]],
      alice_dialect\<lparr> connected := True \<rparr>,
      [Fetch GET ''http://localhost:3000'', Fetch HEAD profiles_container, Fetch HEAD profiles_url])"
  by code_simp

section \<open>Insert of an empty batch\<close>

text \<open>
  C6, as amended. Inserting an empty batch never returns a result, and sends no preflight
  request on the container or the resource and no statement. On a connected dialect it
  raises \<open>INSERT operation requires at least one value\<close> without any request. On a dialect
  that is not connected yet it first probes the pod root with one GET: it raises that
  error when the probe answers with a success status (the dialect is then connected), it
  raises \<open>Failed to connect to Pod\<close> with the status when the probe answers with another
  status, and it raises the error of the request when the probe is rejected.
\<close>

theorem C6_empty_batch_insert_throws:
  "insert_execute W H now (insert_values (Batch []) (newInsert t)) (d, tr) =
     (if connected d then (Inl InsertRequiresValue, (d, tr))
      else case fetch W tr GET (podUrl (converter d)) of
             Rejected \<Rightarrow> (Inl NetworkError, (d, tr @ [Fetch GET (podUrl (converter d))]))
           | Response r \<Rightarrow>
               if ok r
               then (Inl InsertRequiresValue,
                     (d\<lparr> connected := True \<rparr>, tr @ [Fetch GET (podUrl (converter d))]))
               else (Inl (FailedToConnect (status r)),
                     (d, tr @ [Fetch GET (podUrl (converter d))])))"
  by (simp add: insert_execute_def insert_values_def newInsert_def query_def connect_def
        bindIO_def returnIO_def throwIO_def doFetch_def Let_def
      split: fetch_result.splits)

text \<open>
  The claim as stated fails: on a pod where everything exists, the insert of an empty
  batch ends with the error, after one request.
\<close>

theorem C6_empty_batch_insert_example:
  "insert_execute world_all_present plain_host (Num 1700)
     (insert_values (Batch []) (newInsert profiles)) (alice_dialect, [])
   = (Inl InsertRequiresValue,
      alice_dialect\<lparr> connected := True \<rparr>,
      [Fetch GET ''http://localhost:3000''])"
  by code_simp

section \<open>The in-memory steps do not read the joins or the modifiers\<close>

lemma onBuilder_simps [simp]:
  "onBuilder M (Inl e) = Inl e"
  "onBuilder M (Inr (r, b)) = Inr (r, M b)"
  by (simp_all add: onBuilder_def)

lemma onBuilder_case:
  "case_sum g (case_prod f) (onBuilder M x) = case_sum g (\<lambda>(r, b). f r (M b)) x"
  by (simp add: onBuilder_def split: sum.splits prod.splits)

lemma map_sum_case:
  "case_sum g f (map_sum id M x) = case_sum g (\<lambda>b. f (M b)) x"
  by (cases x) simp_all

lemma reshape_fields [simp]:
  "selectedTable (reshape js l off ob d b) = selectedTable b"
  "whereConditions (reshape js l off ob d b) = whereConditions b"
  "conditionTree (reshape js l off ob d b) = conditionTree b"
  "selectedFields (reshape js l off ob d b) = selectedFields b"
  "tableAliases (reshape js l off ob d b) = tableAliases b"
  "aliasToTable (reshape js l off ob d b) = aliasToTable b"
  "aliasUsage (reshape js l off ob d b) = aliasUsage b"
  "primaryAlias (reshape js l off ob d b) = primaryAlias b"
  "joinFilters (reshape js l off ob d b) = joinFilters b"
  "groupByColumns (reshape js l off ob d b) = groupByColumns b"
  "joins (reshape js l off ob d b) = js"
  "limitCount (reshape js l off ob d b) = l"
  "offsetCount (reshape js l off ob d b) = off"
  "orderByClauses (reshape js l off ob d b) = ob"
  "isDistinct (reshape js l off ob d b) = d"
  by (simp_all add: reshape_def)

lemma reshape_own:
  "reshape (joins b) (limitCount b) (offsetCount b) (orderByClauses b) (isDistinct b) b = b"
  by (simp add: reshape_def)

lemma ensureAliasForTable_reshape:
  "ensureAliasForTable t (reshape js l off ob d b) =
     (fst (ensureAliasForTable t b), reshape js l off ob d (snd (ensureAliasForTable t b)))"
  by (simp add: ensureAliasForTable_def Let_def reshape_def)

lemma resolveColumnReference_reshape:
  "resolveColumnReference f fb (reshape js l off ob d b) =
     onBuilder (reshape js l off ob d) (resolveColumnReference f fb b)"
proof (cases f)
  case (FieldString s)
  then show ?thesis
    by (simp add: Let_def split: prod.splits option.splits)
next
  case (FieldColumn c t)
  then show ?thesis
    by (cases t) (simp_all add: ensureAliasForTable_reshape split: prod.splits)
next
  case (FieldNamed n)
  then show ?thesis by simp
next
  case FieldOther
  then show ?thesis by simp
qed

lemma getRowValueForColumn_reshape [simp]:
  "getRowValueForColumn (reshape js l off ob d b) = getRowValueForColumn b"
  by (intro ext) (simp add: getRowValueForColumn_def getColumnKeyCandidates_def)

lemma collectNumericLoop_reshape [simp]:
  "collectNumericLoop H (reshape js l off ob d b) c dflag seen rows = collectNumericLoop H b c dflag seen rows"
  by (induction rows arbitrary: seen) (auto simp: Let_def)

lemma aggregateOfColumn_reshape [simp]:
  "aggregateOfColumn H (reshape js l off ob d b) g c rows = aggregateOfColumn H b g c rows"
  by (simp add: aggregateOfColumn_def collectNumericValues_def collectValuesForCount_def
           split: AggregateFunction.splits)

lemma resolveAggregateColumnRef_reshape:
  "resolveAggregateColumnRef g (reshape js l off ob d b) =
     onBuilder (reshape js l off ob d) (resolveAggregateColumnRef g b)"
  by (simp add: resolveAggregateColumnRef_def resolveColumnReference_reshape onBuilder_case
           del: resolveColumnReference.simps
           split: option.splits field_ref.splits sum.splits prod.splits)

lemma computeAggregateValue_reshape:
  "computeAggregateValue H (reshape js l off ob d b) g rows =
     onBuilder (reshape js l off ob d) (computeAggregateValue H b g rows)"
  by (simp add: computeAggregateValue_def resolveAggregateColumnRef_reshape onBuilder_case
           split: option.splits sum.splits prod.splits)

lemma buildAggregateLoop_reshape:
  "buildAggregateLoop H rows fs res (reshape js l off ob d b) =
     onBuilder (reshape js l off ob d) (buildAggregateLoop H rows fs res b)"
proof (induction fs arbitrary: res b)
  case Nil
  show ?case by simp
next
  case (Cons x fs)
  obtain a f where x: "x = (a, f)" by (cases x)
  show ?case
    unfolding x
    by (cases f)
       (simp_all add: Cons.IH computeAggregateValue_reshape onBuilder_case
                 split: sum.splits prod.splits)
qed

lemma buildAggregateRow_reshape:
  "buildAggregateRow H rows (reshape js l off ob d b) =
     onBuilder (reshape js l off ob d) (buildAggregateRow H rows b)"
  by (simp add: buildAggregateRow_def buildAggregateLoop_reshape split: option.splits)

lemma groupKey_reshape [simp]:
  "groupKey H (reshape js l off ob d b) = groupKey H b"
  by (intro ext) (simp add: groupKey_def)

lemma groupRows_reshape [simp]:
  "groupRows H (reshape js l off ob d b) rows = groupRows H b rows"
  by (simp add: groupRows_def)

lemma resolveSelectFieldColumn_reshape:
  "resolveSelectFieldColumn f (reshape js l off ob d b) =
     onBuilder (reshape js l off ob d) (resolveSelectFieldColumn f b)"
  by (cases f)
     (simp_all add: resolveColumnReference_reshape onBuilder_case
               del: resolveColumnReference.simps split: sum.splits prod.splits)

lemma groupByValidityLoop_reshape:
  "groupByValidityLoop cols fs (reshape js l off ob d b) =
     map_sum id (reshape js l off ob d) (groupByValidityLoop cols fs b)"
proof (induction fs arbitrary: b)
  case Nil
  show ?case by simp
next
  case (Cons x fs)
  obtain a f where x: "x = (a, f)" by (cases x)
  show ?case
    unfolding x
    by (cases f)
       (simp_all add: Cons.IH resolveSelectFieldColumn_reshape onBuilder_case Let_def
                 split: sum.splits prod.splits option.splits)
qed

lemma ensureGroupByValidity_reshape:
  "ensureGroupByValidity (reshape js l off ob d b) =
     map_sum id (reshape js l off ob d) (ensureGroupByValidity b)"
  by (simp add: ensureGroupByValidity_def groupByValidityLoop_reshape split: option.splits)

lemma projectGroupLoop_reshape:
  "projectGroupLoop (reshape js l off ob d b) av first fs projected =
     onBuilder (reshape js l off ob d) (projectGroupLoop b av first fs projected)"
proof (induction fs arbitrary: b projected)
  case Nil
  show ?case by simp
next
  case (Cons x fs)
  obtain a f where x: "x = (a, f)" by (cases x)
  show ?case
    unfolding x
    by (cases f)
       (simp_all add: Cons.IH resolveSelectFieldColumn_reshape onBuilder_case
                 split: sum.splits prod.splits option.splits)
qed

lemma groupedResults_reshape:
  "groupedResults H fs gs (reshape js l off ob d b) =
     onBuilder (reshape js l off ob d) (groupedResults H fs gs b)"
proof (induction gs arbitrary: b)
  case Nil
  show ?case by simp
next
  case (Cons g gs)
  show ?case
    by (simp add: Cons.IH buildAggregateRow_reshape projectGroupLoop_reshape onBuilder_case
             split: sum.splits prod.splits)
qed

lemma buildGroupedAggregateRows_reshape:
  "buildGroupedAggregateRows H rows (reshape js l off ob d b) =
     onBuilder (reshape js l off ob d) (buildGroupedAggregateRows H rows b)"
  by (simp add: buildGroupedAggregateRows_def ensureGroupByValidity_reshape map_sum_case
                groupedResults_reshape
           split: option.splits sum.splits)

lemma handleAggregateFallback_reshape:
  "handleAggregateFallback H rows (reshape js l off ob d b) =
     onBuilder (reshape js l off ob d) (handleAggregateFallback H rows b)"
  by (simp add: handleAggregateFallback_def buildAggregateRow_reshape onBuilder_case
                buildGroupedAggregateRows_reshape
           split: option.splits sum.splits prod.splits)

lemma resolveFieldBindingCandidates_reshape:
  "resolveFieldBindingCandidates a f (reshape js l off ob d b) =
     onBuilder (reshape js l off ob d) (resolveFieldBindingCandidates a f b)"
  by (cases f)
     (simp_all add: resolveColumnReference_reshape onBuilder_case Let_def
               del: resolveColumnReference.simps split: sum.splits prod.splits)

lemma projectLoop_reshape:
  "projectLoop r fs projected (reshape js l off ob d b) =
     onBuilder (reshape js l off ob d) (projectLoop r fs projected b)"
proof (induction fs arbitrary: b projected)
  case Nil
  show ?case by simp
next
  case (Cons x fs)
  obtain a f where x: "x = (a, f)" by (cases x)
  show ?case
    unfolding x
    by (cases f)
       (simp_all add: Cons.IH resolveFieldBindingCandidates_reshape onBuilder_case
                 split: sum.splits prod.splits option.splits)
qed

lemma projectSelectedRow_reshape:
  "projectSelectedRow r (reshape js l off ob d b) =
     onBuilder (reshape js l off ob d) (projectSelectedRow r b)"
  by (simp add: projectSelectedRow_def projectLoop_reshape split: option.splits)

lemma projectRows_reshape:
  "projectRows rows (reshape js l off ob d b) =
     onBuilder (reshape js l off ob d) (projectRows rows b)"
proof (induction rows arbitrary: b)
  case Nil
  show ?case by simp
next
  case (Cons r rows)
  show ?case
    by (simp add: Cons.IH projectSelectedRow_reshape onBuilder_case split: sum.splits prod.splits)
qed

lemma normalizeBaseRows_reshape:
  "normalizeBaseRows t rows (reshape js l off ob d b) =
     onBuilder (reshape js l off ob d) (normalizeBaseRows t rows b)"
  by (simp add: normalizeBaseRows_def ensureAliasForTable_reshape split_beta split: sum.splits)

lemma normalizeBaseRows_joins:
  assumes "normalizeBaseRows t rows b = Inr (rows1, b1)"
  shows "joins b1 = joins b"
proof -
  from assms have "b1 = b \<or> b1 = snd (ensureAliasForTable t b)"
    by (auto simp: normalizeBaseRows_def split: if_splits sum.splits prod.splits)
  then show ?thesis by (auto simp: ensureAliasForTable_snd)
qed

lemma evaluateBinaryCondition_reshape [simp]:
  "evaluateBinaryCondition H (reshape js l off ob d b) = evaluateBinaryCondition H b"
proof (intro ext)
  fix r operator column v tbl
  show "evaluateBinaryCondition H (reshape js l off ob d b) r operator column v tbl =
        evaluateBinaryCondition H b r operator column v tbl"
    unfolding evaluateBinaryCondition_def
    by (simp only: resolveColumnReference_reshape onBuilder_case conditionColumnKey_def
                   reshape_fields getRowValueForColumn_reshape)
qed

lemma evaluateUnaryCondition_reshape [simp]:
  "evaluateUnaryCondition (reshape js l off ob d b) = evaluateUnaryCondition b"
proof (intro ext)
  fix r operator column tbl operand
  show "evaluateUnaryCondition (reshape js l off ob d b) r operator column tbl operand =
        evaluateUnaryCondition b r operator column tbl operand"
    unfolding evaluateUnaryCondition_def
    by (simp only: resolveColumnReference_reshape onBuilder_case conditionColumnKey_def
                   reshape_fields getRowValueForColumn_reshape)
qed

lemma evaluateEvery_reshape [simp]:
  "evaluateEvery H (reshape js l off ob d b) = evaluateEvery H b"
  by (intro ext) (simp add: evaluateEvery_def)

lemma filterRows_reshape [simp]:
  "filterRows H (reshape js l off ob d b) fs rows = filterRows H b fs rows"
  by (induction rows) (simp_all split: sum.splits)

lemma applyJoinFilters_reshape [simp]:
  "applyJoinFilters H (reshape js l off ob d b) rows = applyJoinFilters H b rows"
  by (simp add: applyJoinFilters_def)

lemma uniqueBaseValues_reshape [simp]:
  "uniqueBaseValues H (reshape js l off ob d b) = uniqueBaseValues H b"
  by (intro ext) (simp add: uniqueBaseValues_def)

lemma joinValueMap_reshape [simp]:
  "joinValueMap H (reshape js l off ob d b) = joinValueMap H b"
  by (intro ext) (simp add: joinValueMap_def)

lemma mergeBaseRow_reshape [simp]:
  "mergeBaseRow H (reshape js l off ob d b) = mergeBaseRow H b"
  by (intro ext) (simp add: mergeBaseRow_def)

lemma mergeRowsWithJoin_reshape [simp]:
  "mergeRowsWithJoin H (reshape js l off ob d b) = mergeRowsWithJoin H b"
  by (intro ext) (simp add: mergeRowsWithJoin_def cong: list.case_cong)

lemma fetchJoinRows_reshape [simp]:
  "fetchJoinRows E H (reshape js l off ob d b) = fetchJoinRows E H b"
  by (intro ext) (simp add: fetchJoinRows_def cong: list.case_cong)

lemma applyJoins_reshape [simp]:
  "applyJoins E H (reshape js l off ob d b) js' rows sent = applyJoins E H b js' rows sent"
  by (induction js' arbitrary: rows sent) (simp_all split: prod.splits sum.splits)

lemma shouldUseAggregateFallback_reshape [simp]:
  "shouldUseAggregateFallback (reshape js l off ob d b) = shouldUseAggregateFallback b"
  by (simp add: shouldUseAggregateFallback_def)

lemma hasMixedAggregateSelection_reshape [simp]:
  "hasMixedAggregateSelection (reshape js l off ob d b) = hasMixedAggregateSelection b"
  by (simp add: hasMixedAggregateSelection_def)

lemma applyJoins_sent:
  "\<exists>rest. snd (applyJoins E H b js rows sent) = sent @ rest"
proof (induction js arbitrary: rows sent)
  case Nil
  show ?case by simp
next
  case (Cons j js)
  obtain res sent' where f: "fetchJoinRows E H b sent j rows = (res, sent')"
    by (cases "fetchJoinRows E H b sent j rows")
  then have s: "\<exists>rest. sent' = sent @ rest"
    by (auto simp: fetchJoinRows_def Let_def split: list.splits if_splits)
  show ?case
  proof (cases res)
    case (Inl e)
    with f s show ?thesis by simp
  next
    case (Inr joinRows)
    from Cons.IH[of "mergeRowsWithJoin H b rows j joinRows" sent'] s f Inr
    show ?thesis by auto
  qed
qed

lemma applyJoinFallback_sent:
  assumes "applyJoinFallback E H b rows sent = (res, sent')"
  shows "\<exists>rest. sent' = sent @ rest"
  using applyJoins_sent[of E H b "joins b" rows sent] assms
  by (simp add: applyJoinFallback_def)

lemma finishFallback_sent:
  "\<exists>rest. snd (finishFallback E H b t rows sent) = sent @ rest"
  unfolding finishFallback_def
  by (auto split: sum.splits prod.splits if_splits dest: applyJoinFallback_sent)

lemma handleAggregateFallback_result_reshape:
  "(case handleAggregateFallback H rows (reshape js l off ob d b) of
      Inl e \<Rightarrow> Inl e
    | Inr (res, b'') \<Rightarrow> Inr res) =
   (case handleAggregateFallback H rows b of
      Inl e \<Rightarrow> Inl e
    | Inr (res, b'') \<Rightarrow> Inr res)"
  by (simp add: handleAggregateFallback_reshape onBuilder_case split: sum.splits prod.splits)

lemma projectRows_result_reshape:
  "(case projectRows rows (reshape js l off ob d b) of
      Inl e \<Rightarrow> Inl e
    | Inr (res, b'') \<Rightarrow> Inr res) =
   (case projectRows rows b of
      Inl e \<Rightarrow> Inl e
    | Inr (res, b'') \<Rightarrow> Inr res)"
  by (simp add: projectRows_reshape onBuilder_case split: sum.splits prod.splits)

lemma finishFallback_reshape:
  assumes n: "(js = []) = (joins b = [])"
    and a: "\<And>b1 rows sent. applyJoins E H b1 js rows sent = applyJoins E H b1 (joins b) rows sent"
  shows "finishFallback E H (reshape js l off ob d b) t rows sent = finishFallback E H b t rows sent"
proof (cases "joins b = []")
  case True
  with n have "js = []" by simp
  with True show ?thesis
    unfolding finishFallback_def
    by (simp add: handleAggregateFallback_result_reshape projectRows_result_reshape)
next
  case False
  with n have js: "js \<noteq> []" by simp
  show ?thesis
  proof (cases "normalizeBaseRows t rows b")
    case (Inl e)
    with False js show ?thesis
      unfolding finishFallback_def by (simp add: normalizeBaseRows_reshape)
  next
    case (Inr p)
    obtain rows1 b1 where p: "p = (rows1, b1)" by (cases p)
    from Inr p have j1: "joins b1 = joins b" by (simp add: normalizeBaseRows_joins)
    obtain res sent' where aj: "applyJoins E H b1 (joins b) rows1 sent = (res, sent')"
      by (cases "applyJoins E H b1 (joins b) rows1 sent")
    show ?thesis
    proof (cases res)
      case (Inl e)
      with False js Inr p j1 aj show ?thesis
        unfolding finishFallback_def applyJoinFallback_def
        by (simp add: normalizeBaseRows_reshape a)
    next
      case rows2: (Inr rows2)
      show ?thesis
      proof (cases "applyJoinFilters H b1 rows2")
        case (Inl e)
        with False js Inr p j1 aj rows2 show ?thesis
          unfolding finishFallback_def applyJoinFallback_def
          by (simp add: normalizeBaseRows_reshape a)
      next
        case rows3: (Inr rows3)
        with False js Inr p j1 aj rows2 show ?thesis
          unfolding finishFallback_def applyJoinFallback_def
          by (simp add: normalizeBaseRows_reshape a handleAggregateFallback_result_reshape projectRows_result_reshape)
      qed
    qed
  qed
qed

section \<open>Fallback select: what is sent and what is done in memory\<close>

lemma baseOperation_select: "baseOperation b t\<lparr> op_select := None \<rparr> = baseOperation b t"
  by (simp add: baseOperation_def)

lemma execute_fallback:
  assumes "selectedTable b = Some t"
    and "\<not> (length (groupByColumns b) = 0 \<and> hasMixedAggregateSelection b)"
    and "length (joins b) > 0 \<or> shouldUseAggregateFallback b"
  shows "execute E H b =
           (case E [] (baseOperation b t) of
              Inl e \<Rightarrow> (Inl e, [baseOperation b t])
            | Inr rows \<Rightarrow> finishFallback E H b t rows [baseOperation b t])"
  using assms by (auto simp: execute_def Let_def baseOperation_select)

lemma execute_fallback_sent:
  assumes "selectedTable b = Some t"
    and "\<not> (length (groupByColumns b) = 0 \<and> hasMixedAggregateSelection b)"
    and "length (joins b) > 0 \<or> shouldUseAggregateFallback b"
  shows "\<exists>rest. snd (execute E H b) = baseOperation b t # rest"
proof (cases "E [] (baseOperation b t)")
  case (Inl e)
  with execute_fallback[OF assms, of E H] show ?thesis by simp
next
  case (Inr rows)
  from finishFallback_sent[of E H b t rows "[baseOperation b t]"] obtain rest where
    "snd (finishFallback E H b t rows [baseOperation b t]) = [baseOperation b t] @ rest"
    by blast
  with execute_fallback[OF assms, of E H] Inr show ?thesis by simp
qed

lemma finishFallback_modifiers:
  "finishFallback E H
     (b\<lparr> limitCount := l, offsetCount := off, orderByClauses := ob, isDistinct := d \<rparr>) t rows sent =
   finishFallback E H b t rows sent"
proof -
  have e: "b\<lparr> limitCount := l, offsetCount := off, orderByClauses := ob, isDistinct := d \<rparr> =
        reshape (joins b) l off ob d b"
    by (simp add: reshape_def)
  show ?thesis
    unfolding e by (rule finishFallback_reshape) simp_all
qed

text \<open>
  C2, as amended. On the fallback path of a select (a table is selected, the selection is
  not the refused mix of aggregates and plain fields, and the builder has a join, a
  group-by column or only aggregates), the first operation sent to the engine is the
  select of the primary table with the where payload and without projection, and it
  carries the limit, the offset, the order and the distinct flag of the builder; the
  result is what the in-memory steps make of its rows, and these steps do not depend on
  the limit, the offset, the order or the distinct flag: nothing is applied again in
  memory.
\<close>

theorem C2_fallback_select_keeps_modifiers:
  assumes "selectedTable b = Some t"
    and "\<not> (length (groupByColumns b) = 0 \<and> hasMixedAggregateSelection b)"
    and "length (joins b) > 0 \<or> shouldUseAggregateFallback b"
  shows "execute E H b =
           (case E [] (baseOperation b t) of
              Inl e \<Rightarrow> (Inl e, [baseOperation b t])
            | Inr rows \<Rightarrow> finishFallback E H b t rows [baseOperation b t]) \<and>
         (\<exists>rest. snd (execute E H b) = baseOperation b t # rest) \<and>
         op_select (baseOperation b t) = None \<and>
         op_limit (baseOperation b t) = limitCount b \<and>
         op_offset (baseOperation b t) = offsetCount b \<and>
         op_orderBy (baseOperation b t) =
           (if orderByClauses b = [] then None else Some (orderByClauses b)) \<and>
         op_distinct (baseOperation b t) = (if isDistinct b then Some True else None) \<and>
         finishFallback E H
           (b\<lparr> limitCount := l, offsetCount := off, orderByClauses := ob, isDistinct := d \<rparr>)
           t rows sent =
         finishFallback E H b t rows sent"
proof (intro conjI)
  show "execute E H b =
           (case E [] (baseOperation b t) of
              Inl e \<Rightarrow> (Inl e, [baseOperation b t])
            | Inr rows \<Rightarrow> finishFallback E H b t rows [baseOperation b t])"
    using assms by (rule execute_fallback)
  show "\<exists>rest. snd (execute E H b) = baseOperation b t # rest"
    using assms by (rule execute_fallback_sent)
  show "finishFallback E H
           (b\<lparr> limitCount := l, offsetCount := off, orderByClauses := ob, isDistinct := d \<rparr>)
           t rows sent =
         finishFallback E H b t rows sent"
    by (rule finishFallback_modifiers)
qed (simp_all add: baseOperation_def)

theorem C2_fallback_select_keeps_modifiers_witness:
  "(\<exists>rest. snd (execute blog_engine plain_host limited_join_builder) =
             baseOperation limited_join_builder posts # rest) \<and>
   op_select (baseOperation limited_join_builder posts) = None \<and>
   op_limit (baseOperation limited_join_builder posts) = limitCount limited_join_builder \<and>
   limitCount limited_join_builder = Some 1"
proof -
  have t: "selectedTable limited_join_builder = Some posts" by code_simp
  have m: "\<not> (length (groupByColumns limited_join_builder) = 0 \<and>
               hasMixedAggregateSelection limited_join_builder)"
    by code_simp
  have j: "length (joins limited_join_builder) > 0 \<or> shouldUseAggregateFallback limited_join_builder"
    by code_simp
  have l: "limitCount limited_join_builder = Some 1" by code_simp
  from C2_fallback_select_keeps_modifiers[OF t m j, of blog_engine plain_host] l
  show ?thesis by blast
qed

text \<open>
  The claim as stated fails: with \<open>limit(1)\<close> on a join of the post with the two users of
  its author's name, the select of \<open>posts\<close> sent to the engine carries the limit 1, and the
  result has the two merged rows.
\<close>

theorem C2_limit_sent_and_not_applied_again:
  "op_limit (hd (snd (execute blog_engine plain_host limited_join_builder))) = Some 1 \<and>
   fst (execute blog_engine plain_host limited_join_builder) =
     Inr [[(''subject'', JStr ''http://localhost:3000/alice/drizzle-tests/posts#post-1''),
           (''title'', JStr ''Solid Intro''), (''authorId'', JStr ''user-1''),
           (''posts.subject'', JStr ''http://localhost:3000/alice/drizzle-tests/posts#post-1''),
           (''posts.title'', JStr ''Solid Intro''), (''posts.authorId'', JStr ''user-1''),
           (''id'', JStr ''post-1''), (''posts.id'', JStr ''post-1''),
           (''users.subject'', JStr ''http://localhost:3000/alice/drizzle-tests/users#user-1''),
           (''users.name'', JStr ''user-1''), (''users.id'', JStr ''user-1'')],
          [(''subject'', JStr ''http://localhost:3000/alice/drizzle-tests/posts#post-1''),
           (''title'', JStr ''Solid Intro''), (''authorId'', JStr ''user-1''),
           (''posts.subject'', JStr ''http://localhost:3000/alice/drizzle-tests/posts#post-1''),
           (''posts.title'', JStr ''Solid Intro''), (''posts.authorId'', JStr ''user-1''),
           (''id'', JStr ''post-1''), (''posts.id'', JStr ''post-1''),
           (''users.subject'', JStr ''http://localhost:3000/alice/drizzle-tests/users#user-2''),
           (''users.name'', JStr ''user-1''), (''users.id'', JStr ''user-2'')]]"
  by code_simp

section \<open>Joins with several conditions\<close>

lemma firstConditionOnly_fields [simp]:
  "join_type (firstConditionOnly j) = join_type j"
  "join_table (firstConditionOnly j) = join_table j"
  "join_alias (firstConditionOnly j) = join_alias j"
  "rawCondition (firstConditionOnly j) = rawCondition j"
  "resolvedConditions (firstConditionOnly j) = map_option (take 1) (resolvedConditions j)"
  by (simp_all add: firstConditionOnly_def)

lemma joinRefOf_first [simp]: "joinRefOf (firstConditionOnly j) = joinRefOf j"
  by (intro ext) (simp add: joinRefOf_def)

lemma baseRefOf_first [simp]: "baseRefOf (firstConditionOnly j) = baseRefOf j"
  by (intro ext) (simp add: baseRefOf_def)

lemma createEmptyJoinRow_first [simp]:
  "createEmptyJoinRow (firstConditionOnly j) = createEmptyJoinRow j"
  by (simp add: createEmptyJoinRow_def)

lemma joinQueryBuilder_first [simp]: "joinQueryBuilder (firstConditionOnly j) = joinQueryBuilder j"
  by (intro ext) (simp add: joinQueryBuilder_def Let_def split: option.splits)

lemma normalizeJoinRows_first [simp]: "normalizeJoinRows (firstConditionOnly j) = normalizeJoinRows j"
  by (intro ext) (simp add: normalizeJoinRows_def)

lemma mergeBaseRow_first [simp]: "mergeBaseRow H b (firstConditionOnly j) = mergeBaseRow H b j"
  by (intro ext) (simp add: mergeBaseRow_def Let_def)

lemma mergeRowsWithJoin_first:
  "mergeRowsWithJoin H b baseRows (firstConditionOnly j) joinRows =
   mergeRowsWithJoin H b baseRows j joinRows"
proof (cases "resolvedConditions j")
  case None
  then show ?thesis by (simp add: mergeRowsWithJoin_def)
next
  case (Some cs)
  then show ?thesis by (cases cs) (simp_all add: mergeRowsWithJoin_def)
qed

lemma fetchJoinRows_first:
  "fetchJoinRows E H b sent (firstConditionOnly j) baseRows = fetchJoinRows E H b sent j baseRows"
proof (cases "resolvedConditions j")
  case None
  then show ?thesis by (simp add: fetchJoinRows_def)
next
  case (Some cs)
  then show ?thesis by (cases cs) (simp_all add: fetchJoinRows_def Let_def split: sum.splits)
qed

lemma mergeRowsWithJoin_hash_key:
  assumes "resolvedConditions j = Some (c # cs)"
  shows "mergeRowsWithJoin H b baseRows j joinRows =
           concat (map (mergeBaseRow H b j (baseRefOf j c)
                          (joinValueMap H b (joinRefOf j c) joinRows)) baseRows)"
  using assms by (simp add: mergeRowsWithJoin_def)

lemma applyJoins_first:
  "applyJoins E H b (map firstConditionOnly js) rows sent = applyJoins E H b js rows sent"
  by (induction js arbitrary: rows sent)
     (simp_all add: fetchJoinRows_first mergeRowsWithJoin_first split: prod.splits sum.splits)

lemma execute_first:
  "execute E H (b\<lparr> joins := map firstConditionOnly (joins b) \<rparr>) = execute E H b"
proof -
  have r: "b\<lparr> joins := map firstConditionOnly (joins b) \<rparr> =
           reshape (map firstConditionOnly (joins b)) (limitCount b) (offsetCount b)
             (orderByClauses b) (isDistinct b) b"
    by (simp add: reshape_def)
  have op: "baseOperation (reshape js (limitCount b) (offsetCount b)
              (orderByClauses b) (isDistinct b) b) t = baseOperation b t" for js t
    by (simp add: baseOperation_def cong: option.case_cong)
  have f: "finishFallback E H (reshape (map firstConditionOnly (joins b)) (limitCount b)
              (offsetCount b) (orderByClauses b) (isDistinct b) b) t rows sent =
           finishFallback E H b t rows sent" for t rows sent
    by (rule finishFallback_reshape) (simp_all add: applyJoins_first)
  show ?thesis
    unfolding r
  proof (cases "selectedTable b")
    case None
    then show "execute E H (reshape (map firstConditionOnly (joins b)) (limitCount b)
                 (offsetCount b) (orderByClauses b) (isDistinct b) b) = execute E H b"
      by (simp add: execute_def)
  next
    case (Some t)
    show "execute E H (reshape (map firstConditionOnly (joins b)) (limitCount b)
            (offsetCount b) (orderByClauses b) (isDistinct b) b) = execute E H b"
    proof (cases "groupByColumns b = [] \<and> hasMixedAggregateSelection b")
      case True
      with Some show ?thesis by (simp add: execute_def)
    next
      case mixed: False
      show ?thesis
      proof (cases "joins b = [] \<and> \<not> shouldUseAggregateFallback b")
        case True
        with Some mixed show ?thesis
          by (simp add: execute_def op Let_def projectRows_result_reshape
                   cong: sum.case_cong if_cong)
      next
        case False
        with Some mixed show ?thesis
          by (auto simp: execute_def op f Let_def cong: sum.case_cong)
      qed
    qed
  qed
qed

text \<open>
  C3, as amended. Of the resolved conditions of a join only the first one is used: it is
  the hash key of the merge of the base rows with the joined rows (and the key of the
  values for which joined rows are fetched). The other conditions are resolved and
  checked when the join is registered and are not evaluated afterwards: the merge, the
  fetch and the whole select give the same with the first condition alone, and
  registering a join adds no post-filter (the post-filters are the where conditions on
  an alias other than the primary one).
\<close>

theorem C3_only_first_join_condition_is_used:
  "(resolvedConditions j = Some (c # cs) \<longrightarrow>
      mergeRowsWithJoin H b baseRows j joinRows =
        concat (map (mergeBaseRow H b j (baseRefOf j c)
                       (joinValueMap H b (joinRefOf j c) joinRows)) baseRows)) \<and>
   mergeRowsWithJoin H b baseRows (firstConditionOnly j) joinRows =
     mergeRowsWithJoin H b baseRows j joinRows \<and>
   fetchJoinRows E H b sent (firstConditionOnly j) baseRows = fetchJoinRows E H b sent j baseRows \<and>
   (addJoin ty t cond b = Inr b' \<longrightarrow> joinFilters b' = joinFilters b) \<and>
   execute E H (b\<lparr> joins := map firstConditionOnly (joins b) \<rparr>) = execute E H b"
proof (intro conjI impI)
  assume "resolvedConditions j = Some (c # cs)"
  then show "mergeRowsWithJoin H b baseRows j joinRows =
        concat (map (mergeBaseRow H b j (baseRefOf j c)
                       (joinValueMap H b (joinRefOf j c) joinRows)) baseRows)"
    by (rule mergeRowsWithJoin_hash_key)
next
  show "mergeRowsWithJoin H b baseRows (firstConditionOnly j) joinRows =
     mergeRowsWithJoin H b baseRows j joinRows"
    by (rule mergeRowsWithJoin_first)
next
  show "fetchJoinRows E H b sent (firstConditionOnly j) baseRows = fetchJoinRows E H b sent j baseRows"
    by (rule fetchJoinRows_first)
next
  assume "addJoin ty t cond b = Inr b'"
  from addJoin_accepts[OF this] show "joinFilters b' = joinFilters b" by blast
next
  show "execute E H (b\<lparr> joins := map firstConditionOnly (joins b) \<rparr>) = execute E H b"
    by (rule execute_first)
qed

theorem C3_only_first_join_condition_is_used_witness:
  "mergeRowsWithJoin plain_host two_condition_builder
       [[(''posts.authorId'', JStr ''user-1'')]] (hd (joins two_condition_builder))
       [[(''users.id'', JStr ''user-1'')]] =
     concat (map (mergeBaseRow plain_host two_condition_builder (hd (joins two_condition_builder))
                    (baseRefOf (hd (joins two_condition_builder))
                       \<lparr> left = authorId_ref, right = user_id_ref \<rparr>)
                    (joinValueMap plain_host two_condition_builder
                       (joinRefOf (hd (joins two_condition_builder))
                          \<lparr> left = authorId_ref, right = user_id_ref \<rparr>)
                       [[(''users.id'', JStr ''user-1'')]]))
               [[(''posts.authorId'', JStr ''user-1'')]]) \<and>
   joinFilters two_condition_builder = joinFilters posts_builder \<and>
   execute blog_engine plain_host
     (two_condition_builder\<lparr> joins := map firstConditionOnly (joins two_condition_builder) \<rparr>) =
   execute blog_engine plain_host two_condition_builder"
proof -
  have rc: "resolvedConditions (hd (joins two_condition_builder)) =
              Some (\<lparr> left = authorId_ref, right = user_id_ref \<rparr> #
                    [\<lparr> left = title_ref, right = user_name_ref \<rparr>])"
    by code_simp
  have aj: "addJoin innerJoin users
              (ConditionObject [(''posts.authorId'', FieldString ''users.id''),
                                (''posts.title'', FieldString ''users.name'')]) posts_builder =
            Inr two_condition_builder"
    by code_simp
  from C3_only_first_join_condition_is_used[where j = "hd (joins two_condition_builder)"
         and c = "\<lparr> left = authorId_ref, right = user_id_ref \<rparr>"
         and cs = "[\<lparr> left = title_ref, right = user_name_ref \<rparr>]"
         and H = plain_host and b = posts_builder and E = blog_engine
         and ty = innerJoin and t = users
         and cond = "ConditionObject [(''posts.authorId'', FieldString ''users.id''),
                                      (''posts.title'', FieldString ''users.name'')]"
         and b' = two_condition_builder] aj
  have 2: "joinFilters two_condition_builder = joinFilters posts_builder" by blast
  from C3_only_first_join_condition_is_used[where j = "hd (joins two_condition_builder)"
         and c = "\<lparr> left = authorId_ref, right = user_id_ref \<rparr>"
         and cs = "[\<lparr> left = title_ref, right = user_name_ref \<rparr>]"
         and H = plain_host and b = two_condition_builder and E = blog_engine
         and baseRows = "[[(''posts.authorId'', JStr ''user-1'')]]"
         and joinRows = "[[(''users.id'', JStr ''user-1'')]]"] rc 2
  show ?thesis by blast
qed

text \<open>
  The claim as stated fails: the join of \<open>posts\<close> with \<open>users\<close> on
  \<open>{ 'posts.authorId': 'users.id', 'posts.title': 'users.name' }\<close> keeps the merged row of
  the post \<open>Solid Intro\<close> with the user named \<open>user-1\<close>, which violates the second entry,
  and no post-filter is registered.
\<close>

theorem C3_second_condition_not_applied:
  "joinFilters two_condition_builder = [] \<and>
   fst (execute blog_engine plain_host two_condition_builder) =
     Inr [[(''subject'', JStr ''http://localhost:3000/alice/drizzle-tests/posts#post-1''),
           (''title'', JStr ''Solid Intro''), (''authorId'', JStr ''user-1''),
           (''posts.subject'', JStr ''http://localhost:3000/alice/drizzle-tests/posts#post-1''),
           (''posts.title'', JStr ''Solid Intro''), (''posts.authorId'', JStr ''user-1''),
           (''id'', JStr ''post-1''), (''posts.id'', JStr ''post-1''),
           (''users.subject'', JStr ''http://localhost:3000/alice/drizzle-tests/users#user-1''),
           (''users.name'', JStr ''user-1''), (''users.id'', JStr ''user-1'')]]"
  by code_simp

end
